theory Spec2Isabelle
  imports Complex_Main
begin

section \<open>The relational store (managementSchema.py, DDL)\<close>

text \<open>
  Each table of the DDL is a list of rows in insertion order; a row is a record with one
  field per column. \<open>INTEGER\<close> columns are \<open>int\<close>, \<open>TEXT\<close> columns are
  \<open>string\<close>, a column without \<open>NOT NULL\<close> is an \<open>option\<close> (\<open>None\<close> is SQL
  \<open>NULL\<close>), and the \<open>REAL\<close> column \<open>grade\<close> is a \<open>real option\<close>: the value is
  only stored and read back, never computed with. Integers are Python's unbounded ones.
  SQLite stores 64-bit integers, and binding a Python integer outside that range to a
  statement raises \<open>OverflowError\<close>. The integers that arrive in a request (ids, and the
  attempt number given to managementCrud.py) are taken to be storable; the one integer
  that the code computes before it binds it, the next attempt number of main.py, is
  checked where it is bound (\<open>insert_Submissions\<close>).
\<close>

record User =
  u_id :: int
  u_email :: string
  u_full_name :: string
  u_role :: string
  u_created_at :: string

record Class =
  c_id :: int
  c_code :: string
  c_title :: string
  c_description :: "string option"
  c_created_at :: string

record TeacherClassRow =
  tc_teacher_id :: int
  tc_class_id :: int

record Enrollment =
  e_user_id :: int
  e_class_id :: int
  e_enrolled_at :: string

record Assignment =
  a_id :: int
  a_class_id :: int
  a_title :: string
  a_description :: "string option"
  a_due_at :: string
  a_created_at :: string

record Submission =
  s_id :: int
  s_assignment_id :: int
  s_student_id :: int
  s_attempt_number :: int
  s_submitted_at :: string
  s_grade :: "real option"
  s_feedback :: "string option"

record Attachment =
  t_id :: int
  t_submission_id :: int
  t_kind :: string
  t_value :: string
  t_created_at :: string

record Announcement =
  n_id :: int
  n_class_id :: int
  n_author_id :: int
  n_title :: string
  n_body :: string
  n_posted_at :: string

record db =
  Users :: "User list"
  Classes :: "Class list"
  TeacherClass :: "TeacherClassRow list"
  Enrollments :: "Enrollment list"
  Assignments :: "Assignment list"
  Submissions :: "Submission list"
  SubmissionAttachments :: "Attachment list"
  Announcements :: "Announcement list"

subsection \<open>Errors of the storage layer\<close>

text \<open>
  \<open>sqlite3.IntegrityError\<close> is raised for every constraint failure: a trigger's
  \<open>RAISE(ABORT, msg)\<close>, \<open>UNIQUE\<close> / \<open>PRIMARY KEY\<close>, \<open>NOT NULL\<close>, \<open>CHECK\<close> and
  foreign keys. \<open>sqlite3.OperationalError\<close> is raised for a statement that names a table
  that does not exist. \<open>OverflowError\<close> is what \<open>execute\<close> raises when a parameter
  does not fit a 64-bit integer; the statement is not run. \<open>message\<close> is \<open>str(e)\<close>.
\<close>

datatype constraint_failure =
    Raise_Abort string
  | Unique_Failed string
  | Not_Null_Failed string
  | Check_Failed string
  | Foreign_Key_Failed

datatype sqlite_error =
    IntegrityError constraint_failure
  | OperationalError string
  | OverflowError

fun message :: "sqlite_error \<Rightarrow> string" where
  "message (IntegrityError (Raise_Abort m)) = m"
| "message (IntegrityError (Unique_Failed cols)) = ''UNIQUE constraint failed: '' @ cols"
| "message (IntegrityError (Not_Null_Failed col)) = ''NOT NULL constraint failed: '' @ col"
| "message (IntegrityError (Check_Failed e)) = ''CHECK constraint failed: '' @ e"
| "message (IntegrityError Foreign_Key_Failed) = ''FOREIGN KEY constraint failed''"
| "message (OperationalError m) = m"
| "message OverflowError = ''Python int too large to convert to SQLite INTEGER''"

text \<open>The integers that SQLite stores and \<open>execute\<close> binds.\<close>

definition int64 :: "int \<Rightarrow> bool" where
  "int64 n = (- (2 ^ 63) \<le> n \<and> n \<le> 2 ^ 63 - 1)"

subsection \<open>Row ids, scalar subqueries and the triggers\<close>

text \<open>
  An \<open>INTEGER PRIMARY KEY\<close> that the statement does not supply is one more than the
  largest id of the table, and 1 in an empty table. (Only when that largest id is
  \<open>2^63 - 1\<close> does SQLite look for an unused id at random; no caller supplies an id,
  so ids grow by one from 1 and that case is not modelled.)
\<close>

definition next_rowid :: "int list \<Rightarrow> int" where
  "next_rowid ids = (if ids = [] then 1 else Max (set ids) + 1)"

text \<open>\<open>(SELECT role FROM Users WHERE id = ?)\<close>: the role of the first matching row, or NULL.\<close>

definition user_role :: "db \<Rightarrow> int \<Rightarrow> string option" where
  "user_role d i = map_option u_role (find (\<lambda>u. u_id u = i) (Users d))"

text \<open>
  \<open>x <> 'v'\<close> in a \<open>WHEN\<close> clause: with \<open>x\<close> NULL the comparison is NULL, which is not
  true, and the trigger does not fire.
\<close>

definition sql_neq :: "string option \<Rightarrow> string \<Rightarrow> bool" where
  "sql_neq x v = (case x of None \<Rightarrow> False | Some r \<Rightarrow> r \<noteq> v)"

text \<open>Each trigger is the truth of its \<open>WHEN\<close> clause: \<open>True\<close> means it raises.\<close>

definition trg_teacherclass_teacher_role :: "db \<Rightarrow> int \<Rightarrow> bool" where
  "trg_teacherclass_teacher_role d teacher_id = sql_neq (user_role d teacher_id) ''teacher''"

definition trg_enrollments_student_role :: "db \<Rightarrow> int \<Rightarrow> bool" where
  "trg_enrollments_student_role d user_id = sql_neq (user_role d user_id) ''student''"

definition trg_submissions_student_role :: "db \<Rightarrow> int \<Rightarrow> bool" where
  "trg_submissions_student_role d student_id = sql_neq (user_role d student_id) ''student''"

definition enrollment_keys :: "db \<Rightarrow> (int \<times> int) list" where
  "enrollment_keys d = map (\<lambda>e. (e_user_id e, e_class_id e)) (Enrollments d)"

definition teacherclass_keys :: "db \<Rightarrow> (int \<times> int) list" where
  "teacherclass_keys d = map (\<lambda>r. (tc_teacher_id r, tc_class_id r)) (TeacherClass d)"

text \<open>
  \<open>NOT EXISTS (SELECT 1 FROM Assignments a JOIN Enrollments e ON e.class_id = a.class_id
  AND e.user_id = NEW.student_id WHERE a.id = NEW.assignment_id)\<close>.
\<close>

definition trg_submissions_student_enrolled :: "db \<Rightarrow> int \<Rightarrow> int \<Rightarrow> bool" where
  "trg_submissions_student_enrolled d assignment_id student_id =
     (filter (\<lambda>a. a_id a = assignment_id \<and> (student_id, a_class_id a) \<in> set (enrollment_keys d))
        (Assignments d) = [])"

definition trg_announcements_author_is_assigned_teacher :: "db \<Rightarrow> int \<Rightarrow> int \<Rightarrow> bool" where
  "trg_announcements_author_is_assigned_teacher d class_id author_id =
     ((author_id, class_id) \<notin> set (teacherclass_keys d))"

subsection \<open>INSERT statements\<close>

text \<open>
  \<open>execute\<close> binds the parameters before the statement runs.
  An \<open>INSERT\<close> runs the table's \<open>BEFORE INSERT\<close> triggers first (the one created last
  is tried first), then the column checks (\<open>CHECK\<close>, then \<open>UNIQUE\<close>), then, at the end
  of the statement, the existence of the referenced parent rows. A failing statement
  changes nothing. The result of a successful one is \<open>lastrowid\<close> and the new store
  (the new store alone for the two join tables, whose \<open>lastrowid\<close> no caller reads).
  \<open>now\<close> is what \<open>datetime('now')\<close> returns for the default timestamp.
\<close>

definition insert_Users :: "string \<Rightarrow> string \<Rightarrow> string \<Rightarrow> string \<Rightarrow> db \<Rightarrow> sqlite_error + (int \<times> db)" where
  "insert_Users now email full_name role d =
     (if role \<notin> set [''teacher'', ''student'', ''admin'']
        then Inl (IntegrityError (Check_Failed ''role IN ('teacher','student','admin')''))
      else if email \<in> set (map u_email (Users d))
        then Inl (IntegrityError (Unique_Failed ''Users.email''))
      else let i = next_rowid (map u_id (Users d)) in
        Inr (i, d\<lparr>Users := Users d @
               [\<lparr>u_id = i, u_email = email, u_full_name = full_name, u_role = role,
                 u_created_at = now\<rparr>]\<rparr>))"

definition insert_Classes :: "string \<Rightarrow> string \<Rightarrow> string \<Rightarrow> string option \<Rightarrow> db \<Rightarrow> sqlite_error + (int \<times> db)" where
  "insert_Classes now code title description d =
     (if code \<in> set (map c_code (Classes d))
        then Inl (IntegrityError (Unique_Failed ''Classes.code''))
      else let i = next_rowid (map c_id (Classes d)) in
        Inr (i, d\<lparr>Classes := Classes d @
               [\<lparr>c_id = i, c_code = code, c_title = title, c_description = description,
                 c_created_at = now\<rparr>]\<rparr>))"

definition insert_TeacherClass :: "int \<Rightarrow> int \<Rightarrow> db \<Rightarrow> sqlite_error + db" where
  "insert_TeacherClass teacher_id class_id d =
     (if trg_teacherclass_teacher_role d teacher_id
        then Inl (IntegrityError (Raise_Abort
               ''TeacherClass.teacher_id must reference a user with role=teacher''))
      else if (teacher_id, class_id) \<in> set (teacherclass_keys d)
        then Inl (IntegrityError (Unique_Failed ''TeacherClass.teacher_id, TeacherClass.class_id''))
      else if teacher_id \<notin> set (map u_id (Users d)) then Inl (IntegrityError Foreign_Key_Failed)
      else if class_id \<notin> set (map c_id (Classes d)) then Inl (IntegrityError Foreign_Key_Failed)
      else Inr (d\<lparr>TeacherClass := TeacherClass d @
                 [\<lparr>tc_teacher_id = teacher_id, tc_class_id = class_id\<rparr>]\<rparr>))"

definition insert_Enrollments :: "string \<Rightarrow> int \<Rightarrow> int \<Rightarrow> db \<Rightarrow> sqlite_error + db" where
  "insert_Enrollments now user_id class_id d =
     (if trg_enrollments_student_role d user_id
        then Inl (IntegrityError (Raise_Abort
               ''Enrollments.user_id must reference a user with role=student''))
      else if (user_id, class_id) \<in> set (enrollment_keys d)
        then Inl (IntegrityError (Unique_Failed ''Enrollments.user_id, Enrollments.class_id''))
      else if user_id \<notin> set (map u_id (Users d)) then Inl (IntegrityError Foreign_Key_Failed)
      else if class_id \<notin> set (map c_id (Classes d)) then Inl (IntegrityError Foreign_Key_Failed)
      else Inr (d\<lparr>Enrollments := Enrollments d @
                 [\<lparr>e_user_id = user_id, e_class_id = class_id, e_enrolled_at = now\<rparr>]\<rparr>))"

definition insert_Assignments :: "string \<Rightarrow> int \<Rightarrow> string \<Rightarrow> string option \<Rightarrow> string \<Rightarrow> db \<Rightarrow> sqlite_error + (int \<times> db)" where
  "insert_Assignments now class_id title description due_at d =
     (if class_id \<notin> set (map c_id (Classes d)) then Inl (IntegrityError Foreign_Key_Failed)
      else let i = next_rowid (map a_id (Assignments d)) in
        Inr (i, d\<lparr>Assignments := Assignments d @
               [\<lparr>a_id = i, a_class_id = class_id, a_title = title, a_description = description,
                 a_due_at = due_at, a_created_at = now\<rparr>]\<rparr>))"

definition attempt_keys :: "db \<Rightarrow> (int \<times> int \<times> int) list" where
  "attempt_keys d = map (\<lambda>r. (s_assignment_id r, s_student_id r, s_attempt_number r)) (Submissions d)"

definition insert_Submissions :: "string \<Rightarrow> int \<Rightarrow> int \<Rightarrow> int \<Rightarrow> real option \<Rightarrow> string option \<Rightarrow> db \<Rightarrow> sqlite_error + (int \<times> db)" where
  "insert_Submissions now assignment_id student_id attempt_number grade feedback d =
     (if \<not> int64 attempt_number then Inl OverflowError
      else if trg_submissions_student_enrolled d assignment_id student_id
        then Inl (IntegrityError (Raise_Abort
               ''Student must be enrolled in the class for this assignment''))
      else if trg_submissions_student_role d student_id
        then Inl (IntegrityError (Raise_Abort
               ''Submissions.student_id must reference a user with role=student''))
      else if (assignment_id, student_id, attempt_number) \<in> set (attempt_keys d)
        then Inl (IntegrityError (Unique_Failed
               ''Submissions.assignment_id, Submissions.student_id, Submissions.attempt_number''))
      else if assignment_id \<notin> set (map a_id (Assignments d)) then Inl (IntegrityError Foreign_Key_Failed)
      else if student_id \<notin> set (map u_id (Users d)) then Inl (IntegrityError Foreign_Key_Failed)
      else let i = next_rowid (map s_id (Submissions d)) in
        Inr (i, d\<lparr>Submissions := Submissions d @
               [\<lparr>s_id = i, s_assignment_id = assignment_id, s_student_id = student_id,
                 s_attempt_number = attempt_number, s_submitted_at = now, s_grade = grade,
                 s_feedback = feedback\<rparr>]\<rparr>))"

definition insert_SubmissionAttachments :: "string \<Rightarrow> int \<Rightarrow> string \<Rightarrow> string \<Rightarrow> db \<Rightarrow> sqlite_error + (int \<times> db)" where
  "insert_SubmissionAttachments now submission_id kind val d =
     (if kind \<notin> set [''url'', ''file'']
        then Inl (IntegrityError (Check_Failed ''kind IN ('url','file')''))
      else if submission_id \<notin> set (map s_id (Submissions d)) then Inl (IntegrityError Foreign_Key_Failed)
      else let i = next_rowid (map t_id (SubmissionAttachments d)) in
        Inr (i, d\<lparr>SubmissionAttachments := SubmissionAttachments d @
               [\<lparr>t_id = i, t_submission_id = submission_id, t_kind = kind, t_value = val,
                 t_created_at = now\<rparr>]\<rparr>))"

definition insert_Announcements :: "string \<Rightarrow> int \<Rightarrow> int \<Rightarrow> string \<Rightarrow> string \<Rightarrow> db \<Rightarrow> sqlite_error + (int \<times> db)" where
  "insert_Announcements now class_id author_id title body d =
     (if trg_announcements_author_is_assigned_teacher d class_id author_id
        then Inl (IntegrityError (Raise_Abort
               ''Announcements.author_id must be a teacher assigned to this class''))
      else if class_id \<notin> set (map c_id (Classes d)) then Inl (IntegrityError Foreign_Key_Failed)
      else if author_id \<notin> set (map u_id (Users d)) then Inl (IntegrityError Foreign_Key_Failed)
      else let i = next_rowid (map n_id (Announcements d)) in
        Inr (i, d\<lparr>Announcements := Announcements d @
               [\<lparr>n_id = i, n_class_id = class_id, n_author_id = author_id, n_title = title,
                 n_body = body, n_posted_at = now\<rparr>]\<rparr>))"

subsection \<open>DELETE statements and the foreign-key actions\<close>

text \<open>
  \<open>ON DELETE CASCADE\<close>: deleting parent rows deletes, in the same statement, the child rows
  whose foreign key holds a deleted parent's id, and so on down the chain
  Assignments, Submissions, SubmissionAttachments. \<open>ON DELETE RESTRICT\<close>
  (Announcements.author_id): the statement fails while a child row references a parent
  row it would delete. \<open>rowcount\<close> counts the rows the statement itself deleted, not the
  rows its foreign-key actions removed.
\<close>

definition delete_SubmissionAttachments_where :: "(Attachment \<Rightarrow> bool) \<Rightarrow> db \<Rightarrow> db" where
  "delete_SubmissionAttachments_where P d =
     d\<lparr>SubmissionAttachments := filter (\<lambda>t. \<not> P t) (SubmissionAttachments d)\<rparr>"

definition delete_Submissions_where :: "(Submission \<Rightarrow> bool) \<Rightarrow> db \<Rightarrow> db" where
  "delete_Submissions_where P d =
     (let dead = map s_id (filter P (Submissions d)) in
      delete_SubmissionAttachments_where (\<lambda>t. t_submission_id t \<in> set dead)
        (d\<lparr>Submissions := filter (\<lambda>s. \<not> P s) (Submissions d)\<rparr>))"

definition delete_Assignments_where :: "(Assignment \<Rightarrow> bool) \<Rightarrow> db \<Rightarrow> db" where
  "delete_Assignments_where P d =
     (let dead = map a_id (filter P (Assignments d)) in
      delete_Submissions_where (\<lambda>s. s_assignment_id s \<in> set dead)
        (d\<lparr>Assignments := filter (\<lambda>a. \<not> P a) (Assignments d)\<rparr>))"

definition delete_Users :: "int \<Rightarrow> db \<Rightarrow> sqlite_error + (int \<times> db)" where
  "delete_Users user_id d =
     (let hit = filter (\<lambda>u. u_id u = user_id) (Users d); dead = map u_id hit in
      if filter (\<lambda>n. n_author_id n \<in> set dead) (Announcements d) \<noteq> []
        then Inl (IntegrityError Foreign_Key_Failed)
      else Inr (int (length hit),
             delete_Submissions_where (\<lambda>s. s_student_id s \<in> set dead)
               (d\<lparr>Users := filter (\<lambda>u. u_id u \<noteq> user_id) (Users d),
                  TeacherClass := filter (\<lambda>r. tc_teacher_id r \<notin> set dead) (TeacherClass d),
                  Enrollments := filter (\<lambda>e. e_user_id e \<notin> set dead) (Enrollments d)\<rparr>)))"

definition delete_Classes :: "int \<Rightarrow> db \<Rightarrow> sqlite_error + (int \<times> db)" where
  "delete_Classes class_id d =
     (let hit = filter (\<lambda>c. c_id c = class_id) (Classes d); dead = map c_id hit in
      Inr (int (length hit),
        delete_Assignments_where (\<lambda>a. a_class_id a \<in> set dead)
          (d\<lparr>Classes := filter (\<lambda>c. c_id c \<noteq> class_id) (Classes d),
             TeacherClass := filter (\<lambda>r. tc_class_id r \<notin> set dead) (TeacherClass d),
             Enrollments := filter (\<lambda>e. e_class_id e \<notin> set dead) (Enrollments d),
             Announcements := filter (\<lambda>n. n_class_id n \<notin> set dead) (Announcements d)\<rparr>)))"

definition delete_Assignments :: "int \<Rightarrow> db \<Rightarrow> sqlite_error + (int \<times> db)" where
  "delete_Assignments assignment_id d =
     Inr (int (length (filter (\<lambda>a. a_id a = assignment_id) (Assignments d))),
          delete_Assignments_where (\<lambda>a. a_id a = assignment_id) d)"

definition delete_Submissions :: "int \<Rightarrow> db \<Rightarrow> sqlite_error + (int \<times> db)" where
  "delete_Submissions submission_id d =
     Inr (int (length (filter (\<lambda>s. s_id s = submission_id) (Submissions d))),
          delete_Submissions_where (\<lambda>s. s_id s = submission_id) d)"

definition delete_SubmissionAttachments :: "int \<Rightarrow> db \<Rightarrow> sqlite_error + (int \<times> db)" where
  "delete_SubmissionAttachments attachment_id d =
     Inr (int (length (filter (\<lambda>t. t_id t = attachment_id) (SubmissionAttachments d))),
          delete_SubmissionAttachments_where (\<lambda>t. t_id t = attachment_id) d)"

definition delete_Enrollments :: "int \<Rightarrow> int \<Rightarrow> db \<Rightarrow> sqlite_error + (int \<times> db)" where
  "delete_Enrollments user_id class_id d =
     Inr (int (length (filter (\<lambda>e. e_user_id e = user_id \<and> e_class_id e = class_id) (Enrollments d))),
          d\<lparr>Enrollments :=
              filter (\<lambda>e. \<not> (e_user_id e = user_id \<and> e_class_id e = class_id)) (Enrollments d)\<rparr>)"

definition delete_TeacherClass :: "int \<Rightarrow> int \<Rightarrow> db \<Rightarrow> sqlite_error + (int \<times> db)" where
  "delete_TeacherClass teacher_id class_id d =
     Inr (int (length (filter (\<lambda>r. tc_teacher_id r = teacher_id \<and> tc_class_id r = class_id) (TeacherClass d))),
          d\<lparr>TeacherClass :=
              filter (\<lambda>r. \<not> (tc_teacher_id r = teacher_id \<and> tc_class_id r = class_id)) (TeacherClass d)\<rparr>)"

definition delete_Announcements :: "int \<Rightarrow> db \<Rightarrow> sqlite_error + (int \<times> db)" where
  "delete_Announcements announcement_id d =
     Inr (int (length (filter (\<lambda>n. n_id n = announcement_id) (Announcements d))),
          d\<lparr>Announcements := filter (\<lambda>n. n_id n \<noteq> announcement_id) (Announcements d)\<rparr>)"

subsection \<open>UPDATE statements\<close>

text \<open>
  The callers build the \<open>SET\<close> clause from the fields that are present: an argument
  \<open>None\<close> is a column that is not in the clause. Where the caller can bind Python's
  \<open>None\<close> to a column (the \<open>exclude_unset\<close> patches of main.py), the argument is an
  \<open>option option\<close> and \<open>Some None\<close> writes NULL. No trigger is declared on any
  \<open>UPDATE\<close>; the checks are \<open>NOT NULL\<close>, \<open>CHECK\<close> and \<open>UNIQUE\<close>, made only when a
  row matches. \<open>rowcount\<close> is the number of matching rows.
\<close>

definition assign :: "'a option \<Rightarrow> 'a \<Rightarrow> 'a" where
  "assign v old = (case v of None \<Rightarrow> old | Some x \<Rightarrow> x)"

definition assign_not_null :: "'a option option \<Rightarrow> 'a \<Rightarrow> 'a" where
  "assign_not_null v old = (case v of Some (Some x) \<Rightarrow> x | _ \<Rightarrow> old)"

definition update_Users :: "int \<Rightarrow> string option \<Rightarrow> string option \<Rightarrow> string option \<Rightarrow> db \<Rightarrow> sqlite_error + (int \<times> db)" where
  "update_Users user_id email full_name role d =
     (let hit = filter (\<lambda>u. u_id u = user_id) (Users d) in
      if hit = [] then Inr (0, d)
      else if (case role of None \<Rightarrow> False | Some r \<Rightarrow> r \<notin> set [''teacher'', ''student'', ''admin''])
        then Inl (IntegrityError (Check_Failed ''role IN ('teacher','student','admin')''))
      else if (case email of None \<Rightarrow> False
               | Some e \<Rightarrow> e \<in> set (map u_email (filter (\<lambda>u. u_id u \<noteq> user_id) (Users d))))
        then Inl (IntegrityError (Unique_Failed ''Users.email''))
      else Inr (int (length hit),
             d\<lparr>Users := map (\<lambda>u. if u_id u = user_id
                                 then u\<lparr>u_email := assign email (u_email u),
                                        u_full_name := assign full_name (u_full_name u),
                                        u_role := assign role (u_role u)\<rparr>
                                 else u) (Users d)\<rparr>))"

definition update_Classes :: "int \<Rightarrow> string option option \<Rightarrow> string option option \<Rightarrow> string option option \<Rightarrow> db \<Rightarrow> sqlite_error + (int \<times> db)" where
  "update_Classes class_id code title description d =
     (let hit = filter (\<lambda>c. c_id c = class_id) (Classes d) in
      if hit = [] then Inr (0, d)
      else if code = Some None then Inl (IntegrityError (Not_Null_Failed ''Classes.code''))
      else if title = Some None then Inl (IntegrityError (Not_Null_Failed ''Classes.title''))
      else if (case code of Some (Some x) \<Rightarrow>
                   x \<in> set (map c_code (filter (\<lambda>c. c_id c \<noteq> class_id) (Classes d)))
               | _ \<Rightarrow> False)
        then Inl (IntegrityError (Unique_Failed ''Classes.code''))
      else Inr (int (length hit),
             d\<lparr>Classes := map (\<lambda>c. if c_id c = class_id
                                   then c\<lparr>c_code := assign_not_null code (c_code c),
                                          c_title := assign_not_null title (c_title c),
                                          c_description := assign description (c_description c)\<rparr>
                                   else c) (Classes d)\<rparr>))"

definition update_Assignments :: "int \<Rightarrow> string option option \<Rightarrow> string option option \<Rightarrow> string option option \<Rightarrow> db \<Rightarrow> sqlite_error + (int \<times> db)" where
  "update_Assignments assignment_id title description due_at d =
     (let hit = filter (\<lambda>a. a_id a = assignment_id) (Assignments d) in
      if hit = [] then Inr (0, d)
      else if title = Some None then Inl (IntegrityError (Not_Null_Failed ''Assignments.title''))
      else if due_at = Some None then Inl (IntegrityError (Not_Null_Failed ''Assignments.due_at''))
      else Inr (int (length hit),
             d\<lparr>Assignments := map (\<lambda>a. if a_id a = assignment_id
                                   then a\<lparr>a_title := assign_not_null title (a_title a),
                                          a_description := assign description (a_description a),
                                          a_due_at := assign_not_null due_at (a_due_at a)\<rparr>
                                   else a) (Assignments d)\<rparr>))"

definition update_Submissions :: "int \<Rightarrow> real option option \<Rightarrow> string option option \<Rightarrow> db \<Rightarrow> sqlite_error + (int \<times> db)" where
  "update_Submissions submission_id grade feedback d =
     Inr (int (length (filter (\<lambda>s. s_id s = submission_id) (Submissions d))),
          d\<lparr>Submissions := map (\<lambda>s. if s_id s = submission_id
                                   then s\<lparr>s_grade := assign grade (s_grade s),
                                          s_feedback := assign feedback (s_feedback s)\<rparr>
                                   else s) (Submissions d)\<rparr>)"

section \<open>The request handlers (main.py)\<close>

subsection \<open>Request bodies\<close>

text \<open>
  The pydantic models of the request bodies. In the \<open>Update\<close> models read through
  \<open>patch.dict(exclude_unset=True)\<close> a field is \<open>None\<close> when the request leaves it out
  and \<open>Some None\<close> when the request sets it to null; \<open>UserUpdate\<close> is read with
  \<open>is not None\<close>, so one \<open>option\<close> is enough there.
\<close>

record UserCreate =
  uc_email :: string
  uc_full_name :: string
  uc_role :: string

record UserUpdate =
  uu_email :: "string option"
  uu_full_name :: "string option"
  uu_role :: "string option"

record ClassCreate =
  cc_code :: string
  cc_title :: string
  cc_description :: "string option"

record ClassUpdate =
  cu_code :: "string option option"
  cu_title :: "string option option"
  cu_description :: "string option option"

record TeacherClassCreate =
  tcc_teacher_id :: int
  tcc_class_id :: int

record EnrollmentCreate =
  ec_user_id :: int
  ec_class_id :: int

record AssignmentCreate =
  ac_class_id :: int
  ac_title :: string
  ac_description :: "string option"
  ac_due_at :: string

record AssignmentUpdate =
  au_title :: "string option option"
  au_description :: "string option option"
  au_due_at :: "string option option"

record SubmissionCreate =
  sc_assignment_id :: int
  sc_student_id :: int
  sc_attempt_number :: int
  sc_grade :: "real option"
  sc_feedback :: "string option"

record SubmissionUpdate =
  su_grade :: "real option option"
  su_feedback :: "string option option"

record AttachmentCreate =
  atc_submission_id :: int
  atc_kind :: string
  atc_value :: string

record AnnouncementCreate =
  anc_class_id :: int
  anc_author_id :: int
  anc_title :: string
  anc_body :: string

subsection \<open>Connections and failures\<close>

text \<open>
  A handler either raises \<open>HTTPException(status, detail)\<close> or lets an exception of the
  storage layer escape. \<open>get_conn\<close> is the context manager: the body works on the
  connection's view of the store and \<open>commit\<close> is reached only when the body returns;
  when it raises, the connection is closed uncommitted and the store stays as it was.
\<close>

datatype api_error = HTTPException nat string | Uncaught sqlite_error

definition get_conn :: "(db \<Rightarrow> 'e + ('a \<times> db)) \<Rightarrow> db \<Rightarrow> ('e + 'a) \<times> db" where
  "get_conn body store =
     (case body store of
        Inl e \<Rightarrow> (Inl e, store)
      | Inr (v, con) \<Rightarrow> (Inr v, con))"

text \<open>\<open>except sqlite3.IntegrityError as e: raise HTTPException(409, f"<prefix>{e}")\<close>.\<close>

definition except_IntegrityError :: "string \<Rightarrow> sqlite_error \<Rightarrow> api_error" where
  "except_IntegrityError prefix e =
     (case e of IntegrityError c \<Rightarrow> HTTPException 409 (prefix @ message e)
      | OperationalError m \<Rightarrow> Uncaught e
      | OverflowError \<Rightarrow> Uncaught e)"

subsection \<open>Users\<close>

definition create_user :: "string \<Rightarrow> UserCreate \<Rightarrow> db \<Rightarrow> (api_error + User option) \<times> db" where
  "create_user now user =
     get_conn (\<lambda>con.
       case insert_Users now (uc_email user) (uc_full_name user) (uc_role user) con of
         Inl e \<Rightarrow> Inl (except_IntegrityError ''User conflict: '' e)
       | Inr (uid, con') \<Rightarrow> Inr (find (\<lambda>u. u_id u = uid) (Users con'), con'))"

definition update_user :: "int \<Rightarrow> UserUpdate \<Rightarrow> db \<Rightarrow> (api_error + User) \<times> db" where
  "update_user user_id patch store =
     (if uu_email patch = None \<and> uu_full_name patch = None \<and> uu_role patch = None
        then (Inl (HTTPException 400 ''No fields to update''), store)
      else get_conn (\<lambda>con.
        case update_Users user_id (uu_email patch) (uu_full_name patch) (uu_role patch) con of
          Inl e \<Rightarrow> Inl (except_IntegrityError ''Update conflict: '' e)
        | Inr (rowcount, con') \<Rightarrow>
            (case find (\<lambda>u. u_id u = user_id) (Users con') of
               None \<Rightarrow> Inl (HTTPException 404 ''User not found'')
             | Some row \<Rightarrow> Inr (row, con'))) store)"

definition delete_user :: "int \<Rightarrow> db \<Rightarrow> (api_error + unit) \<times> db" where
  "delete_user user_id =
     get_conn (\<lambda>con.
       case delete_Users user_id con of
         Inl e \<Rightarrow> Inl (Uncaught e)
       | Inr (rowcount, con') \<Rightarrow>
           if rowcount = 0 then Inl (HTTPException 404 ''User not found'') else Inr ((), con'))"

subsection \<open>Classes\<close>

definition create_class :: "string \<Rightarrow> ClassCreate \<Rightarrow> db \<Rightarrow> (api_error + Class option) \<times> db" where
  "create_class now payload =
     get_conn (\<lambda>con.
       case insert_Classes now (cc_code payload) (cc_title payload) (cc_description payload) con of
         Inl e \<Rightarrow> Inl (except_IntegrityError ''Class conflict: '' e)
       | Inr (cid, con') \<Rightarrow> Inr (find (\<lambda>c. c_id c = cid) (Classes con'), con'))"

definition update_class :: "int \<Rightarrow> ClassUpdate \<Rightarrow> db \<Rightarrow> (api_error + Class) \<times> db" where
  "update_class class_id patch store =
     (if cu_code patch = None \<and> cu_title patch = None \<and> cu_description patch = None
        then (Inl (HTTPException 400 ''No fields to update''), store)
      else get_conn (\<lambda>con.
        case update_Classes class_id (cu_code patch) (cu_title patch) (cu_description patch) con of
          Inl e \<Rightarrow> Inl (except_IntegrityError ''Update conflict: '' e)
        | Inr (rowcount, con') \<Rightarrow>
            (case find (\<lambda>c. c_id c = class_id) (Classes con') of
               None \<Rightarrow> Inl (HTTPException 404 ''Class not found'')
             | Some row \<Rightarrow> Inr (row, con'))) store)"

definition delete_class :: "int \<Rightarrow> db \<Rightarrow> (api_error + unit) \<times> db" where
  "delete_class class_id =
     get_conn (\<lambda>con.
       case delete_Classes class_id con of
         Inl e \<Rightarrow> Inl (Uncaught e)
       | Inr (rowcount, con') \<Rightarrow>
           if rowcount = 0 then Inl (HTTPException 404 ''Class not found'') else Inr ((), con'))"

subsection \<open>Enrollments and TeacherClass\<close>

definition enroll :: "string \<Rightarrow> EnrollmentCreate \<Rightarrow> db \<Rightarrow> (api_error + Enrollment option) \<times> db" where
  "enroll now payload =
     get_conn (\<lambda>con.
       case insert_Enrollments now (ec_user_id payload) (ec_class_id payload) con of
         Inl e \<Rightarrow> Inl (except_IntegrityError ''Enrollment failed: '' e)
       | Inr con' \<Rightarrow>
           Inr (find (\<lambda>e. e_user_id e = ec_user_id payload \<and> e_class_id e = ec_class_id payload)
                  (Enrollments con'), con'))"

definition unenroll :: "int \<Rightarrow> int \<Rightarrow> db \<Rightarrow> (api_error + unit) \<times> db" where
  "unenroll user_id class_id =
     get_conn (\<lambda>con.
       case delete_Enrollments user_id class_id con of
         Inl e \<Rightarrow> Inl (Uncaught e)
       | Inr (rowcount, con') \<Rightarrow>
           if rowcount = 0 then Inl (HTTPException 404 ''Enrollment not found'') else Inr ((), con'))"

definition teacherassigne :: "TeacherClassCreate \<Rightarrow> db \<Rightarrow> (api_error + TeacherClassRow option) \<times> db" where
  "teacherassigne payload =
     get_conn (\<lambda>con.
       case insert_TeacherClass (tcc_teacher_id payload) (tcc_class_id payload) con of
         Inl e \<Rightarrow> Inl (except_IntegrityError ''Teacher class assignment failed: '' e)
       | Inr con' \<Rightarrow>
           Inr (find (\<lambda>r. tc_teacher_id r = tcc_teacher_id payload \<and> tc_class_id r = tcc_class_id payload)
                  (TeacherClass con'), con'))"

text \<open>
  The handler of \<open>DELETE /teacherassigned\<close>; main.py names it \<open>unenroll\<close> a second time.
\<close>

definition unenroll_teacherassigned :: "int \<Rightarrow> int \<Rightarrow> db \<Rightarrow> (api_error + unit) \<times> db" where
  "unenroll_teacherassigned teacher_id class_id =
     get_conn (\<lambda>con.
       case delete_TeacherClass teacher_id class_id con of
         Inl e \<Rightarrow> Inl (Uncaught e)
       | Inr (rowcount, con') \<Rightarrow>
           if rowcount = 0 then Inl (HTTPException 404 ''Enrollment not found'') else Inr ((), con'))"

subsection \<open>Assignments\<close>

definition create_assignment :: "string \<Rightarrow> AssignmentCreate \<Rightarrow> db \<Rightarrow> (api_error + Assignment option) \<times> db" where
  "create_assignment now payload =
     get_conn (\<lambda>con.
       case insert_Assignments now (ac_class_id payload) (ac_title payload) (ac_description payload)
              (ac_due_at payload) con of
         Inl e \<Rightarrow> Inl (except_IntegrityError ''Assignment conflict: '' e)
       | Inr (aid, con') \<Rightarrow> Inr (find (\<lambda>a. a_id a = aid) (Assignments con'), con'))"

definition update_assignment :: "int \<Rightarrow> AssignmentUpdate \<Rightarrow> db \<Rightarrow> (api_error + Assignment) \<times> db" where
  "update_assignment assignment_id patch store =
     (if au_title patch = None \<and> au_description patch = None \<and> au_due_at patch = None
        then (Inl (HTTPException 400 ''No fields to update''), store)
      else get_conn (\<lambda>con.
        case update_Assignments assignment_id (au_title patch) (au_description patch) (au_due_at patch) con of
          Inl e \<Rightarrow> Inl (Uncaught e)
        | Inr (rowcount, con') \<Rightarrow>
            (case find (\<lambda>a. a_id a = assignment_id) (Assignments con') of
               None \<Rightarrow> Inl (HTTPException 404 ''Assignment not found'')
             | Some row \<Rightarrow> Inr (row, con'))) store)"

definition delete_assignment :: "int \<Rightarrow> db \<Rightarrow> (api_error + unit) \<times> db" where
  "delete_assignment assignment_id =
     get_conn (\<lambda>con.
       case delete_Assignments assignment_id con of
         Inl e \<Rightarrow> Inl (Uncaught e)
       | Inr (rowcount, con') \<Rightarrow>
           if rowcount = 0 then Inl (HTTPException 404 ''Assignment not found'') else Inr ((), con'))"

subsection \<open>Submissions\<close>

text \<open>\<open>SELECT COALESCE(MAX(attempt_number), 0) FROM Submissions WHERE assignment_id=? AND student_id=?\<close>.\<close>

definition last_attempt :: "db \<Rightarrow> int \<Rightarrow> int \<Rightarrow> int" where
  "last_attempt d assignment_id student_id =
     (let xs = map s_attempt_number
                 (filter (\<lambda>r. s_assignment_id r = assignment_id \<and> s_student_id r = student_id)
                    (Submissions d))
      in if xs = [] then 0 else Max (set xs))"

text \<open>
  The handler ignores \<open>payload.attempt_number\<close> and inserts \<open>last_attempt + 1\<close>. When
  that number is \<open>2^63\<close> it cannot be bound: \<open>execute\<close> raises \<open>OverflowError\<close>
  (the first branch of \<open>insert_Submissions\<close>), which the handler does not catch.
\<close>

definition create_submission :: "string \<Rightarrow> SubmissionCreate \<Rightarrow> db \<Rightarrow> (api_error + Submission option) \<times> db" where
  "create_submission now payload =
     get_conn (\<lambda>con.
       let new_attempt = last_attempt con (sc_assignment_id payload) (sc_student_id payload) + 1 in
       case insert_Submissions now (sc_assignment_id payload) (sc_student_id payload) new_attempt
              (sc_grade payload) (sc_feedback payload) con of
         Inl e \<Rightarrow> Inl (except_IntegrityError ''Submission conflict: '' e)
       | Inr (sid, con') \<Rightarrow> Inr (find (\<lambda>r. s_id r = sid) (Submissions con'), con'))"

text \<open>
  The same handler when other connections commit between its \<open>SELECT\<close> and its
  \<open>INSERT\<close>: the \<open>SELECT\<close> opens no transaction, so the \<open>INSERT\<close> runs on the store as
  the others left it (\<open>others store\<close>), with the attempt number computed from the store
  as it was read.
\<close>

definition create_submission_env :: "(db \<Rightarrow> db) \<Rightarrow> string \<Rightarrow> SubmissionCreate \<Rightarrow> db \<Rightarrow> (api_error + Submission option) \<times> db" where
  "create_submission_env others now payload store =
     (let new_attempt = last_attempt store (sc_assignment_id payload) (sc_student_id payload) + 1 in
      get_conn (\<lambda>con.
        case insert_Submissions now (sc_assignment_id payload) (sc_student_id payload) new_attempt
               (sc_grade payload) (sc_feedback payload) con of
          Inl e \<Rightarrow> Inl (except_IntegrityError ''Submission conflict: '' e)
        | Inr (sid, con') \<Rightarrow> Inr (find (\<lambda>r. s_id r = sid) (Submissions con'), con'))
        (others store))"

definition update_submission :: "int \<Rightarrow> SubmissionUpdate \<Rightarrow> db \<Rightarrow> (api_error + Submission) \<times> db" where
  "update_submission submission_id patch store =
     (if su_grade patch = None \<and> su_feedback patch = None
        then (Inl (HTTPException 400 ''No fields to update''), store)
      else get_conn (\<lambda>con.
        case update_Submissions submission_id (su_grade patch) (su_feedback patch) con of
          Inl e \<Rightarrow> Inl (Uncaught e)
        | Inr (rowcount, con') \<Rightarrow>
            (case find (\<lambda>r. s_id r = submission_id) (Submissions con') of
               None \<Rightarrow> Inl (HTTPException 404 ''Submission not found'')
             | Some row \<Rightarrow> Inr (row, con'))) store)"

definition delete_submission :: "int \<Rightarrow> db \<Rightarrow> (api_error + unit) \<times> db" where
  "delete_submission submission_id =
     get_conn (\<lambda>con.
       case delete_Submissions submission_id con of
         Inl e \<Rightarrow> Inl (Uncaught e)
       | Inr (rowcount, con') \<Rightarrow>
           if rowcount = 0 then Inl (HTTPException 404 ''Submission not found'') else Inr ((), con'))"

subsection \<open>Attachments and announcements\<close>

definition create_attachment :: "string \<Rightarrow> AttachmentCreate \<Rightarrow> db \<Rightarrow> (api_error + Attachment option) \<times> db" where
  "create_attachment now payload =
     get_conn (\<lambda>con.
       case insert_SubmissionAttachments now (atc_submission_id payload) (atc_kind payload)
              (atc_value payload) con of
         Inl e \<Rightarrow> Inl (except_IntegrityError ''Attachment conflict: '' e)
       | Inr (aid, con') \<Rightarrow> Inr (find (\<lambda>t. t_id t = aid) (SubmissionAttachments con'), con'))"

definition delete_attachment :: "int \<Rightarrow> db \<Rightarrow> (api_error + unit) \<times> db" where
  "delete_attachment attachment_id =
     get_conn (\<lambda>con.
       case delete_SubmissionAttachments attachment_id con of
         Inl e \<Rightarrow> Inl (Uncaught e)
       | Inr (rowcount, con') \<Rightarrow>
           if rowcount = 0 then Inl (HTTPException 404 ''Attachment not found'') else Inr ((), con'))"

definition create_announcement :: "string \<Rightarrow> AnnouncementCreate \<Rightarrow> db \<Rightarrow> (api_error + Announcement option) \<times> db" where
  "create_announcement now payload =
     get_conn (\<lambda>con.
       case insert_Announcements now (anc_class_id payload) (anc_author_id payload)
              (anc_title payload) (anc_body payload) con of
         Inl e \<Rightarrow> Inl (except_IntegrityError ''Announcement conflict: '' e)
       | Inr (aid, con') \<Rightarrow> Inr (find (\<lambda>n. n_id n = aid) (Announcements con'), con'))"

definition delete_announcement :: "int \<Rightarrow> db \<Rightarrow> (api_error + unit) \<times> db" where
  "delete_announcement announcement_id =
     get_conn (\<lambda>con.
       case delete_Announcements announcement_id con of
         Inl e \<Rightarrow> Inl (Uncaught e)
       | Inr (rowcount, con') \<Rightarrow>
           if rowcount = 0 then Inl (HTTPException 404 ''Announcement not found'') else Inr ((), con'))"

subsection \<open>All mutating routes\<close>

text \<open>
  One constructor per mutating route of main.py, and \<open>run\<close>, which calls the route's
  handler. The result of a handler is the row it returns, or nothing (status 204). The
  framework's validation of a request body before the handler runs, and its serialisation
  of the returned row afterwards, are not part of the handlers and are outside the model.
\<close>

datatype api_op =
    Create_user UserCreate
  | Update_user int UserUpdate
  | Delete_user int
  | Create_class ClassCreate
  | Update_class int ClassUpdate
  | Delete_class int
  | Enroll EnrollmentCreate
  | Unenroll int int
  | Teacherassigne TeacherClassCreate
  | Unenroll_teacherassigned int int
  | Create_assignment AssignmentCreate
  | Update_assignment int AssignmentUpdate
  | Delete_assignment int
  | Create_submission SubmissionCreate
  | Update_submission int SubmissionUpdate
  | Delete_submission int
  | Create_attachment AttachmentCreate
  | Delete_attachment int
  | Create_announcement AnnouncementCreate
  | Delete_announcement int

datatype api_result =
    UserOut "User option"
  | ClassOut "Class option"
  | EnrollmentOut "Enrollment option"
  | TeacherClassOut "TeacherClassRow option"
  | AssignmentOut "Assignment option"
  | SubmissionOut "Submission option"
  | AttachmentOut "Attachment option"
  | AnnouncementOut "Announcement option"
  | NoContent

definition respond :: "('a \<Rightarrow> api_result) \<Rightarrow> (api_error + 'a) \<times> db \<Rightarrow> (api_error + api_result) \<times> db" where
  "respond f r = (case fst r of Inl e \<Rightarrow> Inl e | Inr v \<Rightarrow> Inr (f v), snd r)"

fun run :: "string \<Rightarrow> api_op \<Rightarrow> db \<Rightarrow> (api_error + api_result) \<times> db" where
  "run now (Create_user user) d = respond UserOut (create_user now user d)"
| "run now (Update_user i patch) d = respond (\<lambda>row. UserOut (Some row)) (update_user i patch d)"
| "run now (Delete_user i) d = respond (\<lambda>u. NoContent) (delete_user i d)"
| "run now (Create_class payload) d = respond ClassOut (create_class now payload d)"
| "run now (Update_class i patch) d = respond (\<lambda>row. ClassOut (Some row)) (update_class i patch d)"
| "run now (Delete_class i) d = respond (\<lambda>u. NoContent) (delete_class i d)"
| "run now (Enroll payload) d = respond EnrollmentOut (enroll now payload d)"
| "run now (Unenroll u c) d = respond (\<lambda>u. NoContent) (unenroll u c d)"
| "run now (Teacherassigne payload) d = respond TeacherClassOut (teacherassigne payload d)"
| "run now (Unenroll_teacherassigned t c) d = respond (\<lambda>u. NoContent) (unenroll_teacherassigned t c d)"
| "run now (Create_assignment payload) d = respond AssignmentOut (create_assignment now payload d)"
| "run now (Update_assignment i patch) d = respond (\<lambda>row. AssignmentOut (Some row)) (update_assignment i patch d)"
| "run now (Delete_assignment i) d = respond (\<lambda>u. NoContent) (delete_assignment i d)"
| "run now (Create_submission payload) d = respond SubmissionOut (create_submission now payload d)"
| "run now (Update_submission i patch) d = respond (\<lambda>row. SubmissionOut (Some row)) (update_submission i patch d)"
| "run now (Delete_submission i) d = respond (\<lambda>u. NoContent) (delete_submission i d)"
| "run now (Create_attachment payload) d = respond AttachmentOut (create_attachment now payload d)"
| "run now (Delete_attachment i) d = respond (\<lambda>u. NoContent) (delete_attachment i d)"
| "run now (Create_announcement payload) d = respond AnnouncementOut (create_announcement now payload d)"
| "run now (Delete_announcement i) d = respond (\<lambda>u. NoContent) (delete_announcement i d)"

section \<open>The function layer (managementCrud.py)\<close>

text \<open>
  Each function runs one statement inside \<open>with connect() as con\<close> and returns
  \<open>lastrowid\<close>, \<open>rowcount\<close> or nothing; an exception of the storage layer escapes to the
  caller. \<open>connect\<close> commits when the body returns and only closes when it raises. Where
  main.py has a handler of the same name, the function is prefixed with \<open>crud_\<close>.
  Arguments have the types of the annotations.
\<close>

definition connect :: "(db \<Rightarrow> sqlite_error + ('a \<times> db)) \<Rightarrow> db \<Rightarrow> (sqlite_error + 'a) \<times> db" where
  "connect body store =
     (case body store of
        Inl e \<Rightarrow> (Inl e, store)
      | Inr (v, con) \<Rightarrow> (Inr v, con))"

definition returning_None :: "sqlite_error + db \<Rightarrow> sqlite_error + (unit \<times> db)" where
  "returning_None r = (case r of Inl e \<Rightarrow> Inl e | Inr con \<Rightarrow> Inr ((), con))"

definition crud_create_user :: "string \<Rightarrow> string \<Rightarrow> string \<Rightarrow> string \<Rightarrow> db \<Rightarrow> (sqlite_error + int) \<times> db" where
  "crud_create_user now email full_name role = connect (insert_Users now email full_name role)"

definition crud_update_user :: "int \<Rightarrow> string option \<Rightarrow> string option \<Rightarrow> string option \<Rightarrow> db \<Rightarrow> (sqlite_error + int) \<times> db" where
  "crud_update_user user_id email full_name role store =
     (if email = None \<and> full_name = None \<and> role = None then (Inr 0, store)
      else connect (update_Users user_id email full_name role) store)"

definition crud_delete_user :: "int \<Rightarrow> db \<Rightarrow> (sqlite_error + int) \<times> db" where
  "crud_delete_user user_id = connect (delete_Users user_id)"

definition crud_create_class :: "string \<Rightarrow> string \<Rightarrow> string \<Rightarrow> string \<Rightarrow> db \<Rightarrow> (sqlite_error + int) \<times> db" where
  "crud_create_class now code title description = connect (insert_Classes now code title (Some description))"

definition crud_update_class :: "int \<Rightarrow> string option \<Rightarrow> string option \<Rightarrow> string option \<Rightarrow> db \<Rightarrow> (sqlite_error + int) \<times> db" where
  "crud_update_class class_id code title description store =
     (if code = None \<and> title = None \<and> description = None then (Inr 0, store)
      else connect (update_Classes class_id (map_option Some code) (map_option Some title)
                      (map_option Some description)) store)"

definition crud_delete_class :: "int \<Rightarrow> db \<Rightarrow> (sqlite_error + int) \<times> db" where
  "crud_delete_class class_id = connect (delete_Classes class_id)"

definition enroll_student :: "string \<Rightarrow> int \<Rightarrow> int \<Rightarrow> db \<Rightarrow> (sqlite_error + unit) \<times> db" where
  "enroll_student now user_id class_id =
     connect (\<lambda>con. returning_None (insert_Enrollments now user_id class_id con))"

definition unenroll_student :: "int \<Rightarrow> int \<Rightarrow> db \<Rightarrow> (sqlite_error + int) \<times> db" where
  "unenroll_student user_id class_id = connect (delete_Enrollments user_id class_id)"

text \<open>
  The two TeacherClass functions name a table \<open>TeacherClasses\<close>, which the DDL does not
  create: the statement cannot be prepared.
\<close>

definition assign_teacher_to_class :: "int \<Rightarrow> int \<Rightarrow> db \<Rightarrow> (sqlite_error + unit) \<times> db" where
  "assign_teacher_to_class teacher_id class_id =
     connect (\<lambda>con. Inl (OperationalError ''no such table: TeacherClasses''))"

definition remove_teacher_from_class :: "int \<Rightarrow> int \<Rightarrow> db \<Rightarrow> (sqlite_error + int) \<times> db" where
  "remove_teacher_from_class teacher_id class_id =
     connect (\<lambda>con. Inl (OperationalError ''no such table: TeacherClasses''))"

definition crud_create_assignment :: "string \<Rightarrow> int \<Rightarrow> string \<Rightarrow> string \<Rightarrow> string \<Rightarrow> db \<Rightarrow> (sqlite_error + int) \<times> db" where
  "crud_create_assignment now class_id title description due_at =
     connect (insert_Assignments now class_id title (Some description) due_at)"

definition crud_update_assignment :: "int \<Rightarrow> string option \<Rightarrow> string option \<Rightarrow> string option \<Rightarrow> db \<Rightarrow> (sqlite_error + int) \<times> db" where
  "crud_update_assignment assignment_id title description due_at store =
     (if title = None \<and> description = None \<and> due_at = None then (Inr 0, store)
      else connect (update_Assignments assignment_id (map_option Some title)
                      (map_option Some description) (map_option Some due_at)) store)"

definition crud_delete_assignment :: "int \<Rightarrow> db \<Rightarrow> (sqlite_error + int) \<times> db" where
  "crud_delete_assignment assignment_id = connect (delete_Assignments assignment_id)"

text \<open>
  \<open>create_submission(assignment_id, student_id, attempt_number=1, grade=None, feedback=None)\<close>
  inserts the attempt number it is given. \<open>crud_create_submission_default\<close> is the call
  that leaves the three defaulted arguments out.
\<close>

definition crud_create_submission :: "string \<Rightarrow> int \<Rightarrow> int \<Rightarrow> int \<Rightarrow> real option \<Rightarrow> string option \<Rightarrow> db \<Rightarrow> (sqlite_error + int) \<times> db" where
  "crud_create_submission now assignment_id student_id attempt_number grade feedback =
     connect (insert_Submissions now assignment_id student_id attempt_number grade feedback)"

definition crud_create_submission_default :: "string \<Rightarrow> int \<Rightarrow> int \<Rightarrow> db \<Rightarrow> (sqlite_error + int) \<times> db" where
  "crud_create_submission_default now assignment_id student_id =
     crud_create_submission now assignment_id student_id 1 None None"

definition add_attachment :: "string \<Rightarrow> int \<Rightarrow> string \<Rightarrow> string \<Rightarrow> db \<Rightarrow> (sqlite_error + int) \<times> db" where
  "add_attachment now submission_id kind val = connect (insert_SubmissionAttachments now submission_id kind val)"

definition grade_submission :: "int \<Rightarrow> real \<Rightarrow> string option \<Rightarrow> db \<Rightarrow> (sqlite_error + int) \<times> db" where
  "grade_submission submission_id grade feedback =
     connect (update_Submissions submission_id (Some (Some grade)) (Some feedback))"

definition crud_delete_submission :: "int \<Rightarrow> db \<Rightarrow> (sqlite_error + int) \<times> db" where
  "crud_delete_submission submission_id = connect (delete_Submissions submission_id)"

definition crud_create_announcement :: "string \<Rightarrow> int \<Rightarrow> int \<Rightarrow> string \<Rightarrow> string \<Rightarrow> db \<Rightarrow> (sqlite_error + int) \<times> db" where
  "crud_create_announcement now class_id author_id title body =
     connect (insert_Announcements now class_id author_id title body)"

definition crud_delete_announcement :: "int \<Rightarrow> db \<Rightarrow> (sqlite_error + int) \<times> db" where
  "crud_delete_announcement announcement_id = connect (delete_Announcements announcement_id)"

text \<open>One constructor per mutating function of managementCrud.py, and its call.\<close>

datatype crud_op =
    Crud_create_user string string string
  | Crud_update_user int "string option" "string option" "string option"
  | Crud_delete_user int
  | Crud_create_class string string string
  | Crud_update_class int "string option" "string option" "string option"
  | Crud_delete_class int
  | Enroll_student int int
  | Unenroll_student int int
  | Assign_teacher_to_class int int
  | Remove_teacher_from_class int int
  | Crud_create_assignment int string string string
  | Crud_update_assignment int "string option" "string option" "string option"
  | Crud_delete_assignment int
  | Crud_create_submission int int int "real option" "string option"
  | Add_attachment int string string
  | Grade_submission int real "string option"
  | Crud_delete_submission int
  | Crud_create_announcement int int string string
  | Crud_delete_announcement int

definition returned :: "(sqlite_error + 'a) \<times> db \<Rightarrow> ('a \<Rightarrow> int option) \<Rightarrow> (sqlite_error + int option) \<times> db" where
  "returned r f = (case fst r of Inl e \<Rightarrow> Inl e | Inr v \<Rightarrow> Inr (f v), snd r)"

fun crud_run :: "string \<Rightarrow> crud_op \<Rightarrow> db \<Rightarrow> (sqlite_error + int option) \<times> db" where
  "crud_run now (Crud_create_user e f r) d = returned (crud_create_user now e f r d) Some"
| "crud_run now (Crud_update_user i e f r) d = returned (crud_update_user i e f r d) Some"
| "crud_run now (Crud_delete_user i) d = returned (crud_delete_user i d) Some"
| "crud_run now (Crud_create_class c t x) d = returned (crud_create_class now c t x d) Some"
| "crud_run now (Crud_update_class i c t x) d = returned (crud_update_class i c t x d) Some"
| "crud_run now (Crud_delete_class i) d = returned (crud_delete_class i d) Some"
| "crud_run now (Enroll_student u c) d = returned (enroll_student now u c d) (\<lambda>u. None)"
| "crud_run now (Unenroll_student u c) d = returned (unenroll_student u c d) Some"
| "crud_run now (Assign_teacher_to_class t c) d = returned (assign_teacher_to_class t c d) (\<lambda>u. None)"
| "crud_run now (Remove_teacher_from_class t c) d = returned (remove_teacher_from_class t c d) Some"
| "crud_run now (Crud_create_assignment c t x due) d = returned (crud_create_assignment now c t x due d) Some"
| "crud_run now (Crud_update_assignment i t x due) d = returned (crud_update_assignment i t x due d) Some"
| "crud_run now (Crud_delete_assignment i) d = returned (crud_delete_assignment i d) Some"
| "crud_run now (Crud_create_submission a s n g f) d = returned (crud_create_submission now a s n g f d) Some"
| "crud_run now (Add_attachment i k v) d = returned (add_attachment now i k v d) Some"
| "crud_run now (Grade_submission i g f) d = returned (grade_submission i g f d) Some"
| "crud_run now (Crud_delete_submission i) d = returned (crud_delete_submission i d) Some"
| "crud_run now (Crud_create_announcement c a t b) d = returned (crud_create_announcement now c a t b d) Some"
| "crud_run now (Crud_delete_announcement i) d = returned (crud_delete_announcement i d) Some"

section \<open>Callers and example stores\<close>

text \<open>
  A client that issues \<open>POST /submissions\<close> requests one after the other, each with its
  own clock reading, and stops at the first that fails.
\<close>

fun create_submissions :: "(string \<times> SubmissionCreate) list \<Rightarrow> db \<Rightarrow> (api_error + Submission option list) \<times> db" where
  "create_submissions [] d = (Inr [], d)"
| "create_submissions (c # cs) d =
     (case create_submission (fst c) (snd c) d of
        (Inl e, d') \<Rightarrow> (Inl e, d')
      | (Inr r, d') \<Rightarrow>
          (case create_submissions cs d' of
             (Inl e, d'') \<Rightarrow> (Inl e, d'')
           | (Inr rs, d'') \<Rightarrow> (Inr (r # rs), d'')))"

text \<open>The row that a successful \<open>INSERT INTO Submissions\<close> appends.\<close>

definition new_submission :: "string \<Rightarrow> int \<Rightarrow> int \<Rightarrow> int \<Rightarrow> real option \<Rightarrow> string option \<Rightarrow> db \<Rightarrow> Submission" where
  "new_submission now a s n g f d =
     \<lparr>s_id = next_rowid (map s_id (Submissions d)), s_assignment_id = a, s_student_id = s,
       s_attempt_number = n, s_submitted_at = now, s_grade = g, s_feedback = f\<rparr>"

text \<open>
  The scenario of the specification: class CS101 (id 1) taught by user 1, student
  Charlie (id 3) enrolled, assignment A1 (id 1), no submission yet. Student Diana (id 4)
  is not enrolled.
\<close>

definition example_db :: db where
  "example_db =
     \<lparr>Users = [\<lparr>u_id = 1, u_email = ''teacher1@example.com'', u_full_name = ''Alice Teacher'',
                 u_role = ''teacher'', u_created_at = ''t0''\<rparr>,
               \<lparr>u_id = 3, u_email = ''student1@example.com'', u_full_name = ''Charlie Student'',
                 u_role = ''student'', u_created_at = ''t0''\<rparr>,
               \<lparr>u_id = 4, u_email = ''student2@example.com'', u_full_name = ''Diana Learner'',
                 u_role = ''student'', u_created_at = ''t0''\<rparr>],
      Classes = [\<lparr>c_id = 1, c_code = ''CS101'', c_title = ''Intro'', c_description = None,
                   c_created_at = ''t0''\<rparr>],
      TeacherClass = [\<lparr>tc_teacher_id = 1, tc_class_id = 1\<rparr>],
      Enrollments = [\<lparr>e_user_id = 3, e_class_id = 1, e_enrolled_at = ''t0''\<rparr>],
      Assignments = [\<lparr>a_id = 1, a_class_id = 1, a_title = ''A1'', a_description = None,
                       a_due_at = ''t9'', a_created_at = ''t0''\<rparr>],
      Submissions = [], SubmissionAttachments = [], Announcements = []\<rparr>"

definition example_payload :: SubmissionCreate where
  "example_payload = \<lparr>sc_assignment_id = 1, sc_student_id = 3, sc_attempt_number = 1,
                        sc_grade = None, sc_feedback = None\<rparr>"

definition example_calls :: "(string \<times> SubmissionCreate) list" where
  "example_calls = [(''t1'', example_payload), (''t2'', example_payload), (''t3'', example_payload)]"

text \<open>The \<open>k\<close>-th submission of Charlie for assignment 1, made at time \<open>t\<close>.\<close>

definition example_row :: "int \<Rightarrow> string \<Rightarrow> Submission" where
  "example_row k t = \<lparr>s_id = k, s_assignment_id = 1, s_student_id = 3, s_attempt_number = k,
                       s_submitted_at = t, s_grade = None, s_feedback = None\<rparr>"

text \<open>Diana's request for assignment 1.\<close>

definition outsider_payload :: SubmissionCreate where
  "outsider_payload = \<lparr>sc_assignment_id = 1, sc_student_id = 4, sc_attempt_number = 1,
                         sc_grade = None, sc_feedback = None\<rparr>"

text \<open>The pairs (assignment id, id of the class that owns it).\<close>

definition assignment_classes :: "db \<Rightarrow> (int \<times> int) list" where
  "assignment_classes d = map (\<lambda>x. (a_id x, a_class_id x)) (Assignments d)"

text \<open>
  A second request for the same pair, handled by another connection: what it commits.
\<close>

definition concurrent_create :: "db \<Rightarrow> db" where
  "concurrent_create store = snd (create_submission ''t1'' example_payload store)"

text \<open>
  The example store after Charlie's first submission, and after Charlie is then
  unenrolled from the class through \<open>DELETE /enrollments\<close>.
\<close>

definition submitted_db :: db where
  "submitted_db = concurrent_create example_db"

definition unenrolled_db :: db where
  "unenrolled_db = snd (unenroll 3 1 submitted_db)"

text \<open>
  A store with two classes, seeded like datapopulate.py: Alice (1) teaches CS101 (1) and
  has posted an announcement there, Bob (2) teaches MATH201 (2); Charlie (3) is enrolled in
  class 1 and Diana (4) in class 2; each class has one assignment, with one submission
  and one attachment.
\<close>

definition seeded_db :: db where
  "seeded_db =
     \<lparr>Users = [\<lparr>u_id = 1, u_email = ''teacher1@example.com'', u_full_name = ''Alice Teacher'',
                 u_role = ''teacher'', u_created_at = ''t0''\<rparr>,
               \<lparr>u_id = 2, u_email = ''teacher2@example.com'', u_full_name = ''Bob Instructor'',
                 u_role = ''teacher'', u_created_at = ''t0''\<rparr>,
               \<lparr>u_id = 3, u_email = ''student1@example.com'', u_full_name = ''Charlie Student'',
                 u_role = ''student'', u_created_at = ''t0''\<rparr>,
               \<lparr>u_id = 4, u_email = ''student2@example.com'', u_full_name = ''Diana Learner'',
                 u_role = ''student'', u_created_at = ''t0''\<rparr>],
      Classes = [\<lparr>c_id = 1, c_code = ''CS101'', c_title = ''Intro'', c_description = None,
                   c_created_at = ''t0''\<rparr>,
                 \<lparr>c_id = 2, c_code = ''MATH201'', c_title = ''Discrete'', c_description = None,
                   c_created_at = ''t0''\<rparr>],
      TeacherClass = [\<lparr>tc_teacher_id = 1, tc_class_id = 1\<rparr>, \<lparr>tc_teacher_id = 2, tc_class_id = 2\<rparr>],
      Enrollments = [\<lparr>e_user_id = 3, e_class_id = 1, e_enrolled_at = ''t0''\<rparr>,
                     \<lparr>e_user_id = 4, e_class_id = 2, e_enrolled_at = ''t0''\<rparr>],
      Assignments = [\<lparr>a_id = 1, a_class_id = 1, a_title = ''A1'', a_description = None,
                       a_due_at = ''t9'', a_created_at = ''t0''\<rparr>,
                     \<lparr>a_id = 2, a_class_id = 2, a_title = ''H1'', a_description = None,
                       a_due_at = ''t9'', a_created_at = ''t0''\<rparr>],
      Submissions = [\<lparr>s_id = 1, s_assignment_id = 1, s_student_id = 3, s_attempt_number = 1,
                       s_submitted_at = ''t1'', s_grade = None, s_feedback = None\<rparr>,
                     \<lparr>s_id = 2, s_assignment_id = 2, s_student_id = 4, s_attempt_number = 1,
                       s_submitted_at = ''t1'', s_grade = None, s_feedback = None\<rparr>],
      SubmissionAttachments =
                    [\<lparr>t_id = 1, t_submission_id = 1, t_kind = ''file'', t_value = ''/uploads/charlie_fib.py'',
                       t_created_at = ''t1''\<rparr>,
                     \<lparr>t_id = 2, t_submission_id = 2, t_kind = ''file'', t_value = ''/uploads/diana_sets.pdf'',
                       t_created_at = ''t1''\<rparr>],
      Announcements = [\<lparr>n_id = 1, n_class_id = 1, n_author_id = 1, n_title = ''Welcome to CS101'',
                         n_body = ''Please install Python.'', n_posted_at = ''t0''\<rparr>]\<rparr>"

text \<open>
  A submission belongs to a class through its assignment, an attachment through its
  submission.
\<close>

definition submission_in_class :: "db \<Rightarrow> int \<Rightarrow> Submission \<Rightarrow> bool" where
  "submission_in_class d class_id s =
     (s_assignment_id s \<in> set (map a_id (filter (\<lambda>a. a_class_id a = class_id) (Assignments d))))"

definition attachment_in_class :: "db \<Rightarrow> int \<Rightarrow> Attachment \<Rightarrow> bool" where
  "attachment_in_class d class_id t =
     (t_submission_id t \<in> set (map s_id (filter (submission_in_class d class_id) (Submissions d))))"

text \<open>The number of rows in the store, over all tables.\<close>

definition row_count :: "db \<Rightarrow> nat" where
  "row_count d = length (Users d) + length (Classes d) + length (TeacherClass d) +
     length (Enrollments d) + length (Assignments d) + length (Submissions d) +
     length (SubmissionAttachments d) + length (Announcements d)"


text \<open>
  A client that removes announcements one by one through \<open>DELETE /announcements/{id}\<close>,
  and the ids of the announcements a user has authored.
\<close>

fun delete_announcements :: "int list \<Rightarrow> db \<Rightarrow> db" where
  "delete_announcements [] d = d"
| "delete_announcements (i # rest) d = delete_announcements rest (snd (delete_announcement i d))"

definition authored :: "int \<Rightarrow> db \<Rightarrow> int list" where
  "authored user_id d = map n_id (filter (\<lambda>n. n_author_id n = user_id) (Announcements d))"

text \<open>
  The role rule of TeacherClass: the teacher of every row is a user with role teacher.
\<close>

definition teacher_inv :: "db \<Rightarrow> bool" where
  "teacher_inv d = list_all (\<lambda>r. user_role d (tc_teacher_id r) = Some ''teacher'') (TeacherClass d)"

text \<open>
  The requests that set the role of a user who teaches a class to something other than
  teacher, for either layer.
\<close>

fun changes_teacher_role :: "api_op \<Rightarrow> db \<Rightarrow> bool" where
  "changes_teacher_role (Update_user i patch) d =
     (case uu_role patch of None \<Rightarrow> False
      | Some r \<Rightarrow> r \<noteq> ''teacher'' \<and> i \<in> set (map tc_teacher_id (TeacherClass d)))"
| "changes_teacher_role op d = False"

fun crud_changes_teacher_role :: "crud_op \<Rightarrow> db \<Rightarrow> bool" where
  "crud_changes_teacher_role (Crud_update_user i email full_name role) d =
     (case role of None \<Rightarrow> False
      | Some r \<Rightarrow> r \<noteq> ''teacher'' \<and> i \<in> set (map tc_teacher_id (TeacherClass d)))"
| "crud_changes_teacher_role op d = False"

text \<open>The patch \<open>{"role": "student"}\<close>.\<close>

definition demotion :: UserUpdate where
  "demotion = \<lparr>uu_email = None, uu_full_name = None, uu_role = Some ''student''\<rparr>"

text \<open>
  The foreign key of Enrollments.user_id: every enrollment references an existing user.
\<close>

definition enrollments_fk :: "db \<Rightarrow> bool" where
  "enrollments_fk d = (set (map e_user_id (Enrollments d)) \<subseteq> set (map u_id (Users d)))"


text \<open>
  The patch \<open>{"role": "teacher"}\<close>, and the example store after Charlie's first submission
  and that patch applied to Charlie through \<open>PATCH /users/3\<close>.
\<close>

definition promotion :: UserUpdate where
  "promotion = \<lparr>uu_email = None, uu_full_name = None, uu_role = Some ''teacher''\<rparr>"

definition promoted_db :: db where
  "promoted_db = snd (update_user 3 promotion submitted_db)"

text \<open>
  The \<open>INTEGER PRIMARY KEY\<close> of the six tables that have one: no two rows of a table
  share an id.
\<close>

definition primary_keys :: "db \<Rightarrow> bool" where
  "primary_keys d =
     (distinct (map u_id (Users d)) \<and> distinct (map c_id (Classes d)) \<and>
      distinct (map a_id (Assignments d)) \<and> distinct (map s_id (Submissions d)) \<and>
      distinct (map t_id (SubmissionAttachments d)) \<and> distinct (map n_id (Announcements d)))"

text \<open>The patch \<open>{"email": "student1@example.com", "role": "student"}\<close>: Charlie's email.\<close>

definition clashing_demotion :: UserUpdate where
  "clashing_demotion =
     \<lparr>uu_email = Some ''student1@example.com'', uu_full_name = None, uu_role = Some ''student''\<rparr>"

section \<open>Properties\<close>

text \<open>The definitions that evaluate a submission request on a concrete store.\<close>

lemmas submission_defs = create_submission_def get_conn_def insert_Submissions_def int64_def
  trg_submissions_student_enrolled_def trg_submissions_student_role_def sql_neq_def user_role_def
  enrollment_keys_def attempt_keys_def next_rowid_def last_attempt_def except_IntegrityError_def

subsection \<open>Attempt numbering (main.py, create_submission)\<close>

lemma next_rowid_fresh: "next_rowid ids \<notin> set ids"
proof
  assume h: "next_rowid ids \<in> set ids"
  then have ne: "ids \<noteq> []" by auto
  have "next_rowid ids \<le> Max (set ids)" using h by simp
  then show False using ne by (simp add: next_rowid_def)
qed

lemma find_fresh_append:
  assumes "k \<notin> set (map key xs)" and "key x = k"
  shows "find (\<lambda>r. key r = k) (xs @ [x]) = Some x"
  using assms by (induction xs) auto

lemma insert_Submissions_Inr:
  assumes "insert_Submissions now a s n g f d = Inr (i, d')"
  shows "i = next_rowid (map s_id (Submissions d)) \<and>
         d' = d\<lparr>Submissions := Submissions d @ [new_submission now a s n g f d]\<rparr>"
  using assms by (auto simp: insert_Submissions_def new_submission_def Let_def split: if_splits)

lemma create_submission_Inr:
  assumes "create_submission now p d = (Inr r, d')"
  shows "r = Some (new_submission now (sc_assignment_id p) (sc_student_id p)
                     (last_attempt d (sc_assignment_id p) (sc_student_id p) + 1)
                     (sc_grade p) (sc_feedback p) d) \<and>
         d' = d\<lparr>Submissions := Submissions d @ [the r]\<rparr>"
proof -
  let ?n = "last_attempt d (sc_assignment_id p) (sc_student_id p) + 1"
  let ?ins = "insert_Submissions now (sc_assignment_id p) (sc_student_id p) ?n (sc_grade p) (sc_feedback p) d"
  let ?row = "new_submission now (sc_assignment_id p) (sc_student_id p) ?n (sc_grade p) (sc_feedback p) d"
  obtain i d1 where ins: "?ins = Inr (i, d1)"
    using assms by (cases ?ins) (auto simp: create_submission_def get_conn_def Let_def)
  from insert_Submissions_Inr[OF ins]
  have i: "i = next_rowid (map s_id (Submissions d))"
    and d1: "d1 = d\<lparr>Submissions := Submissions d @ [?row]\<rparr>" by auto
  have f: "find (\<lambda>r. s_id r = i) (Submissions d1) = Some ?row"
    unfolding d1 using find_fresh_append[of i s_id "Submissions d" ?row] next_rowid_fresh[of "map s_id (Submissions d)"]
    by (simp add: i new_submission_def)
  have "create_submission now p d = (Inr (Some ?row), d1)"
    using ins f by (simp add: create_submission_def get_conn_def Let_def)
  with assms have "r = Some ?row" "d' = d1" by simp_all
  then show ?thesis using d1 by simp
qed

lemma last_attempt_append:
  assumes "s_assignment_id row = a" "s_student_id row = s"
    and "s_attempt_number row = last_attempt d a s + 1"
  shows "last_attempt (d\<lparr>Submissions := Submissions d @ [row]\<rparr>) a s = last_attempt d a s + 1"
proof -
  let ?xs = "map s_attempt_number (filter (\<lambda>r. s_assignment_id r = a \<and> s_student_id r = s) (Submissions d))"
  show ?thesis
  proof (cases "?xs = []")
    case True
    then show ?thesis using assms by (simp add: last_attempt_def Let_def)
  next
    case False
    then have ne: "set ?xs \<noteq> {}" using set_empty[of ?xs] by blast
    have "Max (insert (Max (set ?xs) + 1) (set ?xs)) = Max (set ?xs) + 1"
      using ne by (subst Max_insert) (simp_all add: max_def)
    then show ?thesis using assms False by (simp add: last_attempt_def Let_def)
  qed
qed

lemma create_submissions_attempts:
  assumes "\<forall>c \<in> set calls. sc_assignment_id (snd c) = a \<and> sc_student_id (snd c) = s"
    and "create_submissions calls d = (Inr rs, d')"
  shows "map (map_option s_attempt_number) rs =
         map Some [last_attempt d a s + 1 .. last_attempt d a s + int (length calls)]"
  using assms
proof (induction calls arbitrary: d rs d')
  case Nil
  then show ?case by simp
next
  case (Cons c cs)
  obtain r d1 where one: "create_submission (fst c) (snd c) d = (Inr r, d1)"
    using Cons.prems(2) by (cases "create_submission (fst c) (snd c) d") (auto split: sum.splits)
  obtain rs' where rest: "create_submissions cs d1 = (Inr rs', d')" and rs: "rs = r # rs'"
    using Cons.prems(2) one by (cases "create_submissions cs d1") (auto split: sum.splits)
  have pair: "sc_assignment_id (snd c) = a" "sc_student_id (snd c) = s" using Cons.prems(1) by auto
  from create_submission_Inr[OF one] pair
  have r: "r = Some (new_submission (fst c) a s (last_attempt d a s + 1) (sc_grade (snd c)) (sc_feedback (snd c)) d)"
    and d1: "d1 = d\<lparr>Submissions := Submissions d @ [the r]\<rparr>" by auto
  have la: "last_attempt d1 a s = last_attempt d a s + 1"
    unfolding d1 by (rule last_attempt_append) (simp_all add: r new_submission_def)
  have "map (map_option s_attempt_number) rs' =
        map Some [last_attempt d1 a s + 1 .. last_attempt d1 a s + int (length cs)]"
    using Cons.IH[OF _ rest] Cons.prems(1) by simp
  moreover have "[last_attempt d a s + 1 .. last_attempt d a s + int (length (c # cs))] =
        (last_attempt d a s + 1) # [last_attempt d1 a s + 1 .. last_attempt d1 a s + int (length cs)]"
    by (subst upto_rec1) (simp_all add: la add.commute add.left_commute)
  ultimately show ?case by (simp add: rs r new_submission_def)
qed

lemma last_attempt_none:
  "(a, s) \<notin> set (map (\<lambda>r. (s_assignment_id r, s_student_id r)) (Submissions d)) \<Longrightarrow> last_attempt d a s = 0"
  by (auto simp: last_attempt_def Let_def filter_empty_conv)

lemma last_attempt_Max:
  "last_attempt d a s =
     (let A = s_attempt_number ` {x \<in> set (Submissions d). s_assignment_id x = a \<and> s_student_id x = s}
      in if A = {} then 0 else Max A)"
proof -
  let ?xs = "map s_attempt_number
               (filter (\<lambda>r. s_assignment_id r = a \<and> s_student_id r = s) (Submissions d))"
  have set: "set ?xs = s_attempt_number ` {x \<in> set (Submissions d). s_assignment_id x = a \<and> s_student_id x = s}"
    by auto
  have "(?xs = []) = (set ?xs = {})" using set_empty[of ?xs] by blast
  then show ?thesis unfolding last_attempt_def Let_def set[symmetric] by presburger
qed

lemma last_attempt_Max_if:
  "last_attempt d a s =
     (if s_attempt_number ` {x \<in> set (Submissions d). s_assignment_id x = a \<and> s_student_id x = s} = {}
      then 0
      else Max (s_attempt_number `
                  {x \<in> set (Submissions d). s_assignment_id x = a \<and> s_student_id x = s}))"
  using last_attempt_Max[of d a s] unfolding Let_def .

text \<open>
  C1. A successful \<open>create_submission\<close> of main.py returns the row it inserted. The row is
  for the pair (assignment_id, student_id) of the request; its attempt number is one more
  than the largest attempt number among the rows stored for that pair, and 1 when the
  pair has no row; it carries a new id and is appended to the Submissions table, which is
  otherwise unchanged. Hence successful calls for one pair, issued one after the other,
  return consecutive attempt numbers that continue from the largest one stored, and for a
  pair without submissions \<open>N\<close> such calls return 1, 2, ..., N in that order.
\<close>

theorem create_submission_attempt_number:
  "(create_submission now p d = (Inr r, d') \<longrightarrow>
      (\<exists>row. r = Some row \<and> d' = d\<lparr>Submissions := Submissions d @ [row]\<rparr> \<and>
         s_assignment_id row = sc_assignment_id p \<and> s_student_id row = sc_student_id p \<and>
         s_attempt_number row =
           (let A = s_attempt_number `
                      {x \<in> set (Submissions d). s_assignment_id x = sc_assignment_id p \<and>
                                               s_student_id x = sc_student_id p}
            in if A = {} then 0 else Max A) + 1 \<and>
         s_id row \<notin> set (map s_id (Submissions d)) \<and>
         s_submitted_at row = now \<and> s_grade row = sc_grade p \<and> s_feedback row = sc_feedback p)) \<and>
   ((\<forall>c \<in> set calls. sc_assignment_id (snd c) = a \<and> sc_student_id (snd c) = s) \<and>
    create_submissions calls d0 = (Inr rs, d1) \<longrightarrow>
      map (map_option s_attempt_number) rs =
        map Some
          (let A = s_attempt_number `
                     {x \<in> set (Submissions d0). s_assignment_id x = a \<and> s_student_id x = s};
               m = (if A = {} then 0 else Max A)
           in [m + 1 .. m + int (length calls)])) \<and>
   ((a, s) \<notin> set (map (\<lambda>r. (s_assignment_id r, s_student_id r)) (Submissions d0)) \<and>
    (\<forall>c \<in> set calls. sc_assignment_id (snd c) = a \<and> sc_student_id (snd c) = s) \<and>
    create_submissions calls d0 = (Inr rs, d1) \<longrightarrow>
      map (map_option s_attempt_number) rs = map Some [1 .. int (length calls)])"
proof (intro conjI impI)
  let ?a = "sc_assignment_id p" and ?s = "sc_student_id p"
  let ?row = "new_submission now ?a ?s (last_attempt d ?a ?s + 1) (sc_grade p) (sc_feedback p) d"
  assume "create_submission now p d = (Inr r, d')"
  from create_submission_Inr[OF this]
  have r: "r = Some ?row" and d': "d' = d\<lparr>Submissions := Submissions d @ [?row]\<rparr>" by simp_all
  have fresh: "s_id ?row \<notin> set (map s_id (Submissions d))"
    using next_rowid_fresh[of "map s_id (Submissions d)"] by (simp add: new_submission_def)
  have att: "s_attempt_number ?row =
           (let A = s_attempt_number `
                      {x \<in> set (Submissions d). s_assignment_id x = ?a \<and> s_student_id x = ?s}
            in if A = {} then 0 else Max A) + 1"
    unfolding Let_def last_attempt_Max_if[of d ?a ?s, symmetric] by (simp add: new_submission_def)
  have fields: "s_assignment_id ?row = ?a" "s_student_id ?row = ?s" "s_submitted_at ?row = now"
    "s_grade ?row = sc_grade p" "s_feedback ?row = sc_feedback p"
    by (simp_all add: new_submission_def)
  show "\<exists>row. r = Some row \<and> d' = d\<lparr>Submissions := Submissions d @ [row]\<rparr> \<and>
         s_assignment_id row = ?a \<and> s_student_id row = ?s \<and>
         s_attempt_number row =
           (let A = s_attempt_number `
                      {x \<in> set (Submissions d). s_assignment_id x = ?a \<and> s_student_id x = ?s}
            in if A = {} then 0 else Max A) + 1 \<and>
         s_id row \<notin> set (map s_id (Submissions d)) \<and>
         s_submitted_at row = now \<and> s_grade row = sc_grade p \<and> s_feedback row = sc_feedback p"
    by (intro exI[of _ ?row] conjI r d' att fresh fields)
next
  assume "(\<forall>c \<in> set calls. sc_assignment_id (snd c) = a \<and> sc_student_id (snd c) = s) \<and>
    create_submissions calls d0 = (Inr rs, d1)"
  then have "map (map_option s_attempt_number) rs =
         map Some [last_attempt d0 a s + 1 .. last_attempt d0 a s + int (length calls)]"
    using create_submissions_attempts[of calls a s d0 rs d1] by blast
  then show "map (map_option s_attempt_number) rs =
        map Some
          (let A = s_attempt_number `
                     {x \<in> set (Submissions d0). s_assignment_id x = a \<and> s_student_id x = s};
               m = (if A = {} then 0 else Max A)
           in [m + 1 .. m + int (length calls)])"
    unfolding Let_def last_attempt_Max_if[of d0 a s, symmetric] .
next
  assume "(a, s) \<notin> set (map (\<lambda>r. (s_assignment_id r, s_student_id r)) (Submissions d0)) \<and>
    (\<forall>c \<in> set calls. sc_assignment_id (snd c) = a \<and> sc_student_id (snd c) = s) \<and>
    create_submissions calls d0 = (Inr rs, d1)"
  then show "map (map_option s_attempt_number) rs = map Some [1 .. int (length calls)]"
    using create_submissions_attempts[of calls a s d0 rs d1] last_attempt_none[of a s d0] by simp
qed

theorem create_submission_attempt_number_witness:
  "create_submission ''t2'' example_payload submitted_db =
     (Inr (Some (example_row 2 ''t2'')),
      submitted_db\<lparr>Submissions := Submissions submitted_db @ [example_row 2 ''t2'']\<rparr>) \<and>
   s_attempt_number (example_row 2 ''t2'') =
     Max (s_attempt_number `
            {x \<in> set (Submissions submitted_db). s_assignment_id x = 1 \<and> s_student_id x = 3}) + 1 \<and>
   create_submissions example_calls example_db =
     (Inr [Some (example_row 1 ''t1''), Some (example_row 2 ''t2''), Some (example_row 3 ''t3'')],
      example_db\<lparr>Submissions := [example_row 1 ''t1'', example_row 2 ''t2'', example_row 3 ''t3'']\<rparr>) \<and>
   map (map_option s_attempt_number) (projr (fst (create_submissions example_calls example_db))) =
     map Some [1 .. int (length example_calls)]"
proof -
  have sel: "sc_assignment_id example_payload = 1" "sc_student_id example_payload = 3"
    "sc_grade example_payload = None" "sc_feedback example_payload = None"
    by (simp_all add: example_payload_def)
  have stored: "submitted_db = example_db\<lparr>Submissions := [example_row 1 ''t1'']\<rparr>"
    by (simp add: submitted_db_def concurrent_create_def submission_defs example_db_def
        example_payload_def example_row_def)
  have one: "create_submission ''t2'' example_payload submitted_db =
      (Inr (Some (example_row 2 ''t2'')),
       submitted_db\<lparr>Submissions := Submissions submitted_db @ [example_row 2 ''t2'']\<rparr>)"
    unfolding stored
    by (simp add: submission_defs example_db_def example_payload_def example_row_def)
  have nonempty: "s_attempt_number `
      {x \<in> set (Submissions submitted_db). s_assignment_id x = 1 \<and> s_student_id x = 3} \<noteq> {}"
    unfolding stored by (simp add: example_row_def)
  have fresh: "(1, 3) \<notin> set (map (\<lambda>r. (s_assignment_id r, s_student_id r)) (Submissions example_db))"
    by (simp add: example_db_def)
  have same: "\<forall>c \<in> set example_calls. sc_assignment_id (snd c) = 1 \<and> sc_student_id (snd c) = 3"
    by (simp add: example_calls_def example_payload_def)
  have all: "create_submissions example_calls example_db =
      (Inr [Some (example_row 1 ''t1''), Some (example_row 2 ''t2''), Some (example_row 3 ''t3'')],
       example_db\<lparr>Submissions := [example_row 1 ''t1'', example_row 2 ''t2'', example_row 3 ''t3'']\<rparr>)"
    by (simp add: submission_defs example_db_def example_payload_def example_row_def example_calls_def)
  note first = create_submission_attempt_number[where now = "''t2''" and p = example_payload
      and d = submitted_db and r = "Some (example_row 2 ''t2'')"
      and d' = "submitted_db\<lparr>Submissions := Submissions submitted_db @ [example_row 2 ''t2'']\<rparr>",
      THEN conjunct1, THEN mp, OF one, unfolded sel]
  note seq = create_submission_attempt_number[where a = 1 and s = 3 and ?d0.0 = example_db
      and calls = example_calls
      and rs = "[Some (example_row 1 ''t1''), Some (example_row 2 ''t2''), Some (example_row 3 ''t3'')]"
      and ?d1.0 = "example_db\<lparr>Submissions := [example_row 1 ''t1'', example_row 2 ''t2'', example_row 3 ''t3'']\<rparr>",
      THEN conjunct2, THEN conjunct2, THEN mp, OF conjI[OF fresh conjI[OF same all]]]
  from first obtain row where row: "Some (example_row 2 ''t2'') = Some row"
    and att: "s_attempt_number row =
      (let A = s_attempt_number `
                 {x \<in> set (Submissions submitted_db). s_assignment_id x = 1 \<and> s_student_id x = 3}
       in if A = {} then 0 else Max A) + 1"
    by blast
  from row have "row = example_row 2 ''t2''" by simp
  with att nonempty
  have attempt: "s_attempt_number (example_row 2 ''t2'') =
     Max (s_attempt_number `
            {x \<in> set (Submissions submitted_db). s_assignment_id x = 1 \<and> s_student_id x = 3}) + 1"
    unfolding Let_def by (simp only: if_False)
  have run: "map (map_option s_attempt_number) (projr (fst (create_submissions example_calls example_db))) =
     map Some [1 .. int (length example_calls)]"
    unfolding all using seq by simp
  from one attempt all run show ?thesis by blast
qed

subsection \<open>Enrollment as the prerequisite of a submission\<close>

lemma user_role_Some_exists: "user_role d i = Some r \<Longrightarrow> i \<in> set (map u_id (Users d))"
  by (auto simp: user_role_def find_Some_iff)

lemma enrolled_trigger_iff:
  "trg_submissions_student_enrolled d a s \<longleftrightarrow>
     \<not> (\<exists>c. (a, c) \<in> set (assignment_classes d) \<and> (s, c) \<in> set (enrollment_keys d))"
  by (auto simp: trg_submissions_student_enrolled_def assignment_classes_def filter_empty_conv)











subsection \<open>A lost race on the attempt number\<close>

lemma create_submission_env_alone:
  "create_submission_env (\<lambda>store. store) now p d = create_submission now p d"
  by (simp add: create_submission_env_def create_submission_def get_conn_def Let_def)

lemma example_payload_sel:
  "sc_assignment_id example_payload = 1" "sc_student_id example_payload = 3"
  "sc_grade example_payload = None" "sc_feedback example_payload = None"
  by (simp_all add: example_payload_def)

lemma submitted_db_eq: "submitted_db = example_db\<lparr>Submissions := [example_row 1 ''t1'']\<rparr>"
  by (simp add: submitted_db_def concurrent_create_def submission_defs example_db_def
      example_payload_def example_row_def)

lemma insert_after_concurrent_create:
  "insert_Submissions ''t2'' 1 3 (last_attempt example_db 1 3 + 1) None None
     (concurrent_create example_db) =
   Inl (IntegrityError (Unique_Failed
     ''Submissions.assignment_id, Submissions.student_id, Submissions.attempt_number''))"
  unfolding submitted_db_def[symmetric] submitted_db_eq
  by (simp add: submission_defs example_db_def example_row_def)

text \<open>
  C2, as the code has it. When the insert of \<open>create_submission\<close> violates the unique
  constraint on (assignment_id, student_id, attempt_number), which takes a commit of
  another connection between the handler's \<open>SELECT\<close> and its \<open>INSERT\<close>, the handler
  makes no second attempt: it surfaces the conflict at once as status 409 with the
  constraint's message, and leaves the store as the other connections committed it.
\<close>

theorem create_submission_conflict_surfaced:
  "insert_Submissions now (sc_assignment_id p) (sc_student_id p)
     (last_attempt store (sc_assignment_id p) (sc_student_id p) + 1) (sc_grade p) (sc_feedback p)
     (others store) = Inl (IntegrityError (Unique_Failed cols)) \<longrightarrow>
   create_submission_env others now p store =
     (Inl (HTTPException 409 (''Submission conflict: UNIQUE constraint failed: '' @ cols)), others store)"
  by (simp add: create_submission_env_def get_conn_def except_IntegrityError_def Let_def)

theorem create_submission_conflict_surfaced_witness:
  "create_submission_env concurrent_create ''t2'' example_payload example_db =
     (Inl (HTTPException 409 (''Submission conflict: UNIQUE constraint failed: '' @
        ''Submissions.assignment_id, Submissions.student_id, Submissions.attempt_number'')),
      concurrent_create example_db)"
  using create_submission_conflict_surfaced[where p = example_payload and store = example_db
      and others = concurrent_create and now = "''t2''"
      and cols = "''Submissions.assignment_id, Submissions.student_id, Submissions.attempt_number''",
      unfolded example_payload_sel]
    insert_after_concurrent_create
  by blast

text \<open>
  C2 as the specification states it fails: two requests for Charlie and assignment 1 race,
  the second reads the maximum 0 before the first commits attempt 1. Its insert violates
  the unique constraint and the conflict goes to the caller, although a new
  read-compute-insert cycle on the same store succeeds with attempt 2.
\<close>

theorem create_submission_no_retry_counterexample:
  "insert_Submissions ''t2'' 1 3 (last_attempt example_db 1 3 + 1) None None (concurrent_create example_db) =
     Inl (IntegrityError (Unique_Failed
       ''Submissions.assignment_id, Submissions.student_id, Submissions.attempt_number'')) \<and>
   create_submission_env concurrent_create ''t2'' example_payload example_db =
     (Inl (HTTPException 409 ''Submission conflict: UNIQUE constraint failed: Submissions.assignment_id, Submissions.student_id, Submissions.attempt_number''),
      concurrent_create example_db) \<and>
   fst (create_submission ''t2'' example_payload (concurrent_create example_db)) =
     Inr (Some (example_row 2 ''t2''))"
proof -
  have env: "create_submission_env concurrent_create ''t2'' example_payload example_db =
     (Inl (HTTPException 409 ''Submission conflict: UNIQUE constraint failed: Submissions.assignment_id, Submissions.student_id, Submissions.attempt_number''),
      concurrent_create example_db)"
    by (simp add: create_submission_env_def get_conn_def Let_def example_payload_sel
        insert_after_concurrent_create except_IntegrityError_def)
  have again: "fst (create_submission ''t2'' example_payload (concurrent_create example_db)) =
     Inr (Some (example_row 2 ''t2''))"
    unfolding submitted_db_def[symmetric] submitted_db_eq
    by (simp add: submission_defs example_db_def example_payload_def example_row_def)
  from insert_after_concurrent_create env again show ?thesis by blast
qed

subsection \<open>The function layer does not sequence attempts\<close>

lemma unenrolled_db_eq:
  "unenrolled_db = example_db\<lparr>Submissions := [example_row 1 ''t1''], Enrollments := []\<rparr>"
  unfolding unenrolled_db_def submitted_db_eq
  by (simp add: unenroll_def get_conn_def delete_Enrollments_def example_db_def)

lemma promoted_db_eq:
  "promoted_db = example_db\<lparr>Submissions := [example_row 1 ''t1''],
      Users := map (\<lambda>u. if u_id u = 3 then u\<lparr>u_role := ''teacher''\<rparr> else u) (Users example_db)\<rparr>"
  unfolding promoted_db_def submitted_db_eq
  by (simp add: update_user_def get_conn_def update_Users_def promotion_def assign_def example_db_def)

text \<open>
  C9, as the code has it. \<open>create_submission\<close> of managementCrud.py, called without an
  attempt number, inserts attempt 1. In every store that already holds attempt 1 for the
  pair the call fails with an \<open>IntegrityError\<close> and inserts nothing. The triggers run
  before the uniqueness check: when the student is enrolled in no class that owns the
  assignment the error is the abort of the enrollment trigger; when the student is
  enrolled but the user has a role other than student it is the abort of the role
  trigger; otherwise it is the uniqueness violation.
\<close>

theorem crud_create_submission_existing_attempt:
  "(a, s, 1) \<in> set (map (\<lambda>r. (s_assignment_id r, s_student_id r, s_attempt_number r)) (Submissions d)) \<longrightarrow>
     (\<exists>e. crud_create_submission_default now a s d = (Inl (IntegrityError e), d)) \<and>
     (\<not> (\<exists>c. (a, c) \<in> set (assignment_classes d) \<and> (s, c) \<in> set (enrollment_keys d)) \<longrightarrow>
        crud_create_submission_default now a s d =
          (Inl (IntegrityError (Raise_Abort
             ''Student must be enrolled in the class for this assignment'')), d)) \<and>
     ((\<exists>c. (a, c) \<in> set (assignment_classes d) \<and> (s, c) \<in> set (enrollment_keys d)) \<and>
      (\<exists>r. user_role d s = Some r \<and> r \<noteq> ''student'') \<longrightarrow>
        crud_create_submission_default now a s d =
          (Inl (IntegrityError (Raise_Abort
             ''Submissions.student_id must reference a user with role=student'')), d)) \<and>
     ((\<exists>c. (a, c) \<in> set (assignment_classes d) \<and> (s, c) \<in> set (enrollment_keys d)) \<and>
      (user_role d s = None \<or> user_role d s = Some ''student'') \<longrightarrow>
        crud_create_submission_default now a s d =
          (Inl (IntegrityError (Unique_Failed
             ''Submissions.assignment_id, Submissions.student_id, Submissions.attempt_number'')), d))"
proof
  assume "(a, s, 1) \<in> set (map (\<lambda>r. (s_assignment_id r, s_student_id r, s_attempt_number r)) (Submissions d))"
  then have key: "(a, s, 1) \<in> set (attempt_keys d)" by (simp add: attempt_keys_def)
  have one: "int64 1" by (simp add: int64_def)
  have role: "trg_submissions_student_role d s = (\<exists>r. user_role d s = Some r \<and> r \<noteq> ''student'')"
    by (cases "user_role d s") (simp_all add: trg_submissions_student_role_def sql_neq_def)
  have unfolded: "crud_create_submission_default now a s d =
    (if trg_submissions_student_enrolled d a s
       then (Inl (IntegrityError (Raise_Abort
               ''Student must be enrolled in the class for this assignment'')), d)
     else if trg_submissions_student_role d s
       then (Inl (IntegrityError (Raise_Abort
               ''Submissions.student_id must reference a user with role=student'')), d)
     else (Inl (IntegrityError (Unique_Failed
               ''Submissions.assignment_id, Submissions.student_id, Submissions.attempt_number'')), d))"
    using key one
    by (simp add: crud_create_submission_default_def crud_create_submission_def connect_def
        insert_Submissions_def)
  show "(\<exists>e. crud_create_submission_default now a s d = (Inl (IntegrityError e), d)) \<and>
     (\<not> (\<exists>c. (a, c) \<in> set (assignment_classes d) \<and> (s, c) \<in> set (enrollment_keys d)) \<longrightarrow>
        crud_create_submission_default now a s d =
          (Inl (IntegrityError (Raise_Abort
             ''Student must be enrolled in the class for this assignment'')), d)) \<and>
     ((\<exists>c. (a, c) \<in> set (assignment_classes d) \<and> (s, c) \<in> set (enrollment_keys d)) \<and>
      (\<exists>r. user_role d s = Some r \<and> r \<noteq> ''student'') \<longrightarrow>
        crud_create_submission_default now a s d =
          (Inl (IntegrityError (Raise_Abort
             ''Submissions.student_id must reference a user with role=student'')), d)) \<and>
     ((\<exists>c. (a, c) \<in> set (assignment_classes d) \<and> (s, c) \<in> set (enrollment_keys d)) \<and>
      (user_role d s = None \<or> user_role d s = Some ''student'') \<longrightarrow>
        crud_create_submission_default now a s d =
          (Inl (IntegrityError (Unique_Failed
             ''Submissions.assignment_id, Submissions.student_id, Submissions.attempt_number'')), d))"
    unfolding unfolded enrolled_trigger_iff role by auto
qed

theorem crud_create_submission_existing_attempt_witness:
  "crud_create_submission_default ''t2'' 1 3 submitted_db =
     (Inl (IntegrityError (Unique_Failed
        ''Submissions.assignment_id, Submissions.student_id, Submissions.attempt_number'')),
      submitted_db) \<and>
   crud_create_submission_default ''t2'' 1 3 promoted_db =
     (Inl (IntegrityError (Raise_Abort
        ''Submissions.student_id must reference a user with role=student'')), promoted_db) \<and>
   crud_create_submission_default ''t2'' 1 3 unenrolled_db =
     (Inl (IntegrityError (Raise_Abort
        ''Student must be enrolled in the class for this assignment'')), unenrolled_db)"
proof -
  have key: "(1, 3, 1) \<in> set (map (\<lambda>r. (s_assignment_id r, s_student_id r, s_attempt_number r))
                                 (Submissions submitted_db))"
    unfolding submitted_db_eq by (simp add: example_row_def)
  have ok: "(\<exists>c. (1, c) \<in> set (assignment_classes submitted_db) \<and> (3, c) \<in> set (enrollment_keys submitted_db)) \<and>
            (user_role submitted_db 3 = None \<or> user_role submitted_db 3 = Some ''student'')"
    unfolding submitted_db_eq
    by (simp add: assignment_classes_def enrollment_keys_def user_role_def example_db_def)
  have key_p: "(1, 3, 1) \<in> set (map (\<lambda>r. (s_assignment_id r, s_student_id r, s_attempt_number r))
                                 (Submissions promoted_db))"
    unfolding promoted_db_eq by (simp add: example_row_def)
  have role_p: "(\<exists>c. (1, c) \<in> set (assignment_classes promoted_db) \<and> (3, c) \<in> set (enrollment_keys promoted_db)) \<and>
            (\<exists>r. user_role promoted_db 3 = Some r \<and> r \<noteq> ''student'')"
    unfolding promoted_db_eq
    by (simp add: assignment_classes_def enrollment_keys_def user_role_def example_db_def)
  have key_u: "(1, 3, 1) \<in> set (map (\<lambda>r. (s_assignment_id r, s_student_id r, s_attempt_number r))
                                 (Submissions unenrolled_db))"
    unfolding unenrolled_db_eq by (simp add: example_row_def)
  have out_u: "\<not> (\<exists>c. (1, c) \<in> set (assignment_classes unenrolled_db) \<and>
                       (3, c) \<in> set (enrollment_keys unenrolled_db))"
    unfolding unenrolled_db_eq by (simp add: enrollment_keys_def)
  from crud_create_submission_existing_attempt[of 1 3 submitted_db "''t2''"]
       crud_create_submission_existing_attempt[of 1 3 promoted_db "''t2''"]
       crud_create_submission_existing_attempt[of 1 3 unenrolled_db "''t2''"]
       key ok key_p role_p key_u out_u
  show ?thesis by blast
qed

text \<open>
  C9 as stated fails in a store that holds attempt 1 for the pair when the student has
  since been unenrolled: the enrollment trigger aborts the insert before the uniqueness
  check is reached.
\<close>

theorem crud_create_submission_trigger_first_counterexample:
  "(1, 3, 1) \<in> set (attempt_keys unenrolled_db) \<and>
   crud_create_submission_default ''t2'' 1 3 unenrolled_db =
     (Inl (IntegrityError (Raise_Abort ''Student must be enrolled in the class for this assignment'')),
      unenrolled_db)"
  unfolding unenrolled_db_eq
  by (simp add: crud_create_submission_default_def crud_create_submission_def connect_def
      submission_defs example_db_def example_row_def)

subsection \<open>An enrollment of a user that does not exist\<close>

lemma user_role_None: "i \<notin> set (map u_id (Users d)) \<Longrightarrow> user_role d i = None"
  by (auto simp: user_role_def find_None_iff)

text \<open>
  C10. In a store where the foreign key of Enrollments.user_id holds, an enrollment of a
  \<open>user_id\<close> without a Users row does not fire the role trigger; the insert is rejected
  by the foreign-key check, \<open>enroll_student\<close> raises that \<open>IntegrityError\<close>, the
  \<open>enroll\<close> handler answers 409 with its message, and the store is unchanged. (Every
  route and function preserves the foreign key: \<open>enrollments_fk_preserved\<close> below.)
\<close>

theorem enrollment_missing_user_foreign_key:
  "user_id \<notin> set (map u_id (Users d)) \<and> enrollments_fk d \<longrightarrow>
     \<not> trg_enrollments_student_role d user_id \<and>
     insert_Enrollments now user_id class_id d = Inl (IntegrityError Foreign_Key_Failed) \<and>
     enroll_student now user_id class_id d = (Inl (IntegrityError Foreign_Key_Failed), d) \<and>
     enroll now \<lparr>ec_user_id = user_id, ec_class_id = class_id\<rparr> d =
       (Inl (HTTPException 409 ''Enrollment failed: FOREIGN KEY constraint failed''), d)"
proof (intro impI)
  assume h: "user_id \<notin> set (map u_id (Users d)) \<and> enrollments_fk d"
  then have none: "user_role d user_id = None" by (simp add: user_role_None)
  then have trg: "\<not> trg_enrollments_student_role d user_id"
    by (simp add: trg_enrollments_student_role_def sql_neq_def)
  from h have "user_id \<notin> set (map e_user_id (Enrollments d))"
    unfolding enrollments_fk_def by blast
  then have key: "(user_id, class_id) \<notin> set (enrollment_keys d)" by (force simp: enrollment_keys_def)
  have ins: "insert_Enrollments now user_id class_id d = Inl (IntegrityError Foreign_Key_Failed)"
    using trg key h by (simp add: insert_Enrollments_def)
  show "\<not> trg_enrollments_student_role d user_id \<and>
     insert_Enrollments now user_id class_id d = Inl (IntegrityError Foreign_Key_Failed) \<and>
     enroll_student now user_id class_id d = (Inl (IntegrityError Foreign_Key_Failed), d) \<and>
     enroll now \<lparr>ec_user_id = user_id, ec_class_id = class_id\<rparr> d =
       (Inl (HTTPException 409 ''Enrollment failed: FOREIGN KEY constraint failed''), d)"
    using trg ins
    by (simp add: enroll_student_def connect_def returning_None_def enroll_def get_conn_def
        except_IntegrityError_def)
qed

theorem enrollment_missing_user_foreign_key_witness:
  "\<not> trg_enrollments_student_role example_db 99 \<and>
   insert_Enrollments ''t1'' 99 1 example_db = Inl (IntegrityError Foreign_Key_Failed) \<and>
   enroll_student ''t1'' 99 1 example_db = (Inl (IntegrityError Foreign_Key_Failed), example_db) \<and>
   enroll ''t1'' \<lparr>ec_user_id = 99, ec_class_id = 1\<rparr> example_db =
     (Inl (HTTPException 409 ''Enrollment failed: FOREIGN KEY constraint failed''), example_db)"
proof -
  have h: "99 \<notin> set (map u_id (Users example_db)) \<and> enrollments_fk example_db"
    by (simp add: enrollments_fk_def example_db_def)
  from enrollment_missing_user_foreign_key[of 99 example_db "''t1''" 1] h show ?thesis by blast
qed

subsection \<open>Deleting by key\<close>

lemma hit_ids:
  "set (map key (filter (\<lambda>r. key r = k) xs)) = (if k \<in> set (map key xs) then {k} else {})"
  by (induction xs) auto

lemma hit_nonempty: "k \<in> set (map key xs) \<Longrightarrow> filter (\<lambda>r. key r = k) xs \<noteq> []"
  by (induction xs) auto

lemma hit_empty: "k \<notin> set (map key xs) \<Longrightarrow> filter (\<lambda>r. key r = k) xs = []"
  by (induction xs) auto

lemma keep_all: "k \<notin> set (map key xs) \<Longrightarrow> filter (\<lambda>r. key r \<noteq> k) xs = xs"
  by (induction xs) auto

lemma hit_one:
  "distinct (map key xs) \<Longrightarrow> k \<in> set (map key xs) \<Longrightarrow> length (filter (\<lambda>r. key r = k) xs) = 1"
  by (induction xs) (auto simp: hit_empty)

lemma delete_Classes_missing:
  "class_id \<notin> set (map c_id (Classes d)) \<Longrightarrow> delete_Classes class_id d = Inr (0, d)"
  by (simp add: delete_Classes_def delete_Assignments_where_def delete_Submissions_where_def
      delete_SubmissionAttachments_where_def Let_def hit_empty[of class_id c_id] keep_all[of class_id c_id])

lemma delete_Users_missing:
  "user_id \<notin> set (map u_id (Users d)) \<Longrightarrow> delete_Users user_id d = Inr (0, d)"
  by (simp add: delete_Users_def delete_Submissions_where_def
      delete_SubmissionAttachments_where_def Let_def hit_empty[of user_id u_id] keep_all[of user_id u_id])

lemma delete_Assignments_missing:
  "assignment_id \<notin> set (map a_id (Assignments d)) \<Longrightarrow> delete_Assignments assignment_id d = Inr (0, d)"
  by (simp add: delete_Assignments_def delete_Assignments_where_def delete_Submissions_where_def
      delete_SubmissionAttachments_where_def Let_def hit_empty[of assignment_id a_id]
      keep_all[of assignment_id a_id, simplified])

lemma delete_Submissions_missing:
  "submission_id \<notin> set (map s_id (Submissions d)) \<Longrightarrow> delete_Submissions submission_id d = Inr (0, d)"
  by (simp add: delete_Submissions_def delete_Submissions_where_def
      delete_SubmissionAttachments_where_def Let_def hit_empty[of submission_id s_id]
      keep_all[of submission_id s_id, simplified])

subsection \<open>Deleting a class\<close>

lemma delete_Classes_existing:
  assumes "class_id \<in> set (map c_id (Classes d))"
  shows "delete_Classes class_id d =
     Inr (int (length (filter (\<lambda>c. c_id c = class_id) (Classes d))),
          d\<lparr>Classes := filter (\<lambda>c. c_id c \<noteq> class_id) (Classes d),
             TeacherClass := filter (\<lambda>r. tc_class_id r \<noteq> class_id) (TeacherClass d),
             Enrollments := filter (\<lambda>e. e_class_id e \<noteq> class_id) (Enrollments d),
             Announcements := filter (\<lambda>n. n_class_id n \<noteq> class_id) (Announcements d),
             Assignments := filter (\<lambda>a. a_class_id a \<noteq> class_id) (Assignments d),
             Submissions := filter (\<lambda>s. \<not> submission_in_class d class_id s) (Submissions d),
             SubmissionAttachments :=
               filter (\<lambda>t. \<not> attachment_in_class d class_id t) (SubmissionAttachments d)\<rparr>)"
  using assms
  by (simp add: delete_Classes_def delete_Assignments_where_def delete_Submissions_where_def
      delete_SubmissionAttachments_where_def Let_def hit_ids[of c_id]
      submission_in_class_def[abs_def] attachment_in_class_def del: set_map)

text \<open>
  C6. \<open>delete_class\<close> on an existing class succeeds and removes, in the one statement,
  the class, its TeacherClass, Enrollments and Announcements rows, its assignments, the
  submissions of those assignments and the attachments of those submissions. Every table
  keeps, in order, exactly the rows that do not belong to the class; Users is untouched.
\<close>

theorem delete_class_cascade:
  "class_id \<in> set (map c_id (Classes d)) \<longrightarrow>
   delete_class class_id d =
     (Inr (),
      d\<lparr>Classes := filter (\<lambda>c. c_id c \<noteq> class_id) (Classes d),
        TeacherClass := filter (\<lambda>r. tc_class_id r \<noteq> class_id) (TeacherClass d),
        Enrollments := filter (\<lambda>e. e_class_id e \<noteq> class_id) (Enrollments d),
        Announcements := filter (\<lambda>n. n_class_id n \<noteq> class_id) (Announcements d),
        Assignments := filter (\<lambda>a. a_class_id a \<noteq> class_id) (Assignments d),
        Submissions := filter (\<lambda>s. \<not> submission_in_class d class_id s) (Submissions d),
        SubmissionAttachments :=
          filter (\<lambda>t. \<not> attachment_in_class d class_id t) (SubmissionAttachments d)\<rparr>)"
proof
  assume h: "class_id \<in> set (map c_id (Classes d))"
  have "filter (\<lambda>c. c_id c = class_id) (Classes d) \<noteq> []" using h by (rule hit_nonempty)
  then show "delete_class class_id d =
     (Inr (),
      d\<lparr>Classes := filter (\<lambda>c. c_id c \<noteq> class_id) (Classes d),
        TeacherClass := filter (\<lambda>r. tc_class_id r \<noteq> class_id) (TeacherClass d),
        Enrollments := filter (\<lambda>e. e_class_id e \<noteq> class_id) (Enrollments d),
        Announcements := filter (\<lambda>n. n_class_id n \<noteq> class_id) (Announcements d),
        Assignments := filter (\<lambda>a. a_class_id a \<noteq> class_id) (Assignments d),
        Submissions := filter (\<lambda>s. \<not> submission_in_class d class_id s) (Submissions d),
        SubmissionAttachments :=
          filter (\<lambda>t. \<not> attachment_in_class d class_id t) (SubmissionAttachments d)\<rparr>)"
    by (simp add: delete_class_def get_conn_def delete_Classes_existing[OF h])
qed


theorem delete_class_cascade_witness:
  "fst (delete_class 1 seeded_db) = Inr () \<and>
   map a_id (Assignments (snd (delete_class 1 seeded_db))) = [2] \<and>
   map s_id (Submissions (snd (delete_class 1 seeded_db))) = [2] \<and>
   map t_id (SubmissionAttachments (snd (delete_class 1 seeded_db))) = [2] \<and>
   enrollment_keys (snd (delete_class 1 seeded_db)) = [(4, 2)] \<and>
   teacherclass_keys (snd (delete_class 1 seeded_db)) = [(2, 2)] \<and>
   Users (snd (delete_class 1 seeded_db)) = Users seeded_db"
proof -
  have h: "1 \<in> set (map c_id (Classes seeded_db))" by (simp add: seeded_db_def)
  note eq = delete_class_cascade[of 1 seeded_db, THEN mp, OF h]
  show ?thesis unfolding eq
    by (simp add: seeded_db_def submission_in_class_def attachment_in_class_def
        enrollment_keys_def teacherclass_keys_def)
qed

subsection \<open>Deleting a user\<close>

lemma delete_Users_existing:
  assumes "user_id \<in> set (map u_id (Users d))"
  shows "delete_Users user_id d =
     (if user_id \<in> set (map n_author_id (Announcements d)) then Inl (IntegrityError Foreign_Key_Failed)
      else Inr (int (length (filter (\<lambda>u. u_id u = user_id) (Users d))),
          d\<lparr>Users := filter (\<lambda>u. u_id u \<noteq> user_id) (Users d),
             TeacherClass := filter (\<lambda>r. tc_teacher_id r \<noteq> user_id) (TeacherClass d),
             Enrollments := filter (\<lambda>e. e_user_id e \<noteq> user_id) (Enrollments d),
             Submissions := filter (\<lambda>s. s_student_id s \<noteq> user_id) (Submissions d),
             SubmissionAttachments :=
               filter (\<lambda>t. t_submission_id t \<notin>
                         set (map s_id (filter (\<lambda>s. s_student_id s = user_id) (Submissions d))))
                 (SubmissionAttachments d)\<rparr>))"
proof -
  have "(filter (\<lambda>n. n_author_id n = user_id) (Announcements d) \<noteq> []) =
        (user_id \<in> set (map n_author_id (Announcements d)))"
    using hit_nonempty[of user_id n_author_id "Announcements d"]
      hit_empty[of user_id n_author_id "Announcements d"] by blast
  then show ?thesis using assms
    by (simp add: delete_Users_def delete_Submissions_where_def
        delete_SubmissionAttachments_where_def Let_def hit_ids[of u_id] del: set_map)
qed

lemma delete_announcement_store:
  "snd (delete_announcement i d) = d\<lparr>Announcements := filter (\<lambda>n. n_id n \<noteq> i) (Announcements d)\<rparr>"
proof (cases "i \<in> set (map n_id (Announcements d))")
  case True
  then show ?thesis
    using hit_nonempty[of i n_id "Announcements d"]
    by (simp add: delete_announcement_def get_conn_def delete_Announcements_def)
next
  case False
  then show ?thesis
    by (simp add: delete_announcement_def get_conn_def delete_Announcements_def
        hit_empty[of i n_id] keep_all[of i n_id])
qed

lemma delete_announcements_store:
  "delete_announcements ids d = d\<lparr>Announcements := filter (\<lambda>n. n_id n \<notin> set ids) (Announcements d)\<rparr>"
  by (induction ids arbitrary: d) (simp_all add: delete_announcement_store conj_commute)

lemma no_authored_left:
  "user_id \<notin> set (map n_author_id (Announcements (delete_announcements (authored user_id d) d)))"
  by (auto simp: delete_announcements_store authored_def)

text \<open>
  C5. \<open>delete_user\<close> on an existing user who is the author of an announcement fails with
  the foreign-key \<open>IntegrityError\<close> of \<open>ON DELETE RESTRICT\<close> (the handler does not catch
  it) and leaves the store unchanged. On an existing user without announcements it
  succeeds and removes the user with the user's TeacherClass and Enrollments rows (and
  submissions with their attachments). After the user's announcements have been removed
  one by one through \<open>delete_announcement\<close>, it succeeds.
\<close>

theorem delete_user_restricted_by_announcements:
  "(user_id \<in> set (map u_id (Users d)) \<and> user_id \<in> set (map n_author_id (Announcements d)) \<longrightarrow>
      delete_user user_id d = (Inl (Uncaught (IntegrityError Foreign_Key_Failed)), d)) \<and>
   (user_id \<in> set (map u_id (Users d)) \<and> user_id \<notin> set (map n_author_id (Announcements d)) \<longrightarrow>
      delete_user user_id d =
        (Inr (),
         d\<lparr>Users := filter (\<lambda>u. u_id u \<noteq> user_id) (Users d),
           TeacherClass := filter (\<lambda>r. tc_teacher_id r \<noteq> user_id) (TeacherClass d),
           Enrollments := filter (\<lambda>e. e_user_id e \<noteq> user_id) (Enrollments d),
           Submissions := filter (\<lambda>s. s_student_id s \<noteq> user_id) (Submissions d),
           SubmissionAttachments :=
             filter (\<lambda>t. t_submission_id t \<notin>
                       set (map s_id (filter (\<lambda>s. s_student_id s = user_id) (Submissions d))))
               (SubmissionAttachments d)\<rparr>)) \<and>
   (user_id \<in> set (map u_id (Users d)) \<longrightarrow>
      fst (delete_user user_id (delete_announcements (authored user_id d) d)) = Inr ())"
proof (intro conjI impI)
  assume h: "user_id \<in> set (map u_id (Users d)) \<and> user_id \<in> set (map n_author_id (Announcements d))"
  then show "delete_user user_id d = (Inl (Uncaught (IntegrityError Foreign_Key_Failed)), d)"
    by (simp add: delete_user_def get_conn_def delete_Users_existing)
next
  assume h: "user_id \<in> set (map u_id (Users d)) \<and> user_id \<notin> set (map n_author_id (Announcements d))"
  then have "filter (\<lambda>u. u_id u = user_id) (Users d) \<noteq> []" by (simp add: hit_nonempty)
  with h show "delete_user user_id d =
        (Inr (),
         d\<lparr>Users := filter (\<lambda>u. u_id u \<noteq> user_id) (Users d),
           TeacherClass := filter (\<lambda>r. tc_teacher_id r \<noteq> user_id) (TeacherClass d),
           Enrollments := filter (\<lambda>e. e_user_id e \<noteq> user_id) (Enrollments d),
           Submissions := filter (\<lambda>s. s_student_id s \<noteq> user_id) (Submissions d),
           SubmissionAttachments :=
             filter (\<lambda>t. t_submission_id t \<notin>
                       set (map s_id (filter (\<lambda>s. s_student_id s = user_id) (Submissions d))))
               (SubmissionAttachments d)\<rparr>)"
    by (simp add: delete_user_def get_conn_def delete_Users_existing)
next
  let ?d = "delete_announcements (authored user_id d) d"
  assume h: "user_id \<in> set (map u_id (Users d))"
  then have u: "user_id \<in> set (map u_id (Users ?d))" by (simp add: delete_announcements_store)
  then have ne: "filter (\<lambda>u. u_id u = user_id) (Users ?d) \<noteq> []" by (simp add: hit_nonempty)
  show "fst (delete_user user_id ?d) = Inr ()"
    using no_authored_left[of user_id d] ne
    by (simp add: delete_user_def get_conn_def delete_Users_existing[OF u])
qed

theorem delete_user_restricted_by_announcements_witness:
  "delete_user 1 seeded_db = (Inl (Uncaught (IntegrityError Foreign_Key_Failed)), seeded_db) \<and>
   fst (delete_user 1 (delete_announcements (authored 1 seeded_db) seeded_db)) = Inr () \<and>
   fst (delete_user 3 seeded_db) = Inr () \<and>
   map u_id (Users (snd (delete_user 3 seeded_db))) = [1, 2, 4] \<and>
   enrollment_keys (snd (delete_user 3 seeded_db)) = [(4, 2)] \<and>
   fst (delete_user 2 seeded_db) = Inr () \<and>
   teacherclass_keys (snd (delete_user 2 seeded_db)) = [(1, 1)]"
proof -
  have blocked: "1 \<in> set (map u_id (Users seeded_db)) \<and>
                 1 \<in> set (map n_author_id (Announcements seeded_db))"
    by (simp add: seeded_db_def)
  have exists: "1 \<in> set (map u_id (Users seeded_db))" by (simp add: seeded_db_def)
  have free3: "3 \<in> set (map u_id (Users seeded_db)) \<and>
               3 \<notin> set (map n_author_id (Announcements seeded_db))"
    by (simp add: seeded_db_def)
  have free2: "2 \<in> set (map u_id (Users seeded_db)) \<and>
               2 \<notin> set (map n_author_id (Announcements seeded_db))"
    by (simp add: seeded_db_def)
  note a = delete_user_restricted_by_announcements[of 1 seeded_db, THEN conjunct1, THEN mp, OF blocked]
  note c = delete_user_restricted_by_announcements[of 1 seeded_db, THEN conjunct2, THEN conjunct2, THEN mp, OF exists]
  note b3 = delete_user_restricted_by_announcements[of 3 seeded_db, THEN conjunct2, THEN conjunct1, THEN mp, OF free3]
  note b2 = delete_user_restricted_by_announcements[of 2 seeded_db, THEN conjunct2, THEN conjunct1, THEN mp, OF free2]
  have "fst (delete_user 3 seeded_db) = Inr () \<and>
        map u_id (Users (snd (delete_user 3 seeded_db))) = [1, 2, 4] \<and>
        enrollment_keys (snd (delete_user 3 seeded_db)) = [(4, 2)]"
    unfolding b3 by (simp add: seeded_db_def enrollment_keys_def)
  moreover have "fst (delete_user 2 seeded_db) = Inr () \<and>
        teacherclass_keys (snd (delete_user 2 seeded_db)) = [(1, 1)]"
    unfolding b2 by (simp add: seeded_db_def teacherclass_keys_def)
  ultimately show ?thesis using a c by blast
qed

subsection \<open>What a delete returns\<close>

lemma hit_count:
  "distinct (map key xs) \<Longrightarrow>
   int (length (filter (\<lambda>r. key r = k) xs)) = (if k \<in> set (map key xs) then 1 else 0)"
  using hit_one[of key xs k] hit_empty[of k key xs] by auto

lemma fst_connect: "fst (connect body d) = (case body d of Inl e \<Rightarrow> Inl e | Inr (v, con) \<Rightarrow> Inr v)"
  by (simp add: connect_def split: sum.splits prod.splits)

text \<open>
  C7, as the code has it. The delete functions of managementCrud.py return \<open>rowcount\<close>,
  the number of rows of the target table that the statement itself deleted, whatever the
  cascade removed. With the primary keys in force (every route and function keeps them:
  \<open>primary_keys_preserved\<close> below), \<open>delete_class\<close>, \<open>delete_assignment\<close> and
  \<open>delete_submission\<close> return 1 when the id exists and 0 when it does not;
  \<open>delete_user\<close> returns 1 when the id exists and the user has authored no announcement
  and 0 when the id does not exist, and when the user exists and has authored an
  announcement it raises the foreign-key \<open>IntegrityError\<close> and leaves the store
  unchanged. A missing id is no failure: the function returns 0 and leaves the store
  unchanged. The delete handlers of main.py return nothing, and fail with status 404 on
  a missing id.
\<close>

theorem delete_returns_direct_rowcount:
  "(primary_keys d \<longrightarrow>
      fst (crud_delete_class i d) = Inr (if i \<in> set (map c_id (Classes d)) then 1 else 0) \<and>
      fst (crud_delete_assignment i d) = Inr (if i \<in> set (map a_id (Assignments d)) then 1 else 0) \<and>
      fst (crud_delete_submission i d) = Inr (if i \<in> set (map s_id (Submissions d)) then 1 else 0) \<and>
      (i \<notin> set (map n_author_id (Announcements d)) \<longrightarrow>
         fst (crud_delete_user i d) = Inr (if i \<in> set (map u_id (Users d)) then 1 else 0))) \<and>
   (i \<in> set (map u_id (Users d)) \<and> i \<in> set (map n_author_id (Announcements d)) \<longrightarrow>
      crud_delete_user i d = (Inl (IntegrityError Foreign_Key_Failed), d)) \<and>
   (i \<notin> set (map c_id (Classes d)) \<longrightarrow>
      crud_delete_class i d = (Inr 0, d) \<and>
      delete_class i d = (Inl (HTTPException 404 ''Class not found''), d)) \<and>
   (i \<notin> set (map a_id (Assignments d)) \<longrightarrow>
      crud_delete_assignment i d = (Inr 0, d) \<and>
      delete_assignment i d = (Inl (HTTPException 404 ''Assignment not found''), d)) \<and>
   (i \<notin> set (map s_id (Submissions d)) \<longrightarrow>
      crud_delete_submission i d = (Inr 0, d) \<and>
      delete_submission i d = (Inl (HTTPException 404 ''Submission not found''), d)) \<and>
   (i \<notin> set (map u_id (Users d)) \<longrightarrow>
      crud_delete_user i d = (Inr 0, d) \<and>
      delete_user i d = (Inl (HTTPException 404 ''User not found''), d))"
proof (intro conjI impI)
  assume "primary_keys d"
  then have "distinct (map c_id (Classes d))" by (simp add: primary_keys_def)
  then show "fst (crud_delete_class i d) = Inr (if i \<in> set (map c_id (Classes d)) then 1 else 0)"
    using hit_count[of c_id "Classes d" i]
    by (simp add: crud_delete_class_def fst_connect delete_Classes_def Let_def del: set_map)
next
  assume "primary_keys d"
  then have "distinct (map a_id (Assignments d))" by (simp add: primary_keys_def)
  then show "fst (crud_delete_assignment i d) = Inr (if i \<in> set (map a_id (Assignments d)) then 1 else 0)"
    using hit_count[of a_id "Assignments d" i]
    by (simp add: crud_delete_assignment_def fst_connect delete_Assignments_def del: set_map)
next
  assume "primary_keys d"
  then have "distinct (map s_id (Submissions d))" by (simp add: primary_keys_def)
  then show "fst (crud_delete_submission i d) = Inr (if i \<in> set (map s_id (Submissions d)) then 1 else 0)"
    using hit_count[of s_id "Submissions d" i]
    by (simp add: crud_delete_submission_def fst_connect delete_Submissions_def del: set_map)
next
  assume "primary_keys d" and free: "i \<notin> set (map n_author_id (Announcements d))"
  then have dist: "distinct (map u_id (Users d))" by (simp add: primary_keys_def)
  show "fst (crud_delete_user i d) = Inr (if i \<in> set (map u_id (Users d)) then 1 else 0)"
  proof (cases "i \<in> set (map u_id (Users d))")
    case True
    then show ?thesis using dist free hit_count[of u_id "Users d" i]
      by (simp add: crud_delete_user_def fst_connect delete_Users_existing del: set_map)
  next
    case False
    then show ?thesis by (simp add: crud_delete_user_def fst_connect delete_Users_missing del: set_map)
  qed
next
  assume "i \<in> set (map u_id (Users d)) \<and> i \<in> set (map n_author_id (Announcements d))"
  then show "crud_delete_user i d = (Inl (IntegrityError Foreign_Key_Failed), d)"
    by (simp add: crud_delete_user_def connect_def delete_Users_existing)
next
  assume "i \<notin> set (map c_id (Classes d))"
  then show "crud_delete_class i d = (Inr 0, d)"
    and "delete_class i d = (Inl (HTTPException 404 ''Class not found''), d)"
    by (simp_all add: crud_delete_class_def connect_def delete_class_def get_conn_def delete_Classes_missing)
next
  assume "i \<notin> set (map a_id (Assignments d))"
  then show "crud_delete_assignment i d = (Inr 0, d)"
    and "delete_assignment i d = (Inl (HTTPException 404 ''Assignment not found''), d)"
    by (simp_all add: crud_delete_assignment_def connect_def delete_assignment_def get_conn_def delete_Assignments_missing)
next
  assume "i \<notin> set (map s_id (Submissions d))"
  then show "crud_delete_submission i d = (Inr 0, d)"
    and "delete_submission i d = (Inl (HTTPException 404 ''Submission not found''), d)"
    by (simp_all add: crud_delete_submission_def connect_def delete_submission_def get_conn_def delete_Submissions_missing)
next
  assume "i \<notin> set (map u_id (Users d))"
  then show "crud_delete_user i d = (Inr 0, d)"
    and "delete_user i d = (Inl (HTTPException 404 ''User not found''), d)"
    by (simp_all add: crud_delete_user_def connect_def delete_user_def get_conn_def delete_Users_missing)
qed

theorem delete_returns_direct_rowcount_witness:
  "fst (crud_delete_class 1 seeded_db) = Inr 1 \<and>
   fst (crud_delete_assignment 1 seeded_db) = Inr 1 \<and>
   fst (crud_delete_submission 1 seeded_db) = Inr 1 \<and>
   fst (crud_delete_user 2 seeded_db) = Inr 1 \<and>
   crud_delete_user 1 seeded_db = (Inl (IntegrityError Foreign_Key_Failed), seeded_db) \<and>
   crud_delete_class 99 seeded_db = (Inr 0, seeded_db) \<and>
   delete_class 99 seeded_db = (Inl (HTTPException 404 ''Class not found''), seeded_db) \<and>
   crud_delete_assignment 99 seeded_db = (Inr 0, seeded_db) \<and>
   delete_assignment 99 seeded_db = (Inl (HTTPException 404 ''Assignment not found''), seeded_db) \<and>
   crud_delete_submission 99 seeded_db = (Inr 0, seeded_db) \<and>
   delete_submission 99 seeded_db = (Inl (HTTPException 404 ''Submission not found''), seeded_db) \<and>
   crud_delete_user 99 seeded_db = (Inr 0, seeded_db) \<and>
   delete_user 99 seeded_db = (Inl (HTTPException 404 ''User not found''), seeded_db)"
proof -
  have keys: "primary_keys seeded_db" by (simp add: primary_keys_def seeded_db_def)
  have free: "2 \<notin> set (map n_author_id (Announcements seeded_db))" by (simp add: seeded_db_def)
  have blocked: "1 \<in> set (map u_id (Users seeded_db)) \<and>
                 1 \<in> set (map n_author_id (Announcements seeded_db))"
    by (simp add: seeded_db_def)
  have present: "1 \<in> set (map c_id (Classes seeded_db))" "1 \<in> set (map a_id (Assignments seeded_db))"
    "1 \<in> set (map s_id (Submissions seeded_db))" "2 \<in> set (map u_id (Users seeded_db))"
    by (simp_all add: seeded_db_def)
  have missing: "99 \<notin> set (map c_id (Classes seeded_db))" "99 \<notin> set (map a_id (Assignments seeded_db))"
    "99 \<notin> set (map s_id (Submissions seeded_db))" "99 \<notin> set (map u_id (Users seeded_db))"
    by (simp_all add: seeded_db_def)
  note one = delete_returns_direct_rowcount[where d = seeded_db and i = 1]
  note two = delete_returns_direct_rowcount[where d = seeded_db and i = 2]
  note none = delete_returns_direct_rowcount[where d = seeded_db and i = 99]
  have "fst (crud_delete_class 1 seeded_db) = Inr 1" using one keys present(1) by presburger
  moreover have "fst (crud_delete_assignment 1 seeded_db) = Inr 1" using one keys present(2) by presburger
  moreover have "fst (crud_delete_submission 1 seeded_db) = Inr 1" using one keys present(3) by presburger
  moreover have "fst (crud_delete_user 2 seeded_db) = Inr 1" using two keys free present(4) by presburger
  moreover have "crud_delete_user 1 seeded_db = (Inl (IntegrityError Foreign_Key_Failed), seeded_db)"
    using one blocked by blast
  ultimately show ?thesis using none missing by blast
qed

text \<open>
  C7 as stated fails: deleting class 1 of the seeded store removes seven rows in all (the
  class, a TeacherClass row, an enrollment, an announcement, an assignment, its submission
  and the attachment) and returns 1; deleting the missing class 99 returns 0 and is no
  failure.
\<close>

theorem delete_count_excludes_cascade_counterexample:
  "fst (crud_delete_class 1 seeded_db) = Inr 1 \<and>
   row_count seeded_db - row_count (snd (crud_delete_class 1 seeded_db)) = 7 \<and>
   crud_delete_class 99 seeded_db = (Inr 0, seeded_db)"
proof -
  have h: "1 \<in> set (map c_id (Classes seeded_db))" by (simp add: seeded_db_def)
  have eq: "crud_delete_class 1 seeded_db = (Inr 1,
      seeded_db\<lparr>Classes := filter (\<lambda>c. c_id c \<noteq> 1) (Classes seeded_db),
        TeacherClass := filter (\<lambda>r. tc_class_id r \<noteq> 1) (TeacherClass seeded_db),
        Enrollments := filter (\<lambda>e. e_class_id e \<noteq> 1) (Enrollments seeded_db),
        Announcements := filter (\<lambda>n. n_class_id n \<noteq> 1) (Announcements seeded_db),
        Assignments := filter (\<lambda>a. a_class_id a \<noteq> 1) (Assignments seeded_db),
        Submissions := filter (\<lambda>s. \<not> submission_in_class seeded_db 1 s) (Submissions seeded_db),
        SubmissionAttachments :=
          filter (\<lambda>t. \<not> attachment_in_class seeded_db 1 t) (SubmissionAttachments seeded_db)\<rparr>)"
    unfolding crud_delete_class_def connect_def delete_Classes_existing[OF h]
    by (simp add: seeded_db_def)
  have miss: "99 \<notin> set (map c_id (Classes seeded_db))" by (simp add: seeded_db_def)
  have none: "crud_delete_class 99 seeded_db = (Inr 0, seeded_db)"
    by (simp add: crud_delete_class_def connect_def delete_Classes_missing[OF miss])
  show ?thesis unfolding eq none
    by (simp add: row_count_def seeded_db_def submission_in_class_def attachment_in_class_def)
qed

subsection \<open>Rejected mutations\<close>

lemma get_conn_atomic: "isl (fst (get_conn body d)) \<Longrightarrow> snd (get_conn body d) = d"
  by (auto simp: get_conn_def split: sum.splits prod.splits)

lemma connect_atomic: "isl (fst (connect body d)) \<Longrightarrow> snd (connect body d) = d"
  by (auto simp: connect_def split: sum.splits prod.splits)

lemma guarded_atomic:
  assumes "isl (fst (if c then (Inl e, d) else get_conn body d))"
  shows "snd (if c then (Inl e, d) else get_conn body d) = d"
  using assms by (cases c) (simp_all add: get_conn_atomic)

lemma guarded_connect_atomic:
  assumes "isl (fst (if c then (Inr v, d) else connect body d))"
  shows "snd (if c then (Inr v, d) else connect body d) = d"
  using assms by (cases c) (simp_all add: connect_atomic)

lemma respond_fst_snd: "isl (fst (respond f r)) = isl (fst r)" "snd (respond f r) = snd r"
  by (simp_all add: respond_def split: sum.splits)

lemma returned_fst_snd: "isl (fst (returned r f)) = isl (fst r)" "snd (returned r f) = snd r"
  by (simp_all add: returned_def split: sum.splits)

lemma create_user_atomic: "isl (fst (create_user now u d)) \<Longrightarrow> snd (create_user now u d) = d"
  unfolding create_user_def by (rule get_conn_atomic)

lemma update_user_atomic: "isl (fst (update_user i p d)) \<Longrightarrow> snd (update_user i p d) = d"
  unfolding update_user_def by (rule guarded_atomic)

lemma delete_user_atomic: "isl (fst (delete_user i d)) \<Longrightarrow> snd (delete_user i d) = d"
  unfolding delete_user_def by (rule get_conn_atomic)

lemma create_class_atomic: "isl (fst (create_class now p d)) \<Longrightarrow> snd (create_class now p d) = d"
  unfolding create_class_def by (rule get_conn_atomic)

lemma update_class_atomic: "isl (fst (update_class i p d)) \<Longrightarrow> snd (update_class i p d) = d"
  unfolding update_class_def by (rule guarded_atomic)

lemma delete_class_atomic: "isl (fst (delete_class i d)) \<Longrightarrow> snd (delete_class i d) = d"
  unfolding delete_class_def by (rule get_conn_atomic)

lemma enroll_atomic: "isl (fst (enroll now p d)) \<Longrightarrow> snd (enroll now p d) = d"
  unfolding enroll_def by (rule get_conn_atomic)

lemma unenroll_atomic: "isl (fst (unenroll u c d)) \<Longrightarrow> snd (unenroll u c d) = d"
  unfolding unenroll_def by (rule get_conn_atomic)

lemma teacherassigne_atomic: "isl (fst (teacherassigne p d)) \<Longrightarrow> snd (teacherassigne p d) = d"
  unfolding teacherassigne_def by (rule get_conn_atomic)

lemma unenroll_teacherassigned_atomic: "isl (fst (unenroll_teacherassigned t c d)) \<Longrightarrow> snd (unenroll_teacherassigned t c d) = d"
  unfolding unenroll_teacherassigned_def by (rule get_conn_atomic)

lemma create_assignment_atomic: "isl (fst (create_assignment now p d)) \<Longrightarrow> snd (create_assignment now p d) = d"
  unfolding create_assignment_def by (rule get_conn_atomic)

lemma update_assignment_atomic: "isl (fst (update_assignment i p d)) \<Longrightarrow> snd (update_assignment i p d) = d"
  unfolding update_assignment_def by (rule guarded_atomic)

lemma delete_assignment_atomic: "isl (fst (delete_assignment i d)) \<Longrightarrow> snd (delete_assignment i d) = d"
  unfolding delete_assignment_def by (rule get_conn_atomic)

lemma create_submission_atomic: "isl (fst (create_submission now p d)) \<Longrightarrow> snd (create_submission now p d) = d"
  unfolding create_submission_def by (rule get_conn_atomic)

lemma update_submission_atomic: "isl (fst (update_submission i p d)) \<Longrightarrow> snd (update_submission i p d) = d"
  unfolding update_submission_def by (rule guarded_atomic)

lemma delete_submission_atomic: "isl (fst (delete_submission i d)) \<Longrightarrow> snd (delete_submission i d) = d"
  unfolding delete_submission_def by (rule get_conn_atomic)

lemma create_attachment_atomic: "isl (fst (create_attachment now p d)) \<Longrightarrow> snd (create_attachment now p d) = d"
  unfolding create_attachment_def by (rule get_conn_atomic)

lemma delete_attachment_atomic: "isl (fst (delete_attachment i d)) \<Longrightarrow> snd (delete_attachment i d) = d"
  unfolding delete_attachment_def by (rule get_conn_atomic)

lemma create_announcement_atomic: "isl (fst (create_announcement now p d)) \<Longrightarrow> snd (create_announcement now p d) = d"
  unfolding create_announcement_def by (rule get_conn_atomic)

lemma delete_announcement_atomic: "isl (fst (delete_announcement i d)) \<Longrightarrow> snd (delete_announcement i d) = d"
  unfolding delete_announcement_def by (rule get_conn_atomic)

lemmas handlers_atomic =
  create_user_atomic update_user_atomic delete_user_atomic create_class_atomic
  update_class_atomic delete_class_atomic enroll_atomic unenroll_atomic
  teacherassigne_atomic unenroll_teacherassigned_atomic create_assignment_atomic update_assignment_atomic
  delete_assignment_atomic create_submission_atomic update_submission_atomic delete_submission_atomic
  create_attachment_atomic delete_attachment_atomic create_announcement_atomic delete_announcement_atomic

lemma crud_create_user_atomic: "isl (fst (crud_create_user now e f r d)) \<Longrightarrow> snd (crud_create_user now e f r d) = d"
  unfolding crud_create_user_def by (rule connect_atomic)

lemma crud_update_user_atomic: "isl (fst (crud_update_user i e f r d)) \<Longrightarrow> snd (crud_update_user i e f r d) = d"
  unfolding crud_update_user_def by (rule guarded_connect_atomic)

lemma crud_delete_user_atomic: "isl (fst (crud_delete_user i d)) \<Longrightarrow> snd (crud_delete_user i d) = d"
  unfolding crud_delete_user_def by (rule connect_atomic)

lemma crud_create_class_atomic: "isl (fst (crud_create_class now c t x d)) \<Longrightarrow> snd (crud_create_class now c t x d) = d"
  unfolding crud_create_class_def by (rule connect_atomic)

lemma crud_update_class_atomic: "isl (fst (crud_update_class i c t x d)) \<Longrightarrow> snd (crud_update_class i c t x d) = d"
  unfolding crud_update_class_def by (rule guarded_connect_atomic)

lemma crud_delete_class_atomic: "isl (fst (crud_delete_class i d)) \<Longrightarrow> snd (crud_delete_class i d) = d"
  unfolding crud_delete_class_def by (rule connect_atomic)

lemma enroll_student_atomic: "isl (fst (enroll_student now u c d)) \<Longrightarrow> snd (enroll_student now u c d) = d"
  unfolding enroll_student_def by (rule connect_atomic)

lemma unenroll_student_atomic: "isl (fst (unenroll_student u c d)) \<Longrightarrow> snd (unenroll_student u c d) = d"
  unfolding unenroll_student_def by (rule connect_atomic)

lemma assign_teacher_to_class_atomic: "isl (fst (assign_teacher_to_class t c d)) \<Longrightarrow> snd (assign_teacher_to_class t c d) = d"
  unfolding assign_teacher_to_class_def by (rule connect_atomic)

lemma remove_teacher_from_class_atomic: "isl (fst (remove_teacher_from_class t c d)) \<Longrightarrow> snd (remove_teacher_from_class t c d) = d"
  unfolding remove_teacher_from_class_def by (rule connect_atomic)

lemma crud_create_assignment_atomic: "isl (fst (crud_create_assignment now c t x due d)) \<Longrightarrow> snd (crud_create_assignment now c t x due d) = d"
  unfolding crud_create_assignment_def by (rule connect_atomic)

lemma crud_update_assignment_atomic: "isl (fst (crud_update_assignment i t x due d)) \<Longrightarrow> snd (crud_update_assignment i t x due d) = d"
  unfolding crud_update_assignment_def by (rule guarded_connect_atomic)

lemma crud_delete_assignment_atomic: "isl (fst (crud_delete_assignment i d)) \<Longrightarrow> snd (crud_delete_assignment i d) = d"
  unfolding crud_delete_assignment_def by (rule connect_atomic)

lemma crud_create_submission_atomic: "isl (fst (crud_create_submission now a s n g f d)) \<Longrightarrow> snd (crud_create_submission now a s n g f d) = d"
  unfolding crud_create_submission_def by (rule connect_atomic)

lemma add_attachment_atomic: "isl (fst (add_attachment now i k v d)) \<Longrightarrow> snd (add_attachment now i k v d) = d"
  unfolding add_attachment_def by (rule connect_atomic)

lemma grade_submission_atomic: "isl (fst (grade_submission i g f d)) \<Longrightarrow> snd (grade_submission i g f d) = d"
  unfolding grade_submission_def by (rule connect_atomic)

lemma crud_delete_submission_atomic: "isl (fst (crud_delete_submission i d)) \<Longrightarrow> snd (crud_delete_submission i d) = d"
  unfolding crud_delete_submission_def by (rule connect_atomic)

lemma crud_create_announcement_atomic: "isl (fst (crud_create_announcement now c a t b d)) \<Longrightarrow> snd (crud_create_announcement now c a t b d) = d"
  unfolding crud_create_announcement_def by (rule connect_atomic)

lemma crud_delete_announcement_atomic: "isl (fst (crud_delete_announcement i d)) \<Longrightarrow> snd (crud_delete_announcement i d) = d"
  unfolding crud_delete_announcement_def by (rule connect_atomic)

lemmas functions_atomic =
  crud_create_user_atomic crud_update_user_atomic crud_delete_user_atomic
  crud_create_class_atomic crud_update_class_atomic crud_delete_class_atomic
  enroll_student_atomic unenroll_student_atomic assign_teacher_to_class_atomic
  remove_teacher_from_class_atomic crud_create_assignment_atomic crud_update_assignment_atomic
  crud_delete_assignment_atomic crud_create_submission_atomic add_attachment_atomic
  grade_submission_atomic crud_delete_submission_atomic crud_create_announcement_atomic
  crud_delete_announcement_atomic

text \<open>
  C8. Whenever a mutating route of main.py or a mutating function of managementCrud.py
  fails (the handler raises an \<open>HTTPException\<close>, or an exception of the storage layer
  escapes), the store after the call is the store before the call.
\<close>

theorem rejected_mutation_leaves_store:
  "(isl (fst (run now op d)) \<longrightarrow> snd (run now op d) = d) \<and>
   (isl (fst (crud_run now cop d)) \<longrightarrow> snd (crud_run now cop d) = d)"
proof
  show "isl (fst (run now op d)) \<longrightarrow> snd (run now op d) = d"
    by (cases op) (simp_all add: respond_fst_snd handlers_atomic)
  show "isl (fst (crud_run now cop d)) \<longrightarrow> snd (crud_run now cop d) = d"
    by (cases cop) (simp_all add: returned_fst_snd functions_atomic)
qed

theorem rejected_mutation_leaves_store_witness:
  "isl (fst (run ''t1'' (Create_submission outsider_payload) example_db)) \<and>
   snd (run ''t1'' (Create_submission outsider_payload) example_db) = example_db \<and>
   isl (fst (crud_run ''t1'' (Crud_delete_user 1) seeded_db)) \<and>
   snd (crud_run ''t1'' (Crud_delete_user 1) seeded_db) = seeded_db"
proof -
  have api: "isl (fst (run ''t1'' (Create_submission outsider_payload) example_db))"
    by (simp add: respond_def submission_defs example_db_def outsider_payload_def)
  have present: "1 \<in> set (map u_id (Users seeded_db))" by (simp add: seeded_db_def)
  have crud: "isl (fst (crud_run ''t1'' (Crud_delete_user 1) seeded_db))"
    by (simp add: returned_def crud_delete_user_def connect_def delete_Users_existing[OF present])
       (simp add: seeded_db_def)
  from rejected_mutation_leaves_store[where now = "''t1''" and op = "Create_submission outsider_payload"
         and d = example_db]
       rejected_mutation_leaves_store[where now = "''t1''" and cop = "Crud_delete_user 1"
         and d = seeded_db] api crud
  show ?thesis by blast
qed

subsection \<open>The role of a class's teacher\<close>

lemma teacher_inv_iff:
  "teacher_inv d \<longleftrightarrow> (\<forall>r \<in> set (TeacherClass d). user_role d (tc_teacher_id r) = Some ''teacher'')"
  by (simp add: teacher_inv_def list_all_iff)

lemma teacher_inv_cong:
  "Users d' = Users d \<Longrightarrow> TeacherClass d' = TeacherClass d \<Longrightarrow> teacher_inv d' = teacher_inv d"
  by (simp add: teacher_inv_def user_role_def)

lemma get_conn_keeps:
  assumes "P d" and "\<And>v d'. body d = Inr (v, d') \<Longrightarrow> P d'"
  shows "P (snd (get_conn body d))"
  using assms by (cases "body d") (auto simp: get_conn_def)

lemma connect_keeps:
  assumes "P d" and "\<And>v d'. body d = Inr (v, d') \<Longrightarrow> P d'"
  shows "P (snd (connect body d))"
  using assms by (cases "body d") (auto simp: connect_def)

lemma find_append_found:
  "find P xs = Some x \<Longrightarrow> find P (xs @ ys) = Some x"
  by (induction xs) (auto split: if_splits)

lemma find_map_same_key:
  assumes "\<And>x. key (f x) = key x"
  shows "find (\<lambda>r. key r = k) (map f xs) = map_option f (find (\<lambda>r. key r = k) xs)"
  using assms by (induction xs) auto

lemma find_filter_other:
  "k \<noteq> j \<Longrightarrow> find (\<lambda>r. key r = k) (filter (\<lambda>r. key r \<noteq> j) xs) = find (\<lambda>r. key r = k) xs"
  by (induction xs) auto

lemma where_frames [simp]:
  "Users (delete_SubmissionAttachments_where Q d) = Users d"
  "TeacherClass (delete_SubmissionAttachments_where Q d) = TeacherClass d"
  "Users (delete_Submissions_where R d) = Users d"
  "TeacherClass (delete_Submissions_where R d) = TeacherClass d"
  "Users (delete_Assignments_where S d) = Users d"
  "TeacherClass (delete_Assignments_where S d) = TeacherClass d"
  by (simp_all add: delete_SubmissionAttachments_where_def delete_Submissions_where_def
      delete_Assignments_where_def Let_def)

lemma insert_Classes_keeps:
  "insert_Classes now c t x d = Inr (v, d') \<Longrightarrow> teacher_inv d' = teacher_inv d"
  by (rule teacher_inv_cong) (auto simp: insert_Classes_def Let_def split: if_splits)

lemma insert_Enrollments_keeps:
  "insert_Enrollments now u c d = Inr d' \<Longrightarrow> teacher_inv d' = teacher_inv d"
  by (rule teacher_inv_cong) (auto simp: insert_Enrollments_def Let_def split: if_splits)

lemma insert_Assignments_keeps:
  "insert_Assignments now c t x due d = Inr (v, d') \<Longrightarrow> teacher_inv d' = teacher_inv d"
  by (rule teacher_inv_cong) (auto simp: insert_Assignments_def Let_def split: if_splits)

lemma insert_Submissions_keeps:
  "insert_Submissions now a s n g f d = Inr (v, d') \<Longrightarrow> teacher_inv d' = teacher_inv d"
  by (rule teacher_inv_cong) (auto simp: insert_Submissions_def Let_def split: if_splits)

lemma insert_SubmissionAttachments_keeps:
  "insert_SubmissionAttachments now i k x d = Inr (v, d') \<Longrightarrow> teacher_inv d' = teacher_inv d"
  by (rule teacher_inv_cong) (auto simp: insert_SubmissionAttachments_def Let_def split: if_splits)

lemma insert_Announcements_keeps:
  "insert_Announcements now c a t b d = Inr (v, d') \<Longrightarrow> teacher_inv d' = teacher_inv d"
  by (rule teacher_inv_cong) (auto simp: insert_Announcements_def Let_def split: if_splits)

lemma delete_Assignments_keeps:
  "delete_Assignments i d = Inr (v, d') \<Longrightarrow> teacher_inv d' = teacher_inv d"
  by (rule teacher_inv_cong) (auto simp: delete_Assignments_def Let_def split: if_splits)

lemma delete_Submissions_keeps:
  "delete_Submissions i d = Inr (v, d') \<Longrightarrow> teacher_inv d' = teacher_inv d"
  by (rule teacher_inv_cong) (auto simp: delete_Submissions_def Let_def split: if_splits)

lemma delete_SubmissionAttachments_keeps:
  "delete_SubmissionAttachments i d = Inr (v, d') \<Longrightarrow> teacher_inv d' = teacher_inv d"
  by (rule teacher_inv_cong) (auto simp: delete_SubmissionAttachments_def Let_def split: if_splits)

lemma delete_Enrollments_keeps:
  "delete_Enrollments u c d = Inr (v, d') \<Longrightarrow> teacher_inv d' = teacher_inv d"
  by (rule teacher_inv_cong) (auto simp: delete_Enrollments_def Let_def split: if_splits)

lemma delete_Announcements_keeps:
  "delete_Announcements i d = Inr (v, d') \<Longrightarrow> teacher_inv d' = teacher_inv d"
  by (rule teacher_inv_cong) (auto simp: delete_Announcements_def Let_def split: if_splits)

lemma update_Classes_keeps:
  "update_Classes i c t x d = Inr (v, d') \<Longrightarrow> teacher_inv d' = teacher_inv d"
  by (rule teacher_inv_cong) (auto simp: update_Classes_def Let_def split: if_splits)

lemma update_Assignments_keeps:
  "update_Assignments i t x due d = Inr (v, d') \<Longrightarrow> teacher_inv d' = teacher_inv d"
  by (rule teacher_inv_cong) (auto simp: update_Assignments_def Let_def split: if_splits)

lemma update_Submissions_keeps:
  "update_Submissions i g f d = Inr (v, d') \<Longrightarrow> teacher_inv d' = teacher_inv d"
  by (rule teacher_inv_cong) (auto simp: update_Submissions_def Let_def split: if_splits)

lemma insert_Users_keeps:
  assumes "insert_Users now e f r d = Inr (v, d')" and "teacher_inv d"
  shows "teacher_inv d'"
proof -
  from assms(1) obtain u where d': "d' = d\<lparr>Users := Users d @ [u]\<rparr>"
    by (auto simp: insert_Users_def Let_def split: if_splits)
  show ?thesis using assms(2) unfolding d' teacher_inv_iff
    by (auto simp: user_role_def dest: find_append_found)
qed

lemma update_Users_keeps:
  assumes "update_Users i e f r d = Inr (v, d')" and "teacher_inv d"
    and "case r of None \<Rightarrow> True | Some x \<Rightarrow> x = ''teacher'' \<or> i \<notin> set (map tc_teacher_id (TeacherClass d))"
  shows "teacher_inv d'"
proof (cases "filter (\<lambda>u. u_id u = i) (Users d) = []")
  case True
  then show ?thesis using assms by (simp add: update_Users_def)
next
  case False
  let ?upd = "\<lambda>u. if u_id u = i
                    then u\<lparr>u_email := assign e (u_email u), u_full_name := assign f (u_full_name u),
                           u_role := assign r (u_role u)\<rparr>
                    else u"
  from assms(1) False have d': "d' = d\<lparr>Users := map ?upd (Users d)\<rparr>"
    by (auto simp: update_Users_def Let_def split: if_splits)
  have key: "\<And>u. u_id (?upd u) = u_id u" by simp
  have role: "user_role d' j = map_option (\<lambda>u. u_role (?upd u)) (find (\<lambda>u. u_id u = j) (Users d))" for j
    unfolding d' user_role_def using find_map_same_key[of u_id ?upd j "Users d", OF key]
    by (simp add: option.map_comp comp_def)
  show ?thesis unfolding teacher_inv_iff
  proof
    fix row assume row: "row \<in> set (TeacherClass d')"
    then have in_d: "row \<in> set (TeacherClass d)" by (simp add: d')
    with assms(2) have old: "user_role d (tc_teacher_id row) = Some ''teacher''"
      by (simp add: teacher_inv_iff)
    then obtain u where u: "find (\<lambda>u. u_id u = tc_teacher_id row) (Users d) = Some u"
      and ur: "u_role u = ''teacher''" by (auto simp: user_role_def)
    from u have uid: "u_id u = tc_teacher_id row" by (auto simp: find_Some_iff)
    have "u_role (?upd u) = ''teacher''"
    proof (cases "u_id u = i")
      case True
      then have "i \<in> set (map tc_teacher_id (TeacherClass d))" using uid in_d by force
      with assms(3) have "r = None \<or> r = Some ''teacher''" by (cases r) auto
      then show ?thesis using True ur by (auto simp: assign_def)
    next
      case False
      then show ?thesis using ur by simp
    qed
    then show "user_role d' (tc_teacher_id row) = Some ''teacher''" by (simp add: role u)
  qed
qed

lemma delete_Users_keeps:
  assumes "delete_Users i d = Inr (v, d')" and "teacher_inv d"
  shows "teacher_inv d'"
proof (cases "i \<in> set (map u_id (Users d))")
  case False
  then show ?thesis using assms by (simp add: delete_Users_missing)
next
  case True
  from assms(1) have U: "Users d' = filter (\<lambda>u. u_id u \<noteq> i) (Users d)"
    and T: "TeacherClass d' = filter (\<lambda>r. tc_teacher_id r \<noteq> i) (TeacherClass d)"
    by (auto simp: delete_Users_existing[OF True] split: if_splits)
  show ?thesis using assms(2) unfolding teacher_inv_iff
    by (auto simp: U T user_role_def find_filter_other)
qed

lemma delete_Classes_keeps:
  assumes "delete_Classes i d = Inr (v, d')" and "teacher_inv d"
  shows "teacher_inv d'"
proof -
  from assms(1) have U: "Users d' = Users d"
    and T: "set (TeacherClass d') \<subseteq> set (TeacherClass d)"
    by (auto simp: delete_Classes_def Let_def)
  show ?thesis using assms(2) T unfolding teacher_inv_iff by (auto simp: U user_role_def)
qed

lemma delete_TeacherClass_keeps:
  assumes "delete_TeacherClass t c d = Inr (v, d')" and "teacher_inv d"
  shows "teacher_inv d'"
proof -
  from assms(1) have U: "Users d' = Users d"
    and T: "set (TeacherClass d') \<subseteq> set (TeacherClass d)"
    by (auto simp: delete_TeacherClass_def)
  show ?thesis using assms(2) T unfolding teacher_inv_iff by (auto simp: U user_role_def)
qed

lemma insert_TeacherClass_keeps:
  assumes "insert_TeacherClass t c d = Inr d'" and "teacher_inv d"
  shows "teacher_inv d'"
proof -
  from assms(1) have d': "d' = d\<lparr>TeacherClass := TeacherClass d @ [\<lparr>tc_teacher_id = t, tc_class_id = c\<rparr>]\<rparr>"
    and trg: "\<not> trg_teacherclass_teacher_role d t" and ex: "t \<in> set (map u_id (Users d))"
    by (auto simp: insert_TeacherClass_def split: if_splits)
  from ex obtain u where "find (\<lambda>u. u_id u = t) (Users d) = Some u"
    by (cases "find (\<lambda>u. u_id u = t) (Users d)") (auto simp: find_None_iff)
  with trg have "user_role d t = Some ''teacher''"
    by (simp add: trg_teacherclass_teacher_role_def sql_neq_def user_role_def)
  then show ?thesis using assms(2) unfolding d' teacher_inv_iff by (auto simp: user_role_def)
qed

lemma create_user_keeps: "teacher_inv d \<Longrightarrow> teacher_inv (snd (create_user now u d))"
  unfolding create_user_def
  by (auto intro!: get_conn_keeps[where P = teacher_inv] dest: insert_Users_keeps
      simp: Let_def split: sum.splits prod.splits if_splits option.splits)

lemma delete_user_keeps: "teacher_inv d \<Longrightarrow> teacher_inv (snd (delete_user i d))"
  unfolding delete_user_def
  by (auto intro!: get_conn_keeps[where P = teacher_inv] dest: delete_Users_keeps
      simp: Let_def split: sum.splits prod.splits if_splits option.splits)

lemma create_class_keeps: "teacher_inv d \<Longrightarrow> teacher_inv (snd (create_class now p d))"
  unfolding create_class_def
  by (auto intro!: get_conn_keeps[where P = teacher_inv] dest: insert_Classes_keeps
      simp: Let_def split: sum.splits prod.splits if_splits option.splits)

lemma update_class_keeps: "teacher_inv d \<Longrightarrow> teacher_inv (snd (update_class i p d))"
  unfolding update_class_def
  by (auto intro!: get_conn_keeps[where P = teacher_inv] dest: update_Classes_keeps
      simp: Let_def split: sum.splits prod.splits if_splits option.splits)

lemma delete_class_keeps: "teacher_inv d \<Longrightarrow> teacher_inv (snd (delete_class i d))"
  unfolding delete_class_def
  by (auto intro!: get_conn_keeps[where P = teacher_inv] dest: delete_Classes_keeps
      simp: Let_def split: sum.splits prod.splits if_splits option.splits)

lemma enroll_keeps: "teacher_inv d \<Longrightarrow> teacher_inv (snd (enroll now p d))"
  unfolding enroll_def
  by (auto intro!: get_conn_keeps[where P = teacher_inv] dest: insert_Enrollments_keeps
      simp: Let_def split: sum.splits prod.splits if_splits option.splits)

lemma unenroll_keeps: "teacher_inv d \<Longrightarrow> teacher_inv (snd (unenroll u c d))"
  unfolding unenroll_def
  by (auto intro!: get_conn_keeps[where P = teacher_inv] dest: delete_Enrollments_keeps
      simp: Let_def split: sum.splits prod.splits if_splits option.splits)

lemma teacherassigne_keeps: "teacher_inv d \<Longrightarrow> teacher_inv (snd (teacherassigne p d))"
  unfolding teacherassigne_def
  by (auto intro!: get_conn_keeps[where P = teacher_inv] dest: insert_TeacherClass_keeps
      simp: Let_def split: sum.splits prod.splits if_splits option.splits)

lemma unenroll_teacherassigned_keeps: "teacher_inv d \<Longrightarrow> teacher_inv (snd (unenroll_teacherassigned t c d))"
  unfolding unenroll_teacherassigned_def
  by (auto intro!: get_conn_keeps[where P = teacher_inv] dest: delete_TeacherClass_keeps
      simp: Let_def split: sum.splits prod.splits if_splits option.splits)

lemma create_assignment_keeps: "teacher_inv d \<Longrightarrow> teacher_inv (snd (create_assignment now p d))"
  unfolding create_assignment_def
  by (auto intro!: get_conn_keeps[where P = teacher_inv] dest: insert_Assignments_keeps
      simp: Let_def split: sum.splits prod.splits if_splits option.splits)

lemma update_assignment_keeps: "teacher_inv d \<Longrightarrow> teacher_inv (snd (update_assignment i p d))"
  unfolding update_assignment_def
  by (auto intro!: get_conn_keeps[where P = teacher_inv] dest: update_Assignments_keeps
      simp: Let_def split: sum.splits prod.splits if_splits option.splits)

lemma delete_assignment_keeps: "teacher_inv d \<Longrightarrow> teacher_inv (snd (delete_assignment i d))"
  unfolding delete_assignment_def
  by (auto intro!: get_conn_keeps[where P = teacher_inv] dest: delete_Assignments_keeps
      simp: Let_def split: sum.splits prod.splits if_splits option.splits)

lemma create_submission_keeps: "teacher_inv d \<Longrightarrow> teacher_inv (snd (create_submission now p d))"
  unfolding create_submission_def
  by (auto intro!: get_conn_keeps[where P = teacher_inv] dest: insert_Submissions_keeps
      simp: Let_def split: sum.splits prod.splits if_splits option.splits)

lemma update_submission_keeps: "teacher_inv d \<Longrightarrow> teacher_inv (snd (update_submission i p d))"
  unfolding update_submission_def
  by (auto intro!: get_conn_keeps[where P = teacher_inv] dest: update_Submissions_keeps
      simp: Let_def split: sum.splits prod.splits if_splits option.splits)

lemma delete_submission_keeps: "teacher_inv d \<Longrightarrow> teacher_inv (snd (delete_submission i d))"
  unfolding delete_submission_def
  by (auto intro!: get_conn_keeps[where P = teacher_inv] dest: delete_Submissions_keeps
      simp: Let_def split: sum.splits prod.splits if_splits option.splits)

lemma create_attachment_keeps: "teacher_inv d \<Longrightarrow> teacher_inv (snd (create_attachment now p d))"
  unfolding create_attachment_def
  by (auto intro!: get_conn_keeps[where P = teacher_inv] dest: insert_SubmissionAttachments_keeps
      simp: Let_def split: sum.splits prod.splits if_splits option.splits)

lemma delete_attachment_keeps: "teacher_inv d \<Longrightarrow> teacher_inv (snd (delete_attachment i d))"
  unfolding delete_attachment_def
  by (auto intro!: get_conn_keeps[where P = teacher_inv] dest: delete_SubmissionAttachments_keeps
      simp: Let_def split: sum.splits prod.splits if_splits option.splits)

lemma create_announcement_keeps: "teacher_inv d \<Longrightarrow> teacher_inv (snd (create_announcement now p d))"
  unfolding create_announcement_def
  by (auto intro!: get_conn_keeps[where P = teacher_inv] dest: insert_Announcements_keeps
      simp: Let_def split: sum.splits prod.splits if_splits option.splits)

lemma delete_announcement_keeps: "teacher_inv d \<Longrightarrow> teacher_inv (snd (delete_announcement i d))"
  unfolding delete_announcement_def
  by (auto intro!: get_conn_keeps[where P = teacher_inv] dest: delete_Announcements_keeps
      simp: Let_def split: sum.splits prod.splits if_splits option.splits)

lemma update_user_keeps:
  assumes "teacher_inv d"
    and "case uu_role p of None \<Rightarrow> True
         | Some x \<Rightarrow> x = ''teacher'' \<or> i \<notin> set (map tc_teacher_id (TeacherClass d))"
  shows "teacher_inv (snd (update_user i p d))"
proof (cases "uu_email p = None \<and> uu_full_name p = None \<and> uu_role p = None")
  case True
  then show ?thesis using assms(1) by (simp add: update_user_def)
next
  case False
  let ?body = "\<lambda>con. case update_Users i (uu_email p) (uu_full_name p) (uu_role p) con of
          Inl e \<Rightarrow> Inl (except_IntegrityError ''Update conflict: '' e)
        | Inr (rowcount, con') \<Rightarrow>
            (case find (\<lambda>u. u_id u = i) (Users con') of
               None \<Rightarrow> Inl (HTTPException 404 ''User not found'')
             | Some row \<Rightarrow> Inr (row, con'))"
  have "teacher_inv (snd (get_conn ?body d))"
  proof (rule get_conn_keeps[where P = teacher_inv, OF assms(1)])
    fix v d' assume "?body d = Inr (v, d')"
    then obtain rc where "update_Users i (uu_email p) (uu_full_name p) (uu_role p) d = Inr (rc, d')"
      by (auto split: sum.splits prod.splits option.splits)
    then show "teacher_inv d'" using assms by (rule update_Users_keeps)
  qed
  then show ?thesis unfolding update_user_def if_not_P[OF False] .
qed

lemmas handlers_keep =
  create_user_keeps delete_user_keeps create_class_keeps update_class_keeps
  delete_class_keeps enroll_keeps unenroll_keeps teacherassigne_keeps
  unenroll_teacherassigned_keeps create_assignment_keeps update_assignment_keeps delete_assignment_keeps
  create_submission_keeps update_submission_keeps delete_submission_keeps create_attachment_keeps
  delete_attachment_keeps create_announcement_keeps delete_announcement_keeps update_user_keeps

lemma crud_create_user_keeps: "teacher_inv d \<Longrightarrow> teacher_inv (snd (crud_create_user now e f r d))"
  unfolding crud_create_user_def
  by (auto intro!: connect_keeps[where P = teacher_inv] dest: insert_Users_keeps
      simp: returning_None_def split: sum.splits prod.splits if_splits option.splits)

lemma crud_delete_user_keeps: "teacher_inv d \<Longrightarrow> teacher_inv (snd (crud_delete_user i d))"
  unfolding crud_delete_user_def
  by (auto intro!: connect_keeps[where P = teacher_inv] dest: delete_Users_keeps
      simp: returning_None_def split: sum.splits prod.splits if_splits option.splits)

lemma crud_create_class_keeps: "teacher_inv d \<Longrightarrow> teacher_inv (snd (crud_create_class now c t x d))"
  unfolding crud_create_class_def
  by (auto intro!: connect_keeps[where P = teacher_inv] dest: insert_Classes_keeps
      simp: returning_None_def split: sum.splits prod.splits if_splits option.splits)

lemma crud_update_class_keeps: "teacher_inv d \<Longrightarrow> teacher_inv (snd (crud_update_class i c t x d))"
  unfolding crud_update_class_def
  by (auto intro!: connect_keeps[where P = teacher_inv] dest: update_Classes_keeps
      simp: returning_None_def split: sum.splits prod.splits if_splits option.splits)

lemma crud_delete_class_keeps: "teacher_inv d \<Longrightarrow> teacher_inv (snd (crud_delete_class i d))"
  unfolding crud_delete_class_def
  by (auto intro!: connect_keeps[where P = teacher_inv] dest: delete_Classes_keeps
      simp: returning_None_def split: sum.splits prod.splits if_splits option.splits)

lemma enroll_student_keeps: "teacher_inv d \<Longrightarrow> teacher_inv (snd (enroll_student now u c d))"
  unfolding enroll_student_def
  by (auto intro!: connect_keeps[where P = teacher_inv] dest: insert_Enrollments_keeps
      simp: returning_None_def split: sum.splits prod.splits if_splits option.splits)

lemma unenroll_student_keeps: "teacher_inv d \<Longrightarrow> teacher_inv (snd (unenroll_student u c d))"
  unfolding unenroll_student_def
  by (auto intro!: connect_keeps[where P = teacher_inv] dest: delete_Enrollments_keeps
      simp: returning_None_def split: sum.splits prod.splits if_splits option.splits)

lemma assign_teacher_to_class_keeps: "teacher_inv d \<Longrightarrow> teacher_inv (snd (assign_teacher_to_class t c d))"
  unfolding assign_teacher_to_class_def
  by (auto intro!: connect_keeps[where P = teacher_inv] dest: delete_Enrollments_keeps
      simp: returning_None_def split: sum.splits prod.splits if_splits option.splits)

lemma remove_teacher_from_class_keeps: "teacher_inv d \<Longrightarrow> teacher_inv (snd (remove_teacher_from_class t c d))"
  unfolding remove_teacher_from_class_def
  by (auto intro!: connect_keeps[where P = teacher_inv] dest: delete_Enrollments_keeps
      simp: returning_None_def split: sum.splits prod.splits if_splits option.splits)

lemma crud_create_assignment_keeps: "teacher_inv d \<Longrightarrow> teacher_inv (snd (crud_create_assignment now c t x due d))"
  unfolding crud_create_assignment_def
  by (auto intro!: connect_keeps[where P = teacher_inv] dest: insert_Assignments_keeps
      simp: returning_None_def split: sum.splits prod.splits if_splits option.splits)

lemma crud_update_assignment_keeps: "teacher_inv d \<Longrightarrow> teacher_inv (snd (crud_update_assignment i t x due d))"
  unfolding crud_update_assignment_def
  by (auto intro!: connect_keeps[where P = teacher_inv] dest: update_Assignments_keeps
      simp: returning_None_def split: sum.splits prod.splits if_splits option.splits)

lemma crud_delete_assignment_keeps: "teacher_inv d \<Longrightarrow> teacher_inv (snd (crud_delete_assignment i d))"
  unfolding crud_delete_assignment_def
  by (auto intro!: connect_keeps[where P = teacher_inv] dest: delete_Assignments_keeps
      simp: returning_None_def split: sum.splits prod.splits if_splits option.splits)

lemma crud_create_submission_keeps: "teacher_inv d \<Longrightarrow> teacher_inv (snd (crud_create_submission now a s n g f d))"
  unfolding crud_create_submission_def
  by (auto intro!: connect_keeps[where P = teacher_inv] dest: insert_Submissions_keeps
      simp: returning_None_def split: sum.splits prod.splits if_splits option.splits)

lemma add_attachment_keeps: "teacher_inv d \<Longrightarrow> teacher_inv (snd (add_attachment now i k v d))"
  unfolding add_attachment_def
  by (auto intro!: connect_keeps[where P = teacher_inv] dest: insert_SubmissionAttachments_keeps
      simp: returning_None_def split: sum.splits prod.splits if_splits option.splits)

lemma grade_submission_keeps: "teacher_inv d \<Longrightarrow> teacher_inv (snd (grade_submission i g f d))"
  unfolding grade_submission_def
  by (auto intro!: connect_keeps[where P = teacher_inv] dest: update_Submissions_keeps
      simp: returning_None_def split: sum.splits prod.splits if_splits option.splits)

lemma crud_delete_submission_keeps: "teacher_inv d \<Longrightarrow> teacher_inv (snd (crud_delete_submission i d))"
  unfolding crud_delete_submission_def
  by (auto intro!: connect_keeps[where P = teacher_inv] dest: delete_Submissions_keeps
      simp: returning_None_def split: sum.splits prod.splits if_splits option.splits)

lemma crud_create_announcement_keeps: "teacher_inv d \<Longrightarrow> teacher_inv (snd (crud_create_announcement now c a t b d))"
  unfolding crud_create_announcement_def
  by (auto intro!: connect_keeps[where P = teacher_inv] dest: insert_Announcements_keeps
      simp: returning_None_def split: sum.splits prod.splits if_splits option.splits)

lemma crud_delete_announcement_keeps: "teacher_inv d \<Longrightarrow> teacher_inv (snd (crud_delete_announcement i d))"
  unfolding crud_delete_announcement_def
  by (auto intro!: connect_keeps[where P = teacher_inv] dest: delete_Announcements_keeps
      simp: returning_None_def split: sum.splits prod.splits if_splits option.splits)

lemma crud_update_user_keeps:
  assumes "teacher_inv d"
    and "case r of None \<Rightarrow> True
         | Some x \<Rightarrow> x = ''teacher'' \<or> i \<notin> set (map tc_teacher_id (TeacherClass d))"
  shows "teacher_inv (snd (crud_update_user i e f r d))"
proof (cases "e = None \<and> f = None \<and> r = None")
  case True
  then show ?thesis using assms(1) by (simp add: crud_update_user_def)
next
  case False
  have "teacher_inv (snd (connect (update_Users i e f r) d))"
  proof (rule connect_keeps[where P = teacher_inv, OF assms(1)])
    fix v d' assume "update_Users i e f r d = Inr (v, d')"
    then show "teacher_inv d'" using assms by (rule update_Users_keeps)
  qed
  then show ?thesis unfolding crud_update_user_def if_not_P[OF False] .
qed

lemmas functions_keep =
  crud_create_user_keeps crud_delete_user_keeps crud_create_class_keeps
  crud_update_class_keeps crud_delete_class_keeps enroll_student_keeps
  unenroll_student_keeps assign_teacher_to_class_keeps remove_teacher_from_class_keeps
  crud_create_assignment_keeps crud_update_assignment_keeps crud_delete_assignment_keeps
  crud_create_submission_keeps add_attachment_keeps grade_submission_keeps
  crud_delete_submission_keeps crud_create_announcement_keeps crud_delete_announcement_keeps
  crud_update_user_keeps

lemma run_keeps_teacher_inv:
  "teacher_inv d \<Longrightarrow> \<not> changes_teacher_role op d \<Longrightarrow> teacher_inv (snd (run now op d))"
  by (cases op) (auto simp: respond_fst_snd handlers_keep intro!: update_user_keeps split: option.splits)

lemma crud_run_keeps_teacher_inv:
  "teacher_inv d \<Longrightarrow> \<not> crud_changes_teacher_role cop d \<Longrightarrow> teacher_inv (snd (crud_run now cop d))"
  by (cases cop) (auto simp: returned_fst_snd functions_keep intro!: crud_update_user_keeps split: option.splits)

lemma update_Users_demotes:
  assumes "update_Users i e f (Some r) d = Inr (v, d')" and "r \<noteq> ''teacher''"
    and "i \<in> set (map tc_teacher_id (TeacherClass d))" and "i \<in> set (map u_id (Users d))"
  shows "\<not> teacher_inv d'"
proof -
  let ?upd = "\<lambda>u. if u_id u = i
                    then u\<lparr>u_email := assign e (u_email u), u_full_name := assign f (u_full_name u),
                           u_role := assign (Some r) (u_role u)\<rparr>
                    else u"
  have hit: "filter (\<lambda>u. u_id u = i) (Users d) \<noteq> []" using assms(4) by (rule hit_nonempty)
  with assms(1) have d': "d' = d\<lparr>Users := map ?upd (Users d)\<rparr>"
    by (auto simp: update_Users_def Let_def split: if_splits)
  have key: "\<And>u. u_id (?upd u) = u_id u" by simp
  from assms(4) obtain u where u: "find (\<lambda>u. u_id u = i) (Users d) = Some u"
    by (cases "find (\<lambda>u. u_id u = i) (Users d)") (auto simp: find_None_iff)
  then have uid: "u_id u = i" by (auto simp: find_Some_iff)
  have "user_role d' i = map_option (\<lambda>u. u_role (?upd u)) (find (\<lambda>u. u_id u = i) (Users d))"
    unfolding d' user_role_def using find_map_same_key[of u_id ?upd i "Users d", OF key]
    by (simp add: option.map_comp comp_def)
  then have role: "user_role d' i = Some r" using u uid by (simp add: assign_def)
  from assms(3) obtain row where "row \<in> set (TeacherClass d')" "tc_teacher_id row = i"
    unfolding d' by auto
  with role assms(2) show ?thesis unfolding teacher_inv_iff by force
qed

lemma teacher_exists:
  "teacher_inv d \<Longrightarrow> i \<in> set (map tc_teacher_id (TeacherClass d)) \<Longrightarrow> i \<in> set (map u_id (Users d))"
  unfolding teacher_inv_iff using user_role_Some_exists[of d i "''teacher''"] by auto

lemma update_user_demotes:
  assumes "teacher_inv d" and "uu_role p = Some r" and "r \<noteq> ''teacher''"
    and "i \<in> set (map tc_teacher_id (TeacherClass d))" and "\<not> isl (fst (update_user i p d))"
  shows "\<not> teacher_inv (snd (update_user i p d))"
proof -
  let ?stmt = "update_Users i (uu_email p) (uu_full_name p) (Some r) d"
  have ex: "i \<in> set (map u_id (Users d))" using assms(1,4) by (rule teacher_exists)
  show ?thesis
  proof (cases ?stmt)
    case (Inl e)
    then have "isl (fst (update_user i p d))" using assms(2)
      by (simp add: update_user_def get_conn_def)
    with assms(5) show ?thesis by simp
  next
    case (Inr res)
    obtain v d' where res: "res = (v, d')" by (cases res)
    from Inr res have stmt: "?stmt = Inr (v, d')" by simp
    have broken: "\<not> teacher_inv d'" using stmt assms(3,4) ex by (rule update_Users_demotes)
    have "snd (update_user i p d) = d' \<or> isl (fst (update_user i p d))"
      using stmt assms(2) by (simp add: update_user_def get_conn_def split: option.splits)
    with assms(5) broken show ?thesis by auto
  qed
qed

lemma crud_update_user_demotes:
  assumes "teacher_inv d" and "r \<noteq> ''teacher''"
    and "i \<in> set (map tc_teacher_id (TeacherClass d))"
    and "\<not> isl (fst (crud_update_user i e f (Some r) d))"
  shows "\<not> teacher_inv (snd (crud_update_user i e f (Some r) d))"
proof -
  let ?stmt = "update_Users i e f (Some r) d"
  have ex: "i \<in> set (map u_id (Users d))" using assms(1,3) by (rule teacher_exists)
  show ?thesis
  proof (cases ?stmt)
    case (Inl err)
    then have "isl (fst (crud_update_user i e f (Some r) d))"
      by (simp add: crud_update_user_def connect_def)
    with assms(4) show ?thesis by simp
  next
    case (Inr res)
    obtain v d' where res: "res = (v, d')" by (cases res)
    from Inr res have stmt: "?stmt = Inr (v, d')" by simp
    have broken: "\<not> teacher_inv d'" using stmt assms(2,3) ex by (rule update_Users_demotes)
    have "snd (crud_update_user i e f (Some r) d) = d'"
      using stmt by (simp add: crud_update_user_def connect_def)
    with broken show ?thesis by simp
  qed
qed

lemma run_rejected: "isl (fst (run now op d)) \<Longrightarrow> snd (run now op d) = d"
  by (cases op) (simp_all add: respond_fst_snd handlers_atomic)

lemma crud_run_rejected: "isl (fst (crud_run now cop d)) \<Longrightarrow> snd (crud_run now cop d) = d"
  by (cases cop) (simp_all add: returned_fst_snd functions_atomic)

text \<open>
  C3, as the code has it. The role is checked only when a TeacherClass row is inserted.
  From a store in which the teacher of each TeacherClass row has role teacher, a mutating
  route of main.py or function of managementCrud.py leads to a store in which the rule
  fails in exactly one case: the operation is an update of a user that sets the role of a
  user referenced by a TeacherClass row to a value other than teacher, and the update is
  accepted. Every other operation preserves the rule, and so does such an update when it
  is rejected (the store is then unchanged).
\<close>

theorem teacher_role_preserved:
  "(teacher_inv d \<longrightarrow>
      (teacher_inv (snd (run now op d)) \<longleftrightarrow>
         \<not> (changes_teacher_role op d \<and> \<not> isl (fst (run now op d))))) \<and>
   (teacher_inv d \<longrightarrow>
      (teacher_inv (snd (crud_run now cop d)) \<longleftrightarrow>
         \<not> (crud_changes_teacher_role cop d \<and> \<not> isl (fst (crud_run now cop d)))))"
proof (intro conjI impI)
  assume inv: "teacher_inv d"
  show "teacher_inv (snd (run now op d)) \<longleftrightarrow>
          \<not> (changes_teacher_role op d \<and> \<not> isl (fst (run now op d)))"
  proof (cases "changes_teacher_role op d")
    case False
    then show ?thesis using run_keeps_teacher_inv[OF inv False] by simp
  next
    case True
    then obtain i p where op: "op = Update_user i p" by (cases op) simp_all
    from True op obtain r where r: "uu_role p = Some r" "r \<noteq> ''teacher''"
      "i \<in> set (map tc_teacher_id (TeacherClass d))"
      by (cases "uu_role p") auto
    show ?thesis
    proof (cases "isl (fst (run now op d))")
      case True
      then have "snd (run now op d) = d" by (rule run_rejected)
      then show ?thesis using inv True by simp
    next
      case False
      then have "\<not> isl (fst (update_user i p d))" by (simp add: op respond_fst_snd)
      then have "\<not> teacher_inv (snd (update_user i p d))"
        using update_user_demotes[OF inv r] by blast
      then show ?thesis using False \<open>changes_teacher_role op d\<close> by (simp add: op respond_fst_snd)
    qed
  qed
next
  assume inv: "teacher_inv d"
  show "teacher_inv (snd (crud_run now cop d)) \<longleftrightarrow>
          \<not> (crud_changes_teacher_role cop d \<and> \<not> isl (fst (crud_run now cop d)))"
  proof (cases "crud_changes_teacher_role cop d")
    case False
    then show ?thesis using crud_run_keeps_teacher_inv[OF inv False] by simp
  next
    case True
    then obtain i e f ro where cop: "cop = Crud_update_user i e f ro" by (cases cop) simp_all
    from True cop obtain r where r: "ro = Some r" "r \<noteq> ''teacher''"
      "i \<in> set (map tc_teacher_id (TeacherClass d))"
      by (cases ro) auto
    show ?thesis
    proof (cases "isl (fst (crud_run now cop d))")
      case True
      then have "snd (crud_run now cop d) = d" by (rule crud_run_rejected)
      then show ?thesis using inv True by simp
    next
      case False
      then have "\<not> isl (fst (crud_update_user i e f (Some r) d))"
        by (simp add: cop r(1) returned_fst_snd)
      then have "\<not> teacher_inv (snd (crud_update_user i e f (Some r) d))"
        using crud_update_user_demotes[OF inv r(2,3)] by blast
      then show ?thesis using False \<open>crud_changes_teacher_role cop d\<close>
        by (simp add: cop r(1) returned_fst_snd)
    qed
  qed
qed

lemma teacher_inv_example: "teacher_inv example_db"
  by (simp add: teacher_inv_def user_role_def example_db_def)

theorem teacher_role_preserved_witness:
  "teacher_inv (snd (run ''t1'' (Delete_user 1) example_db)) \<and>
   \<not> teacher_inv (snd (run ''t1'' (Update_user 1 demotion) example_db)) \<and>
   teacher_inv (snd (run ''t1'' (Update_user 1 clashing_demotion) example_db)) \<and>
   teacher_inv (snd (crud_run ''t1'' (Crud_update_user 3 None None (Some ''admin'')) example_db)) \<and>
   \<not> teacher_inv (snd (crud_run ''t1'' (Crud_update_user 1 None None (Some ''admin'')) example_db))"
proof -
  have keep: "\<not> changes_teacher_role (Delete_user 1) example_db" by simp
  have change: "changes_teacher_role (Update_user 1 demotion) example_db"
    "changes_teacher_role (Update_user 1 clashing_demotion) example_db"
    by (simp_all add: demotion_def clashing_demotion_def example_db_def)
  have accepted: "\<not> isl (fst (run ''t1'' (Update_user 1 demotion) example_db))"
    by (simp add: respond_def update_user_def get_conn_def update_Users_def demotion_def
        assign_def example_db_def)
  have rejected: "isl (fst (run ''t1'' (Update_user 1 clashing_demotion) example_db))"
    by (simp add: respond_def update_user_def get_conn_def update_Users_def clashing_demotion_def
        except_IntegrityError_def example_db_def)
  have ckeep: "\<not> crud_changes_teacher_role (Crud_update_user 3 None None (Some ''admin'')) example_db"
    by (simp add: example_db_def)
  have cchange: "crud_changes_teacher_role (Crud_update_user 1 None None (Some ''admin'')) example_db"
    by (simp add: example_db_def)
  have caccepted: "\<not> isl (fst (crud_run ''t1'' (Crud_update_user 1 None None (Some ''admin'')) example_db))"
    by (simp add: returned_def crud_update_user_def connect_def update_Users_def example_db_def)
  from teacher_role_preserved[where d = example_db and op = "Delete_user 1" and now = "''t1''"]
       teacher_role_preserved[where d = example_db and op = "Update_user 1 demotion" and now = "''t1''"]
       teacher_role_preserved[where d = example_db and op = "Update_user 1 clashing_demotion" and now = "''t1''"]
       teacher_role_preserved[where d = example_db
         and cop = "Crud_update_user 3 None None (Some ''admin'')" and now = "''t1''"]
       teacher_role_preserved[where d = example_db
         and cop = "Crud_update_user 1 None None (Some ''admin'')" and now = "''t1''"]
       teacher_inv_example keep change accepted rejected ckeep cchange caccepted
  show ?thesis by blast
qed

text \<open>
  C3 as stated fails: in the example store Alice (user 1) teaches class 1; the patch that
  sets the role of user 1 to student is accepted, the TeacherClass row (1, 1) stays, and
  the rule no longer holds.
\<close>

theorem update_user_role_counterexample:
  "teacher_inv example_db \<and>
   fst (update_user 1 demotion example_db) =
     Inr \<lparr>u_id = 1, u_email = ''teacher1@example.com'', u_full_name = ''Alice Teacher'',
          u_role = ''student'', u_created_at = ''t0''\<rparr> \<and>
   teacherclass_keys (snd (update_user 1 demotion example_db)) = [(1, 1)] \<and>
   \<not> teacher_inv (snd (update_user 1 demotion example_db))"
proof -
  have upd: "update_user 1 demotion example_db =
    (Inr \<lparr>u_id = 1, u_email = ''teacher1@example.com'', u_full_name = ''Alice Teacher'',
          u_role = ''student'', u_created_at = ''t0''\<rparr>,
     example_db\<lparr>Users := map (\<lambda>u. if u_id u = 1 then u\<lparr>u_role := ''student''\<rparr> else u) (Users example_db)\<rparr>)"
    by (simp add: update_user_def get_conn_def update_Users_def demotion_def assign_def example_db_def)
  show ?thesis unfolding upd
    by (simp add: teacher_inv_example) (simp add: teacher_inv_def user_role_def teacherclass_keys_def example_db_def)
qed

subsection \<open>The foreign key of Enrollments is kept\<close>

text \<open>
  Every mutating route and function keeps the foreign key of Enrollments.user_id, so the
  stores reached through the two layers from a store that satisfies it all satisfy it.
\<close>

lemma enrollments_fk_cong:
  "Users d' = Users d \<Longrightarrow> Enrollments d' = Enrollments d \<Longrightarrow> enrollments_fk d' = enrollments_fk d"
  by (simp add: enrollments_fk_def)

lemma where_frames_enrollments [simp]:
  "Enrollments (delete_SubmissionAttachments_where Q d) = Enrollments d"
  "Enrollments (delete_Submissions_where R d) = Enrollments d"
  "Enrollments (delete_Assignments_where S d) = Enrollments d"
  by (simp_all add: delete_SubmissionAttachments_where_def delete_Submissions_where_def
      delete_Assignments_where_def Let_def)

lemma insert_Classes_fk:
  "insert_Classes now c t x d = Inr (v, d') \<Longrightarrow> enrollments_fk d' = enrollments_fk d"
  by (rule enrollments_fk_cong) (auto simp: insert_Classes_def Let_def split: if_splits)

lemma insert_TeacherClass_fk:
  "insert_TeacherClass t c d = Inr d' \<Longrightarrow> enrollments_fk d' = enrollments_fk d"
  by (rule enrollments_fk_cong) (auto simp: insert_TeacherClass_def Let_def split: if_splits)

lemma insert_Assignments_fk:
  "insert_Assignments now c t x due d = Inr (v, d') \<Longrightarrow> enrollments_fk d' = enrollments_fk d"
  by (rule enrollments_fk_cong) (auto simp: insert_Assignments_def Let_def split: if_splits)

lemma insert_Submissions_fk:
  "insert_Submissions now a s n g f d = Inr (v, d') \<Longrightarrow> enrollments_fk d' = enrollments_fk d"
  by (rule enrollments_fk_cong) (auto simp: insert_Submissions_def Let_def split: if_splits)

lemma insert_SubmissionAttachments_fk:
  "insert_SubmissionAttachments now i k x d = Inr (v, d') \<Longrightarrow> enrollments_fk d' = enrollments_fk d"
  by (rule enrollments_fk_cong) (auto simp: insert_SubmissionAttachments_def Let_def split: if_splits)

lemma insert_Announcements_fk:
  "insert_Announcements now c a t b d = Inr (v, d') \<Longrightarrow> enrollments_fk d' = enrollments_fk d"
  by (rule enrollments_fk_cong) (auto simp: insert_Announcements_def Let_def split: if_splits)

lemma delete_Assignments_fk:
  "delete_Assignments i d = Inr (v, d') \<Longrightarrow> enrollments_fk d' = enrollments_fk d"
  by (rule enrollments_fk_cong) (auto simp: delete_Assignments_def Let_def split: if_splits)

lemma delete_Submissions_fk:
  "delete_Submissions i d = Inr (v, d') \<Longrightarrow> enrollments_fk d' = enrollments_fk d"
  by (rule enrollments_fk_cong) (auto simp: delete_Submissions_def Let_def split: if_splits)

lemma delete_SubmissionAttachments_fk:
  "delete_SubmissionAttachments i d = Inr (v, d') \<Longrightarrow> enrollments_fk d' = enrollments_fk d"
  by (rule enrollments_fk_cong) (auto simp: delete_SubmissionAttachments_def Let_def split: if_splits)

lemma delete_TeacherClass_fk:
  "delete_TeacherClass t c d = Inr (v, d') \<Longrightarrow> enrollments_fk d' = enrollments_fk d"
  by (rule enrollments_fk_cong) (auto simp: delete_TeacherClass_def Let_def split: if_splits)

lemma delete_Announcements_fk:
  "delete_Announcements i d = Inr (v, d') \<Longrightarrow> enrollments_fk d' = enrollments_fk d"
  by (rule enrollments_fk_cong) (auto simp: delete_Announcements_def Let_def split: if_splits)

lemma update_Classes_fk:
  "update_Classes i c t x d = Inr (v, d') \<Longrightarrow> enrollments_fk d' = enrollments_fk d"
  by (rule enrollments_fk_cong) (auto simp: update_Classes_def Let_def split: if_splits)

lemma update_Assignments_fk:
  "update_Assignments i t x due d = Inr (v, d') \<Longrightarrow> enrollments_fk d' = enrollments_fk d"
  by (rule enrollments_fk_cong) (auto simp: update_Assignments_def Let_def split: if_splits)

lemma update_Submissions_fk:
  "update_Submissions i g f d = Inr (v, d') \<Longrightarrow> enrollments_fk d' = enrollments_fk d"
  by (rule enrollments_fk_cong) (auto simp: update_Submissions_def Let_def split: if_splits)

lemma insert_Users_fk:
  assumes "insert_Users now e f r d = Inr (v, d')" and "enrollments_fk d"
  shows "enrollments_fk d'"
proof -
  from assms(1) obtain u where d': "d' = d\<lparr>Users := Users d @ [u]\<rparr>"
    by (auto simp: insert_Users_def Let_def split: if_splits)
  show ?thesis using assms(2) unfolding d' enrollments_fk_def by (simp add: subset_insertI2)
qed

lemma update_Users_fk:
  assumes "update_Users i e f r d = Inr (v, d')" and "enrollments_fk d"
  shows "enrollments_fk d'"
proof -
  from assms(1) have "map u_id (Users d') = map u_id (Users d)" and "Enrollments d' = Enrollments d"
    by (auto simp: update_Users_def Let_def split: if_splits)
  then show ?thesis using assms(2) by (simp add: enrollments_fk_def del: set_map)
qed

lemma delete_Users_fk:
  assumes "delete_Users i d = Inr (v, d')" and "enrollments_fk d"
  shows "enrollments_fk d'"
proof (cases "i \<in> set (map u_id (Users d))")
  case False
  then show ?thesis using assms by (simp add: delete_Users_missing)
next
  case True
  from assms(1) have "Users d' = filter (\<lambda>u. u_id u \<noteq> i) (Users d)"
    and "Enrollments d' = filter (\<lambda>e. e_user_id e \<noteq> i) (Enrollments d)"
    by (auto simp: delete_Users_existing[OF True] split: if_splits)
  then show ?thesis using assms(2) by (auto simp: enrollments_fk_def)
qed

lemma delete_Classes_fk:
  assumes "delete_Classes i d = Inr (v, d')" and "enrollments_fk d"
  shows "enrollments_fk d'"
proof -
  from assms(1) have "Users d' = Users d" and "set (Enrollments d') \<subseteq> set (Enrollments d)"
    by (auto simp: delete_Classes_def Let_def)
  then show ?thesis using assms(2) by (auto simp: enrollments_fk_def)
qed

lemma delete_Enrollments_fk:
  assumes "delete_Enrollments u c d = Inr (v, d')" and "enrollments_fk d"
  shows "enrollments_fk d'"
proof -
  from assms(1) have "Users d' = Users d" and "set (Enrollments d') \<subseteq> set (Enrollments d)"
    by (auto simp: delete_Enrollments_def)
  then show ?thesis using assms(2) by (auto simp: enrollments_fk_def)
qed

lemma insert_Enrollments_fk:
  assumes "insert_Enrollments now u c d = Inr d'" and "enrollments_fk d"
  shows "enrollments_fk d'"
proof -
  from assms(1) have d': "d' = d\<lparr>Enrollments := Enrollments d @
        [\<lparr>e_user_id = u, e_class_id = c, e_enrolled_at = now\<rparr>]\<rparr>"
    and ex: "u \<in> set (map u_id (Users d))"
    by (auto simp: insert_Enrollments_def split: if_splits)
  show ?thesis using assms(2) ex unfolding d' enrollments_fk_def by simp
qed

lemma create_user_fk: "enrollments_fk d \<Longrightarrow> enrollments_fk (snd (create_user now u d))"
  unfolding create_user_def
  by (auto intro!: get_conn_keeps[where P = enrollments_fk] dest: insert_Users_fk
      simp: Let_def split: sum.splits prod.splits if_splits option.splits)

lemma update_user_fk: "enrollments_fk d \<Longrightarrow> enrollments_fk (snd (update_user i p d))"
  unfolding update_user_def
  by (auto intro!: get_conn_keeps[where P = enrollments_fk] dest: update_Users_fk
      simp: Let_def split: sum.splits prod.splits if_splits option.splits)

lemma delete_user_fk: "enrollments_fk d \<Longrightarrow> enrollments_fk (snd (delete_user i d))"
  unfolding delete_user_def
  by (auto intro!: get_conn_keeps[where P = enrollments_fk] dest: delete_Users_fk
      simp: Let_def split: sum.splits prod.splits if_splits option.splits)

lemma create_class_fk: "enrollments_fk d \<Longrightarrow> enrollments_fk (snd (create_class now p d))"
  unfolding create_class_def
  by (auto intro!: get_conn_keeps[where P = enrollments_fk] dest: insert_Classes_fk
      simp: Let_def split: sum.splits prod.splits if_splits option.splits)

lemma update_class_fk: "enrollments_fk d \<Longrightarrow> enrollments_fk (snd (update_class i p d))"
  unfolding update_class_def
  by (auto intro!: get_conn_keeps[where P = enrollments_fk] dest: update_Classes_fk
      simp: Let_def split: sum.splits prod.splits if_splits option.splits)

lemma delete_class_fk: "enrollments_fk d \<Longrightarrow> enrollments_fk (snd (delete_class i d))"
  unfolding delete_class_def
  by (auto intro!: get_conn_keeps[where P = enrollments_fk] dest: delete_Classes_fk
      simp: Let_def split: sum.splits prod.splits if_splits option.splits)

lemma enroll_fk: "enrollments_fk d \<Longrightarrow> enrollments_fk (snd (enroll now p d))"
  unfolding enroll_def
  by (auto intro!: get_conn_keeps[where P = enrollments_fk] dest: insert_Enrollments_fk
      simp: Let_def split: sum.splits prod.splits if_splits option.splits)

lemma unenroll_fk: "enrollments_fk d \<Longrightarrow> enrollments_fk (snd (unenroll u c d))"
  unfolding unenroll_def
  by (auto intro!: get_conn_keeps[where P = enrollments_fk] dest: delete_Enrollments_fk
      simp: Let_def split: sum.splits prod.splits if_splits option.splits)

lemma teacherassigne_fk: "enrollments_fk d \<Longrightarrow> enrollments_fk (snd (teacherassigne p d))"
  unfolding teacherassigne_def
  by (auto intro!: get_conn_keeps[where P = enrollments_fk] dest: insert_TeacherClass_fk
      simp: Let_def split: sum.splits prod.splits if_splits option.splits)

lemma unenroll_teacherassigned_fk: "enrollments_fk d \<Longrightarrow> enrollments_fk (snd (unenroll_teacherassigned t c d))"
  unfolding unenroll_teacherassigned_def
  by (auto intro!: get_conn_keeps[where P = enrollments_fk] dest: delete_TeacherClass_fk
      simp: Let_def split: sum.splits prod.splits if_splits option.splits)

lemma create_assignment_fk: "enrollments_fk d \<Longrightarrow> enrollments_fk (snd (create_assignment now p d))"
  unfolding create_assignment_def
  by (auto intro!: get_conn_keeps[where P = enrollments_fk] dest: insert_Assignments_fk
      simp: Let_def split: sum.splits prod.splits if_splits option.splits)

lemma update_assignment_fk: "enrollments_fk d \<Longrightarrow> enrollments_fk (snd (update_assignment i p d))"
  unfolding update_assignment_def
  by (auto intro!: get_conn_keeps[where P = enrollments_fk] dest: update_Assignments_fk
      simp: Let_def split: sum.splits prod.splits if_splits option.splits)

lemma delete_assignment_fk: "enrollments_fk d \<Longrightarrow> enrollments_fk (snd (delete_assignment i d))"
  unfolding delete_assignment_def
  by (auto intro!: get_conn_keeps[where P = enrollments_fk] dest: delete_Assignments_fk
      simp: Let_def split: sum.splits prod.splits if_splits option.splits)

lemma create_submission_fk: "enrollments_fk d \<Longrightarrow> enrollments_fk (snd (create_submission now p d))"
  unfolding create_submission_def
  by (auto intro!: get_conn_keeps[where P = enrollments_fk] dest: insert_Submissions_fk
      simp: Let_def split: sum.splits prod.splits if_splits option.splits)

lemma update_submission_fk: "enrollments_fk d \<Longrightarrow> enrollments_fk (snd (update_submission i p d))"
  unfolding update_submission_def
  by (auto intro!: get_conn_keeps[where P = enrollments_fk] dest: update_Submissions_fk
      simp: Let_def split: sum.splits prod.splits if_splits option.splits)

lemma delete_submission_fk: "enrollments_fk d \<Longrightarrow> enrollments_fk (snd (delete_submission i d))"
  unfolding delete_submission_def
  by (auto intro!: get_conn_keeps[where P = enrollments_fk] dest: delete_Submissions_fk
      simp: Let_def split: sum.splits prod.splits if_splits option.splits)

lemma create_attachment_fk: "enrollments_fk d \<Longrightarrow> enrollments_fk (snd (create_attachment now p d))"
  unfolding create_attachment_def
  by (auto intro!: get_conn_keeps[where P = enrollments_fk] dest: insert_SubmissionAttachments_fk
      simp: Let_def split: sum.splits prod.splits if_splits option.splits)

lemma delete_attachment_fk: "enrollments_fk d \<Longrightarrow> enrollments_fk (snd (delete_attachment i d))"
  unfolding delete_attachment_def
  by (auto intro!: get_conn_keeps[where P = enrollments_fk] dest: delete_SubmissionAttachments_fk
      simp: Let_def split: sum.splits prod.splits if_splits option.splits)

lemma create_announcement_fk: "enrollments_fk d \<Longrightarrow> enrollments_fk (snd (create_announcement now p d))"
  unfolding create_announcement_def
  by (auto intro!: get_conn_keeps[where P = enrollments_fk] dest: insert_Announcements_fk
      simp: Let_def split: sum.splits prod.splits if_splits option.splits)

lemma delete_announcement_fk: "enrollments_fk d \<Longrightarrow> enrollments_fk (snd (delete_announcement i d))"
  unfolding delete_announcement_def
  by (auto intro!: get_conn_keeps[where P = enrollments_fk] dest: delete_Announcements_fk
      simp: Let_def split: sum.splits prod.splits if_splits option.splits)

lemmas handlers_fk =
  create_user_fk update_user_fk delete_user_fk create_class_fk
  update_class_fk delete_class_fk enroll_fk unenroll_fk
  teacherassigne_fk unenroll_teacherassigned_fk create_assignment_fk update_assignment_fk
  delete_assignment_fk create_submission_fk update_submission_fk delete_submission_fk
  create_attachment_fk delete_attachment_fk create_announcement_fk delete_announcement_fk

lemma crud_create_user_fk: "enrollments_fk d \<Longrightarrow> enrollments_fk (snd (crud_create_user now e f r d))"
  unfolding crud_create_user_def
  by (auto intro!: connect_keeps[where P = enrollments_fk] dest: insert_Users_fk
      simp: returning_None_def split: sum.splits prod.splits if_splits option.splits)

lemma crud_update_user_fk: "enrollments_fk d \<Longrightarrow> enrollments_fk (snd (crud_update_user i e f r d))"
  unfolding crud_update_user_def
  by (auto intro!: connect_keeps[where P = enrollments_fk] dest: update_Users_fk
      simp: returning_None_def split: sum.splits prod.splits if_splits option.splits)

lemma crud_delete_user_fk: "enrollments_fk d \<Longrightarrow> enrollments_fk (snd (crud_delete_user i d))"
  unfolding crud_delete_user_def
  by (auto intro!: connect_keeps[where P = enrollments_fk] dest: delete_Users_fk
      simp: returning_None_def split: sum.splits prod.splits if_splits option.splits)

lemma crud_create_class_fk: "enrollments_fk d \<Longrightarrow> enrollments_fk (snd (crud_create_class now c t x d))"
  unfolding crud_create_class_def
  by (auto intro!: connect_keeps[where P = enrollments_fk] dest: insert_Classes_fk
      simp: returning_None_def split: sum.splits prod.splits if_splits option.splits)

lemma crud_update_class_fk: "enrollments_fk d \<Longrightarrow> enrollments_fk (snd (crud_update_class i c t x d))"
  unfolding crud_update_class_def
  by (auto intro!: connect_keeps[where P = enrollments_fk] dest: update_Classes_fk
      simp: returning_None_def split: sum.splits prod.splits if_splits option.splits)

lemma crud_delete_class_fk: "enrollments_fk d \<Longrightarrow> enrollments_fk (snd (crud_delete_class i d))"
  unfolding crud_delete_class_def
  by (auto intro!: connect_keeps[where P = enrollments_fk] dest: delete_Classes_fk
      simp: returning_None_def split: sum.splits prod.splits if_splits option.splits)

lemma enroll_student_fk: "enrollments_fk d \<Longrightarrow> enrollments_fk (snd (enroll_student now u c d))"
  unfolding enroll_student_def
  by (auto intro!: connect_keeps[where P = enrollments_fk] dest: insert_Enrollments_fk
      simp: returning_None_def split: sum.splits prod.splits if_splits option.splits)

lemma unenroll_student_fk: "enrollments_fk d \<Longrightarrow> enrollments_fk (snd (unenroll_student u c d))"
  unfolding unenroll_student_def
  by (auto intro!: connect_keeps[where P = enrollments_fk] dest: delete_Enrollments_fk
      simp: returning_None_def split: sum.splits prod.splits if_splits option.splits)

lemma assign_teacher_to_class_fk: "enrollments_fk d \<Longrightarrow> enrollments_fk (snd (assign_teacher_to_class t c d))"
  unfolding assign_teacher_to_class_def
  by (auto intro!: connect_keeps[where P = enrollments_fk] dest: delete_Enrollments_fk
      simp: returning_None_def split: sum.splits prod.splits if_splits option.splits)

lemma remove_teacher_from_class_fk: "enrollments_fk d \<Longrightarrow> enrollments_fk (snd (remove_teacher_from_class t c d))"
  unfolding remove_teacher_from_class_def
  by (auto intro!: connect_keeps[where P = enrollments_fk] dest: delete_Enrollments_fk
      simp: returning_None_def split: sum.splits prod.splits if_splits option.splits)

lemma crud_create_assignment_fk: "enrollments_fk d \<Longrightarrow> enrollments_fk (snd (crud_create_assignment now c t x due d))"
  unfolding crud_create_assignment_def
  by (auto intro!: connect_keeps[where P = enrollments_fk] dest: insert_Assignments_fk
      simp: returning_None_def split: sum.splits prod.splits if_splits option.splits)

lemma crud_update_assignment_fk: "enrollments_fk d \<Longrightarrow> enrollments_fk (snd (crud_update_assignment i t x due d))"
  unfolding crud_update_assignment_def
  by (auto intro!: connect_keeps[where P = enrollments_fk] dest: update_Assignments_fk
      simp: returning_None_def split: sum.splits prod.splits if_splits option.splits)

lemma crud_delete_assignment_fk: "enrollments_fk d \<Longrightarrow> enrollments_fk (snd (crud_delete_assignment i d))"
  unfolding crud_delete_assignment_def
  by (auto intro!: connect_keeps[where P = enrollments_fk] dest: delete_Assignments_fk
      simp: returning_None_def split: sum.splits prod.splits if_splits option.splits)

lemma crud_create_submission_fk: "enrollments_fk d \<Longrightarrow> enrollments_fk (snd (crud_create_submission now a s n g f d))"
  unfolding crud_create_submission_def
  by (auto intro!: connect_keeps[where P = enrollments_fk] dest: insert_Submissions_fk
      simp: returning_None_def split: sum.splits prod.splits if_splits option.splits)

lemma add_attachment_fk: "enrollments_fk d \<Longrightarrow> enrollments_fk (snd (add_attachment now i k v d))"
  unfolding add_attachment_def
  by (auto intro!: connect_keeps[where P = enrollments_fk] dest: insert_SubmissionAttachments_fk
      simp: returning_None_def split: sum.splits prod.splits if_splits option.splits)

lemma grade_submission_fk: "enrollments_fk d \<Longrightarrow> enrollments_fk (snd (grade_submission i g f d))"
  unfolding grade_submission_def
  by (auto intro!: connect_keeps[where P = enrollments_fk] dest: update_Submissions_fk
      simp: returning_None_def split: sum.splits prod.splits if_splits option.splits)

lemma crud_delete_submission_fk: "enrollments_fk d \<Longrightarrow> enrollments_fk (snd (crud_delete_submission i d))"
  unfolding crud_delete_submission_def
  by (auto intro!: connect_keeps[where P = enrollments_fk] dest: delete_Submissions_fk
      simp: returning_None_def split: sum.splits prod.splits if_splits option.splits)

lemma crud_create_announcement_fk: "enrollments_fk d \<Longrightarrow> enrollments_fk (snd (crud_create_announcement now c a t b d))"
  unfolding crud_create_announcement_def
  by (auto intro!: connect_keeps[where P = enrollments_fk] dest: insert_Announcements_fk
      simp: returning_None_def split: sum.splits prod.splits if_splits option.splits)

lemma crud_delete_announcement_fk: "enrollments_fk d \<Longrightarrow> enrollments_fk (snd (crud_delete_announcement i d))"
  unfolding crud_delete_announcement_def
  by (auto intro!: connect_keeps[where P = enrollments_fk] dest: delete_Announcements_fk
      simp: returning_None_def split: sum.splits prod.splits if_splits option.splits)

lemmas functions_fk =
  crud_create_user_fk crud_update_user_fk crud_delete_user_fk
  crud_create_class_fk crud_update_class_fk crud_delete_class_fk
  enroll_student_fk unenroll_student_fk assign_teacher_to_class_fk
  remove_teacher_from_class_fk crud_create_assignment_fk crud_update_assignment_fk
  crud_delete_assignment_fk crud_create_submission_fk add_attachment_fk
  grade_submission_fk crud_delete_submission_fk crud_create_announcement_fk
  crud_delete_announcement_fk

lemma enrollments_fk_preserved:
  "enrollments_fk d \<Longrightarrow> enrollments_fk (snd (run now op d))"
  "enrollments_fk d \<Longrightarrow> enrollments_fk (snd (crud_run now cop d))"
proof -
  show "enrollments_fk d \<Longrightarrow> enrollments_fk (snd (run now op d))"
    by (cases op) (simp_all add: respond_fst_snd handlers_fk)
  show "enrollments_fk d \<Longrightarrow> enrollments_fk (snd (crud_run now cop d))"
    by (cases cop) (simp_all add: returned_fst_snd functions_fk)
qed

subsection \<open>The primary keys are kept\<close>

text \<open>
  Every mutating route and function keeps the ids of each table distinct: an insert takes
  an id above all those present, an update does not touch ids, and a delete only removes
  rows.
\<close>

lemma next_rowid_fresh_image: "next_rowid (map key xs) \<notin> key ` set xs"
  using next_rowid_fresh[of "map key xs"] by simp

lemma where_keeps_keys:
  "primary_keys d \<Longrightarrow> primary_keys (delete_SubmissionAttachments_where Q d)"
  "primary_keys d \<Longrightarrow> primary_keys (delete_Submissions_where R d)"
  "primary_keys d \<Longrightarrow> primary_keys (delete_Assignments_where S d)"
  by (simp_all add: primary_keys_def delete_SubmissionAttachments_where_def
      delete_Submissions_where_def delete_Assignments_where_def Let_def distinct_map_filter)

lemma insert_Users_pk:
  "insert_Users now e f r d = Inr (v, d') \<Longrightarrow> primary_keys d \<Longrightarrow> primary_keys d'"
  by (auto simp: insert_Users_def primary_keys_def Let_def next_rowid_fresh_image distinct_map_filter
      delete_SubmissionAttachments_where_def delete_Submissions_where_def
      delete_Assignments_where_def comp_def if_distrib[of u_id] if_distrib[of c_id]
      if_distrib[of a_id] if_distrib[of s_id] cong: if_cong split: if_splits)

lemma insert_Classes_pk:
  "insert_Classes now c t x d = Inr (v, d') \<Longrightarrow> primary_keys d \<Longrightarrow> primary_keys d'"
  by (auto simp: insert_Classes_def primary_keys_def Let_def next_rowid_fresh_image distinct_map_filter
      delete_SubmissionAttachments_where_def delete_Submissions_where_def
      delete_Assignments_where_def comp_def if_distrib[of u_id] if_distrib[of c_id]
      if_distrib[of a_id] if_distrib[of s_id] cong: if_cong split: if_splits)

lemma insert_TeacherClass_pk:
  "insert_TeacherClass t c d = Inr d' \<Longrightarrow> primary_keys d \<Longrightarrow> primary_keys d'"
  by (auto simp: insert_TeacherClass_def primary_keys_def Let_def next_rowid_fresh_image distinct_map_filter
      delete_SubmissionAttachments_where_def delete_Submissions_where_def
      delete_Assignments_where_def comp_def if_distrib[of u_id] if_distrib[of c_id]
      if_distrib[of a_id] if_distrib[of s_id] cong: if_cong split: if_splits)

lemma insert_Enrollments_pk:
  "insert_Enrollments now u c d = Inr d' \<Longrightarrow> primary_keys d \<Longrightarrow> primary_keys d'"
  by (auto simp: insert_Enrollments_def primary_keys_def Let_def next_rowid_fresh_image distinct_map_filter
      delete_SubmissionAttachments_where_def delete_Submissions_where_def
      delete_Assignments_where_def comp_def if_distrib[of u_id] if_distrib[of c_id]
      if_distrib[of a_id] if_distrib[of s_id] cong: if_cong split: if_splits)

lemma insert_Assignments_pk:
  "insert_Assignments now c t x due d = Inr (v, d') \<Longrightarrow> primary_keys d \<Longrightarrow> primary_keys d'"
  by (auto simp: insert_Assignments_def primary_keys_def Let_def next_rowid_fresh_image distinct_map_filter
      delete_SubmissionAttachments_where_def delete_Submissions_where_def
      delete_Assignments_where_def comp_def if_distrib[of u_id] if_distrib[of c_id]
      if_distrib[of a_id] if_distrib[of s_id] cong: if_cong split: if_splits)

lemma insert_Submissions_pk:
  "insert_Submissions now a s n g f d = Inr (v, d') \<Longrightarrow> primary_keys d \<Longrightarrow> primary_keys d'"
  by (auto simp: insert_Submissions_def primary_keys_def Let_def next_rowid_fresh_image distinct_map_filter
      delete_SubmissionAttachments_where_def delete_Submissions_where_def
      delete_Assignments_where_def comp_def if_distrib[of u_id] if_distrib[of c_id]
      if_distrib[of a_id] if_distrib[of s_id] cong: if_cong split: if_splits)

lemma insert_SubmissionAttachments_pk:
  "insert_SubmissionAttachments now i k x d = Inr (v, d') \<Longrightarrow> primary_keys d \<Longrightarrow> primary_keys d'"
  by (auto simp: insert_SubmissionAttachments_def primary_keys_def Let_def next_rowid_fresh_image distinct_map_filter
      delete_SubmissionAttachments_where_def delete_Submissions_where_def
      delete_Assignments_where_def comp_def if_distrib[of u_id] if_distrib[of c_id]
      if_distrib[of a_id] if_distrib[of s_id] cong: if_cong split: if_splits)

lemma insert_Announcements_pk:
  "insert_Announcements now c a t b d = Inr (v, d') \<Longrightarrow> primary_keys d \<Longrightarrow> primary_keys d'"
  by (auto simp: insert_Announcements_def primary_keys_def Let_def next_rowid_fresh_image distinct_map_filter
      delete_SubmissionAttachments_where_def delete_Submissions_where_def
      delete_Assignments_where_def comp_def if_distrib[of u_id] if_distrib[of c_id]
      if_distrib[of a_id] if_distrib[of s_id] cong: if_cong split: if_splits)

lemma delete_Users_pk:
  "delete_Users i d = Inr (v, d') \<Longrightarrow> primary_keys d \<Longrightarrow> primary_keys d'"
  by (auto simp: delete_Users_def primary_keys_def Let_def next_rowid_fresh_image distinct_map_filter
      delete_SubmissionAttachments_where_def delete_Submissions_where_def
      delete_Assignments_where_def comp_def if_distrib[of u_id] if_distrib[of c_id]
      if_distrib[of a_id] if_distrib[of s_id] cong: if_cong split: if_splits)

lemma delete_Classes_pk:
  "delete_Classes i d = Inr (v, d') \<Longrightarrow> primary_keys d \<Longrightarrow> primary_keys d'"
  by (auto simp: delete_Classes_def primary_keys_def Let_def next_rowid_fresh_image distinct_map_filter
      delete_SubmissionAttachments_where_def delete_Submissions_where_def
      delete_Assignments_where_def comp_def if_distrib[of u_id] if_distrib[of c_id]
      if_distrib[of a_id] if_distrib[of s_id] cong: if_cong split: if_splits)

lemma delete_Assignments_pk:
  "delete_Assignments i d = Inr (v, d') \<Longrightarrow> primary_keys d \<Longrightarrow> primary_keys d'"
  by (auto simp: delete_Assignments_def primary_keys_def Let_def next_rowid_fresh_image distinct_map_filter
      delete_SubmissionAttachments_where_def delete_Submissions_where_def
      delete_Assignments_where_def comp_def if_distrib[of u_id] if_distrib[of c_id]
      if_distrib[of a_id] if_distrib[of s_id] cong: if_cong split: if_splits)

lemma delete_Submissions_pk:
  "delete_Submissions i d = Inr (v, d') \<Longrightarrow> primary_keys d \<Longrightarrow> primary_keys d'"
  by (auto simp: delete_Submissions_def primary_keys_def Let_def next_rowid_fresh_image distinct_map_filter
      delete_SubmissionAttachments_where_def delete_Submissions_where_def
      delete_Assignments_where_def comp_def if_distrib[of u_id] if_distrib[of c_id]
      if_distrib[of a_id] if_distrib[of s_id] cong: if_cong split: if_splits)

lemma delete_SubmissionAttachments_pk:
  "delete_SubmissionAttachments i d = Inr (v, d') \<Longrightarrow> primary_keys d \<Longrightarrow> primary_keys d'"
  by (auto simp: delete_SubmissionAttachments_def primary_keys_def Let_def next_rowid_fresh_image distinct_map_filter
      delete_SubmissionAttachments_where_def delete_Submissions_where_def
      delete_Assignments_where_def comp_def if_distrib[of u_id] if_distrib[of c_id]
      if_distrib[of a_id] if_distrib[of s_id] cong: if_cong split: if_splits)

lemma delete_Enrollments_pk:
  "delete_Enrollments u c d = Inr (v, d') \<Longrightarrow> primary_keys d \<Longrightarrow> primary_keys d'"
  by (auto simp: delete_Enrollments_def primary_keys_def Let_def next_rowid_fresh_image distinct_map_filter
      delete_SubmissionAttachments_where_def delete_Submissions_where_def
      delete_Assignments_where_def comp_def if_distrib[of u_id] if_distrib[of c_id]
      if_distrib[of a_id] if_distrib[of s_id] cong: if_cong split: if_splits)

lemma delete_TeacherClass_pk:
  "delete_TeacherClass t c d = Inr (v, d') \<Longrightarrow> primary_keys d \<Longrightarrow> primary_keys d'"
  by (auto simp: delete_TeacherClass_def primary_keys_def Let_def next_rowid_fresh_image distinct_map_filter
      delete_SubmissionAttachments_where_def delete_Submissions_where_def
      delete_Assignments_where_def comp_def if_distrib[of u_id] if_distrib[of c_id]
      if_distrib[of a_id] if_distrib[of s_id] cong: if_cong split: if_splits)

lemma delete_Announcements_pk:
  "delete_Announcements i d = Inr (v, d') \<Longrightarrow> primary_keys d \<Longrightarrow> primary_keys d'"
  by (auto simp: delete_Announcements_def primary_keys_def Let_def next_rowid_fresh_image distinct_map_filter
      delete_SubmissionAttachments_where_def delete_Submissions_where_def
      delete_Assignments_where_def comp_def if_distrib[of u_id] if_distrib[of c_id]
      if_distrib[of a_id] if_distrib[of s_id] cong: if_cong split: if_splits)

lemma update_Users_pk:
  "update_Users i e f r d = Inr (v, d') \<Longrightarrow> primary_keys d \<Longrightarrow> primary_keys d'"
  by (auto simp: update_Users_def primary_keys_def Let_def next_rowid_fresh_image distinct_map_filter
      delete_SubmissionAttachments_where_def delete_Submissions_where_def
      delete_Assignments_where_def comp_def if_distrib[of u_id] if_distrib[of c_id]
      if_distrib[of a_id] if_distrib[of s_id] cong: if_cong split: if_splits)

lemma update_Classes_pk:
  "update_Classes i c t x d = Inr (v, d') \<Longrightarrow> primary_keys d \<Longrightarrow> primary_keys d'"
  by (auto simp: update_Classes_def primary_keys_def Let_def next_rowid_fresh_image distinct_map_filter
      delete_SubmissionAttachments_where_def delete_Submissions_where_def
      delete_Assignments_where_def comp_def if_distrib[of u_id] if_distrib[of c_id]
      if_distrib[of a_id] if_distrib[of s_id] cong: if_cong split: if_splits)

lemma update_Assignments_pk:
  "update_Assignments i t x due d = Inr (v, d') \<Longrightarrow> primary_keys d \<Longrightarrow> primary_keys d'"
  by (auto simp: update_Assignments_def primary_keys_def Let_def next_rowid_fresh_image distinct_map_filter
      delete_SubmissionAttachments_where_def delete_Submissions_where_def
      delete_Assignments_where_def comp_def if_distrib[of u_id] if_distrib[of c_id]
      if_distrib[of a_id] if_distrib[of s_id] cong: if_cong split: if_splits)

lemma update_Submissions_pk:
  "update_Submissions i g f d = Inr (v, d') \<Longrightarrow> primary_keys d \<Longrightarrow> primary_keys d'"
  by (auto simp: update_Submissions_def primary_keys_def Let_def next_rowid_fresh_image distinct_map_filter
      delete_SubmissionAttachments_where_def delete_Submissions_where_def
      delete_Assignments_where_def comp_def if_distrib[of u_id] if_distrib[of c_id]
      if_distrib[of a_id] if_distrib[of s_id] cong: if_cong split: if_splits)

lemma create_user_pk: "primary_keys d \<Longrightarrow> primary_keys (snd (create_user now u d))"
  unfolding create_user_def
  by (auto intro!: get_conn_keeps[where P = primary_keys] dest: insert_Users_pk
      simp: Let_def split: sum.splits prod.splits if_splits option.splits)

lemma update_user_pk: "primary_keys d \<Longrightarrow> primary_keys (snd (update_user i p d))"
  unfolding update_user_def
  by (auto intro!: get_conn_keeps[where P = primary_keys] dest: update_Users_pk
      simp: Let_def split: sum.splits prod.splits if_splits option.splits)

lemma delete_user_pk: "primary_keys d \<Longrightarrow> primary_keys (snd (delete_user i d))"
  unfolding delete_user_def
  by (auto intro!: get_conn_keeps[where P = primary_keys] dest: delete_Users_pk
      simp: Let_def split: sum.splits prod.splits if_splits option.splits)

lemma create_class_pk: "primary_keys d \<Longrightarrow> primary_keys (snd (create_class now p d))"
  unfolding create_class_def
  by (auto intro!: get_conn_keeps[where P = primary_keys] dest: insert_Classes_pk
      simp: Let_def split: sum.splits prod.splits if_splits option.splits)

lemma update_class_pk: "primary_keys d \<Longrightarrow> primary_keys (snd (update_class i p d))"
  unfolding update_class_def
  by (auto intro!: get_conn_keeps[where P = primary_keys] dest: update_Classes_pk
      simp: Let_def split: sum.splits prod.splits if_splits option.splits)

lemma delete_class_pk: "primary_keys d \<Longrightarrow> primary_keys (snd (delete_class i d))"
  unfolding delete_class_def
  by (auto intro!: get_conn_keeps[where P = primary_keys] dest: delete_Classes_pk
      simp: Let_def split: sum.splits prod.splits if_splits option.splits)

lemma enroll_pk: "primary_keys d \<Longrightarrow> primary_keys (snd (enroll now p d))"
  unfolding enroll_def
  by (auto intro!: get_conn_keeps[where P = primary_keys] dest: insert_Enrollments_pk
      simp: Let_def split: sum.splits prod.splits if_splits option.splits)

lemma unenroll_pk: "primary_keys d \<Longrightarrow> primary_keys (snd (unenroll u c d))"
  unfolding unenroll_def
  by (auto intro!: get_conn_keeps[where P = primary_keys] dest: delete_Enrollments_pk
      simp: Let_def split: sum.splits prod.splits if_splits option.splits)

lemma teacherassigne_pk: "primary_keys d \<Longrightarrow> primary_keys (snd (teacherassigne p d))"
  unfolding teacherassigne_def
  by (auto intro!: get_conn_keeps[where P = primary_keys] dest: insert_TeacherClass_pk
      simp: Let_def split: sum.splits prod.splits if_splits option.splits)

lemma unenroll_teacherassigned_pk: "primary_keys d \<Longrightarrow> primary_keys (snd (unenroll_teacherassigned t c d))"
  unfolding unenroll_teacherassigned_def
  by (auto intro!: get_conn_keeps[where P = primary_keys] dest: delete_TeacherClass_pk
      simp: Let_def split: sum.splits prod.splits if_splits option.splits)

lemma create_assignment_pk: "primary_keys d \<Longrightarrow> primary_keys (snd (create_assignment now p d))"
  unfolding create_assignment_def
  by (auto intro!: get_conn_keeps[where P = primary_keys] dest: insert_Assignments_pk
      simp: Let_def split: sum.splits prod.splits if_splits option.splits)

lemma update_assignment_pk: "primary_keys d \<Longrightarrow> primary_keys (snd (update_assignment i p d))"
  unfolding update_assignment_def
  by (auto intro!: get_conn_keeps[where P = primary_keys] dest: update_Assignments_pk
      simp: Let_def split: sum.splits prod.splits if_splits option.splits)

lemma delete_assignment_pk: "primary_keys d \<Longrightarrow> primary_keys (snd (delete_assignment i d))"
  unfolding delete_assignment_def
  by (auto intro!: get_conn_keeps[where P = primary_keys] dest: delete_Assignments_pk
      simp: Let_def split: sum.splits prod.splits if_splits option.splits)

lemma create_submission_pk: "primary_keys d \<Longrightarrow> primary_keys (snd (create_submission now p d))"
  unfolding create_submission_def
  by (auto intro!: get_conn_keeps[where P = primary_keys] dest: insert_Submissions_pk
      simp: Let_def split: sum.splits prod.splits if_splits option.splits)

lemma update_submission_pk: "primary_keys d \<Longrightarrow> primary_keys (snd (update_submission i p d))"
  unfolding update_submission_def
  by (auto intro!: get_conn_keeps[where P = primary_keys] dest: update_Submissions_pk
      simp: Let_def split: sum.splits prod.splits if_splits option.splits)

lemma delete_submission_pk: "primary_keys d \<Longrightarrow> primary_keys (snd (delete_submission i d))"
  unfolding delete_submission_def
  by (auto intro!: get_conn_keeps[where P = primary_keys] dest: delete_Submissions_pk
      simp: Let_def split: sum.splits prod.splits if_splits option.splits)

lemma create_attachment_pk: "primary_keys d \<Longrightarrow> primary_keys (snd (create_attachment now p d))"
  unfolding create_attachment_def
  by (auto intro!: get_conn_keeps[where P = primary_keys] dest: insert_SubmissionAttachments_pk
      simp: Let_def split: sum.splits prod.splits if_splits option.splits)

lemma delete_attachment_pk: "primary_keys d \<Longrightarrow> primary_keys (snd (delete_attachment i d))"
  unfolding delete_attachment_def
  by (auto intro!: get_conn_keeps[where P = primary_keys] dest: delete_SubmissionAttachments_pk
      simp: Let_def split: sum.splits prod.splits if_splits option.splits)

lemma create_announcement_pk: "primary_keys d \<Longrightarrow> primary_keys (snd (create_announcement now p d))"
  unfolding create_announcement_def
  by (auto intro!: get_conn_keeps[where P = primary_keys] dest: insert_Announcements_pk
      simp: Let_def split: sum.splits prod.splits if_splits option.splits)

lemma delete_announcement_pk: "primary_keys d \<Longrightarrow> primary_keys (snd (delete_announcement i d))"
  unfolding delete_announcement_def
  by (auto intro!: get_conn_keeps[where P = primary_keys] dest: delete_Announcements_pk
      simp: Let_def split: sum.splits prod.splits if_splits option.splits)

lemmas handlers_pk =
  create_user_pk update_user_pk delete_user_pk create_class_pk
  update_class_pk delete_class_pk enroll_pk unenroll_pk
  teacherassigne_pk unenroll_teacherassigned_pk create_assignment_pk update_assignment_pk
  delete_assignment_pk create_submission_pk update_submission_pk delete_submission_pk
  create_attachment_pk delete_attachment_pk create_announcement_pk delete_announcement_pk

lemma crud_create_user_pk: "primary_keys d \<Longrightarrow> primary_keys (snd (crud_create_user now e f r d))"
  unfolding crud_create_user_def
  by (auto intro!: connect_keeps[where P = primary_keys] dest: insert_Users_pk
      simp: returning_None_def split: sum.splits prod.splits if_splits option.splits)

lemma crud_update_user_pk: "primary_keys d \<Longrightarrow> primary_keys (snd (crud_update_user i e f r d))"
  unfolding crud_update_user_def
  by (auto intro!: connect_keeps[where P = primary_keys] dest: update_Users_pk
      simp: returning_None_def split: sum.splits prod.splits if_splits option.splits)

lemma crud_delete_user_pk: "primary_keys d \<Longrightarrow> primary_keys (snd (crud_delete_user i d))"
  unfolding crud_delete_user_def
  by (auto intro!: connect_keeps[where P = primary_keys] dest: delete_Users_pk
      simp: returning_None_def split: sum.splits prod.splits if_splits option.splits)

lemma crud_create_class_pk: "primary_keys d \<Longrightarrow> primary_keys (snd (crud_create_class now c t x d))"
  unfolding crud_create_class_def
  by (auto intro!: connect_keeps[where P = primary_keys] dest: insert_Classes_pk
      simp: returning_None_def split: sum.splits prod.splits if_splits option.splits)

lemma crud_update_class_pk: "primary_keys d \<Longrightarrow> primary_keys (snd (crud_update_class i c t x d))"
  unfolding crud_update_class_def
  by (auto intro!: connect_keeps[where P = primary_keys] dest: update_Classes_pk
      simp: returning_None_def split: sum.splits prod.splits if_splits option.splits)

lemma crud_delete_class_pk: "primary_keys d \<Longrightarrow> primary_keys (snd (crud_delete_class i d))"
  unfolding crud_delete_class_def
  by (auto intro!: connect_keeps[where P = primary_keys] dest: delete_Classes_pk
      simp: returning_None_def split: sum.splits prod.splits if_splits option.splits)

lemma enroll_student_pk: "primary_keys d \<Longrightarrow> primary_keys (snd (enroll_student now u c d))"
  unfolding enroll_student_def
  by (auto intro!: connect_keeps[where P = primary_keys] dest: insert_Enrollments_pk
      simp: returning_None_def split: sum.splits prod.splits if_splits option.splits)

lemma unenroll_student_pk: "primary_keys d \<Longrightarrow> primary_keys (snd (unenroll_student u c d))"
  unfolding unenroll_student_def
  by (auto intro!: connect_keeps[where P = primary_keys] dest: delete_Enrollments_pk
      simp: returning_None_def split: sum.splits prod.splits if_splits option.splits)

lemma assign_teacher_to_class_pk: "primary_keys d \<Longrightarrow> primary_keys (snd (assign_teacher_to_class t c d))"
  unfolding assign_teacher_to_class_def
  by (auto intro!: connect_keeps[where P = primary_keys] dest: delete_Enrollments_pk
      simp: returning_None_def split: sum.splits prod.splits if_splits option.splits)

lemma remove_teacher_from_class_pk: "primary_keys d \<Longrightarrow> primary_keys (snd (remove_teacher_from_class t c d))"
  unfolding remove_teacher_from_class_def
  by (auto intro!: connect_keeps[where P = primary_keys] dest: delete_Enrollments_pk
      simp: returning_None_def split: sum.splits prod.splits if_splits option.splits)

lemma crud_create_assignment_pk: "primary_keys d \<Longrightarrow> primary_keys (snd (crud_create_assignment now c t x due d))"
  unfolding crud_create_assignment_def
  by (auto intro!: connect_keeps[where P = primary_keys] dest: insert_Assignments_pk
      simp: returning_None_def split: sum.splits prod.splits if_splits option.splits)

lemma crud_update_assignment_pk: "primary_keys d \<Longrightarrow> primary_keys (snd (crud_update_assignment i t x due d))"
  unfolding crud_update_assignment_def
  by (auto intro!: connect_keeps[where P = primary_keys] dest: update_Assignments_pk
      simp: returning_None_def split: sum.splits prod.splits if_splits option.splits)

lemma crud_delete_assignment_pk: "primary_keys d \<Longrightarrow> primary_keys (snd (crud_delete_assignment i d))"
  unfolding crud_delete_assignment_def
  by (auto intro!: connect_keeps[where P = primary_keys] dest: delete_Assignments_pk
      simp: returning_None_def split: sum.splits prod.splits if_splits option.splits)

lemma crud_create_submission_pk: "primary_keys d \<Longrightarrow> primary_keys (snd (crud_create_submission now a s n g f d))"
  unfolding crud_create_submission_def
  by (auto intro!: connect_keeps[where P = primary_keys] dest: insert_Submissions_pk
      simp: returning_None_def split: sum.splits prod.splits if_splits option.splits)

lemma add_attachment_pk: "primary_keys d \<Longrightarrow> primary_keys (snd (add_attachment now i k v d))"
  unfolding add_attachment_def
  by (auto intro!: connect_keeps[where P = primary_keys] dest: insert_SubmissionAttachments_pk
      simp: returning_None_def split: sum.splits prod.splits if_splits option.splits)

lemma grade_submission_pk: "primary_keys d \<Longrightarrow> primary_keys (snd (grade_submission i g f d))"
  unfolding grade_submission_def
  by (auto intro!: connect_keeps[where P = primary_keys] dest: update_Submissions_pk
      simp: returning_None_def split: sum.splits prod.splits if_splits option.splits)

lemma crud_delete_submission_pk: "primary_keys d \<Longrightarrow> primary_keys (snd (crud_delete_submission i d))"
  unfolding crud_delete_submission_def
  by (auto intro!: connect_keeps[where P = primary_keys] dest: delete_Submissions_pk
      simp: returning_None_def split: sum.splits prod.splits if_splits option.splits)

lemma crud_create_announcement_pk: "primary_keys d \<Longrightarrow> primary_keys (snd (crud_create_announcement now c a t b d))"
  unfolding crud_create_announcement_def
  by (auto intro!: connect_keeps[where P = primary_keys] dest: insert_Announcements_pk
      simp: returning_None_def split: sum.splits prod.splits if_splits option.splits)

lemma crud_delete_announcement_pk: "primary_keys d \<Longrightarrow> primary_keys (snd (crud_delete_announcement i d))"
  unfolding crud_delete_announcement_def
  by (auto intro!: connect_keeps[where P = primary_keys] dest: delete_Announcements_pk
      simp: returning_None_def split: sum.splits prod.splits if_splits option.splits)

lemmas functions_pk =
  crud_create_user_pk crud_update_user_pk crud_delete_user_pk
  crud_create_class_pk crud_update_class_pk crud_delete_class_pk
  enroll_student_pk unenroll_student_pk assign_teacher_to_class_pk
  remove_teacher_from_class_pk crud_create_assignment_pk crud_update_assignment_pk
  crud_delete_assignment_pk crud_create_submission_pk add_attachment_pk
  grade_submission_pk crud_delete_submission_pk crud_create_announcement_pk
  crud_delete_announcement_pk

lemma primary_keys_preserved:
  "primary_keys d \<Longrightarrow> primary_keys (snd (run now op d))"
  "primary_keys d \<Longrightarrow> primary_keys (snd (crud_run now cop d))"
proof -
  show "primary_keys d \<Longrightarrow> primary_keys (snd (run now op d))"
    by (cases op) (simp_all add: respond_fst_snd handlers_pk)
  show "primary_keys d \<Longrightarrow> primary_keys (snd (crud_run now cop d))"
    by (cases cop) (simp_all add: returned_fst_snd functions_pk)
qed

end
